theory Spec2Isabelle
  imports Main "HOL-Library.Char_ord" "HOL-Library.List_Lexorder"
begin

section \<open>Strings\<close>

text \<open>
  Python strings are modelled as \<open>string\<close> (a list of 8-bit characters). The model is
  exact on ASCII text: \<open>length\<close>, slicing, \<open>lower\<close> and the character classes of
  \<open>re\<close> count and classify bytes here, code points in Python.
\<close>

definition code :: "char \<Rightarrow> nat" where
  "code c = of_char c"

definition BS :: char where
  "BS = CHR 0x5C"

definition NL :: char where
  "NL = CHR 0x0A"

definition SQ :: char where
  "SQ = CHR 0x27"

definition DQ :: char where
  "DQ = CHR 0x22"

definition is_space :: "char \<Rightarrow> bool" where
  \<comment> \<open>\<open>str.isspace\<close> and the class \<open>\s\<close> of a str pattern, on ASCII\<close>
  "is_space c = (let n = code c in (9 \<le> n \<and> n \<le> 13) \<or> (28 \<le> n \<and> n \<le> 32))"

definition is_digit :: "char \<Rightarrow> bool" where
  "is_digit c = (let n = code c in 48 \<le> n \<and> n \<le> 57)"

definition is_upper :: "char \<Rightarrow> bool" where
  "is_upper c = (let n = code c in 65 \<le> n \<and> n \<le> 90)"

definition is_lower :: "char \<Rightarrow> bool" where
  "is_lower c = (let n = code c in 97 \<le> n \<and> n \<le> 122)"

definition is_alnum :: "char \<Rightarrow> bool" where
  "is_alnum c = (is_digit c \<or> is_upper c \<or> is_lower c)"

definition is_word :: "char \<Rightarrow> bool" where
  \<comment> \<open>the class \<open>\w\<close>, on ASCII\<close>
  "is_word c = (is_alnum c \<or> c = CHR ''_'')"

definition lower_char :: "char \<Rightarrow> char" where
  "lower_char c = (if is_upper c then char_of (code c + 32) else c)"

definition upper_char :: "char \<Rightarrow> char" where
  "upper_char c = (if is_lower c then char_of (code c - 32) else c)"

definition lower :: "string \<Rightarrow> string" where
  "lower s = map lower_char s"

definition upper :: "string \<Rightarrow> string" where
  "upper s = map upper_char s"

definition strip :: "string \<Rightarrow> string" where
  "strip s = rev (dropWhile is_space (rev (dropWhile is_space s)))"

definition startswith :: "string \<Rightarrow> string \<Rightarrow> bool" where
  "startswith s p = (take (length p) s = p)"

definition endswith :: "string \<Rightarrow> string \<Rightarrow> bool" where
  "endswith s p = (length p \<le> length s \<and> drop (length s - length p) s = p)"

fun contains :: "string \<Rightarrow> string \<Rightarrow> bool" where
  \<comment> \<open>\<open>contains s x\<close> is Python's \<open>x in s\<close>\<close>
  "contains [] x = (x = [])"
| "contains (c # cs) x = (startswith (c # cs) x \<or> contains cs x)"

fun split_on :: "char \<Rightarrow> string \<Rightarrow> string list" where
  \<comment> \<open>\<open>s.split(d)\<close> for a one-character separator\<close>
  "split_on d [] = [[]]"
| "split_on d (c # cs) =
     (if c = d then [] # split_on d cs
      else (case split_on d cs of [] \<Rightarrow> [[c]] | p # ps \<Rightarrow> (c # p) # ps))"

fun join :: "string \<Rightarrow> string list \<Rightarrow> string" where
  \<comment> \<open>\<open>sep.join(parts)\<close>\<close>
  "join sep [] = []"
| "join sep [p] = p"
| "join sep (p # q # ps) = p @ sep @ join sep (q # ps)"

definition last_n :: "nat \<Rightarrow> 'a list \<Rightarrow> 'a list" where
  \<comment> \<open>\<open>xs[-n:]\<close> for \<open>n > 0\<close>\<close>
  "last_n n xs = drop (length xs - n) xs"

fun digits :: "nat \<Rightarrow> nat \<Rightarrow> string" where
  \<comment> \<open>the last \<open>k\<close> decimal digits of \<open>n\<close>, most significant first\<close>
  "digits 0 n = []"
| "digits (Suc k) n = digits k (n div 10) @ [char_of (48 + n mod 10)]"

fun ndigits :: "nat \<Rightarrow> nat \<Rightarrow> nat" where
  \<comment> \<open>the number of decimal digits of \<open>n\<close>, counted with fuel \<open>f > n\<close>\<close>
  "ndigits 0 n = 1"
| "ndigits (Suc f) n = (if n < 10 then 1 else Suc (ndigits f (n div 10)))"

definition str_nat :: "nat \<Rightarrow> string" where
  \<comment> \<open>\<open>str(n)\<close>\<close>
  "str_nat n = digits (ndigits n n) n"

definition fmt_04d :: "nat \<Rightarrow> string" where
  \<comment> \<open>\<open>f"{n:04d}"\<close>: zero-padded to four digits, longer when \<open>n\<close> needs more\<close>
  "fmt_04d n = digits (max 4 (ndigits n n)) n"

definition str_int :: "int \<Rightarrow> string" where
  "str_int i = (if i < 0 then CHR ''-'' # str_nat (nat (- i)) else str_nat (nat i))"

section \<open>Regular expressions\<close>

text \<open>
  The patterns of the source use literals, character classes, \<open>*\<close> and \<open>+\<close> on a
  single class, \<open>\b\<close>, one look-behind, \<open>$\<close>, sequence and alternation. A matcher state
  is the character before the position and the text after it; \<open>rmatch\<close> lists the states
  a pattern can end in, in the order Python's backtracking tries them (greedy first,
  alternatives left to right), so \<open>re.search\<close> succeeds iff some start yields a state.
\<close>

datatype cls =
    CSpace                \<comment> \<open>\<open>\s\<close>\<close>
  | CDot                  \<comment> \<open>\<open>.\<close>: anything but a newline\<close>
  | CIn string            \<comment> \<open>\<open>[...]\<close>\<close>
  | CNotIn string         \<comment> \<open>\<open>[^...]\<close>\<close>
  | CNotSpaceOr string    \<comment> \<open>\<open>[^\s...]\<close>\<close>
  | CAlnumLower           \<comment> \<open>\<open>[a-z0-9]\<close>\<close>
  | CAlnum                \<comment> \<open>\<open>[A-Za-z0-9]\<close>\<close>
  | CDigit                \<comment> \<open>\<open>\d\<close>, on ASCII\<close>
  | CWordC                \<comment> \<open>\<open>[A-Za-z0-9_]\<close>\<close>
  | CAlphaU               \<comment> \<open>\<open>[A-Za-z_]\<close>\<close>

fun cls_mem :: "cls \<Rightarrow> char \<Rightarrow> bool" where
  "cls_mem CSpace c = is_space c"
| "cls_mem CDot c = (c \<noteq> NL)"
| "cls_mem (CIn s) c = (c \<in> set s)"
| "cls_mem (CNotIn s) c = (c \<notin> set s)"
| "cls_mem (CNotSpaceOr s) c = (\<not> is_space c \<and> c \<notin> set s)"
| "cls_mem CAlnumLower c = (is_digit c \<or> is_lower c)"
| "cls_mem CAlnum c = is_alnum c"
| "cls_mem CDigit c = is_digit c"
| "cls_mem CWordC c = is_word c"
| "cls_mem CAlphaU c = (is_upper c \<or> is_lower c \<or> c = CHR ''_'')"

datatype re =
    Lit string            \<comment> \<open>a literal text\<close>
  | LitI string           \<comment> \<open>a literal text under \<open>re.I\<close> (given in lower case)\<close>
  | One cls
  | Star cls
  | Plus cls
  | WordB                 \<comment> \<open>\<open>\b\<close>\<close>
  | NotBehind char        \<comment> \<open>\<open>(?<!c)\<close>\<close>
  | Eol                   \<comment> \<open>\<open>$\<close> without \<open>re.M\<close>\<close>
  | Seq "re list"
  | Alt "re list"

type_synonym mstate = "char option \<times> string"

definition word_before :: "char option \<Rightarrow> bool" where
  "word_before p = (case p of None \<Rightarrow> False | Some c \<Rightarrow> is_word c)"

definition word_after :: "string \<Rightarrow> bool" where
  "word_after s = (case s of [] \<Rightarrow> False | c # _ \<Rightarrow> is_word c)"

fun star_states :: "cls \<Rightarrow> char option \<Rightarrow> string \<Rightarrow> mstate list" where
  "star_states k p [] = [(p, [])]"
| "star_states k p (c # cs) =
     (if cls_mem k c then star_states k (Some c) cs @ [(p, c # cs)] else [(p, c # cs)])"

definition lit_states :: "(char \<Rightarrow> char) \<Rightarrow> string \<Rightarrow> mstate \<Rightarrow> mstate list" where
  "lit_states f l st =
     (case l of [] \<Rightarrow> [st]
      | _ \<Rightarrow> (if map f (take (length l) (snd st)) = l
              then [(Some (snd st ! (length l - 1)), drop (length l) (snd st))] else []))"

fun rmatch :: "re \<Rightarrow> mstate \<Rightarrow> mstate list"
  and rmatch_seq :: "re list \<Rightarrow> mstate \<Rightarrow> mstate list" where
  "rmatch (Lit l) st = lit_states id l st"
| "rmatch (LitI l) st = lit_states lower_char l st"
| "rmatch (One k) st =
     (case snd st of [] \<Rightarrow> [] | c # cs \<Rightarrow> (if cls_mem k c then [(Some c, cs)] else []))"
| "rmatch (Star k) st = star_states k (fst st) (snd st)"
| "rmatch (Plus k) st =
     (case snd st of [] \<Rightarrow> []
      | c # cs \<Rightarrow> (if cls_mem k c then star_states k (Some c) cs else []))"
| "rmatch WordB st = (if word_before (fst st) \<noteq> word_after (snd st) then [st] else [])"
| "rmatch (NotBehind c) st = (if fst st = Some c then [] else [st])"
| "rmatch Eol st = (if snd st = [] \<or> snd st = [NL] then [st] else [])"
| "rmatch (Seq rs) st = rmatch_seq rs st"
| "rmatch (Alt rs) st = concat (map (\<lambda>r. rmatch r st) rs)"
| "rmatch_seq [] st = [st]"
| "rmatch_seq (r # rs) st = concat (map (rmatch_seq rs) (rmatch r st))"

fun search_from :: "re \<Rightarrow> char option \<Rightarrow> string \<Rightarrow> bool" where
  "search_from r p [] = (rmatch r (p, []) \<noteq> [])"
| "search_from r p (c # cs) = (rmatch r (p, c # cs) \<noteq> [] \<or> search_from r (Some c) cs)"

definition re_search :: "re \<Rightarrow> string \<Rightarrow> bool" where
  \<comment> \<open>\<open>bool(re.search(r, s))\<close>\<close>
  "re_search r s = search_from r None s"

definition re_match :: "re \<Rightarrow> string \<Rightarrow> bool" where
  \<comment> \<open>\<open>bool(re.match(r, s))\<close>\<close>
  "re_match r s = (rmatch r (None, s) \<noteq> [])"

definition dot_plus :: "string \<Rightarrow> string option" where
  \<comment> \<open>the group \<open>(.+)\<close> at the end of a pattern: the rest of the line, not empty\<close>
  "dot_plus s = (let g = takeWhile (\<lambda>c. c \<noteq> NL) s in if g = [] then None else Some g)"

definition dot_plus_eol :: "string \<Rightarrow> string option" where
  \<comment> \<open>the group of \<open>(.+)$\<close>: the rest of the text when it is one line, not empty\<close>
  "dot_plus_eol s =
     (if s \<noteq> [] \<and> NL \<notin> set s then Some s
      else if s \<noteq> [] \<and> last s = NL \<and> butlast s \<noteq> [] \<and> NL \<notin> set (butlast s)
      then Some (butlast s) else None)"

definition match_capture :: "re \<Rightarrow> (string \<Rightarrow> string option) \<Rightarrow> mstate \<Rightarrow> string option" where
  \<comment> \<open>group 1 of a pattern \<open>r(...)\<close> matched at one position: the first state of \<open>r\<close>,
      in backtracking order, from which the group matches\<close>
  "match_capture r g st =
     (case filter (\<lambda>x. x \<noteq> None) (map (\<lambda>st'. g (snd st')) (rmatch r st)) of
        [] \<Rightarrow> None | x # _ \<Rightarrow> x)"

fun search_capture_from ::
  "re \<Rightarrow> (string \<Rightarrow> string option) \<Rightarrow> char option \<Rightarrow> string \<Rightarrow> string option" where
  "search_capture_from r g p [] = match_capture r g (p, [])"
| "search_capture_from r g p (c # cs) =
     (case match_capture r g (p, c # cs) of
        Some x \<Rightarrow> Some x
      | None \<Rightarrow> search_capture_from r g (Some c) cs)"

definition search_capture :: "re \<Rightarrow> (string \<Rightarrow> string option) \<Rightarrow> string \<Rightarrow> string option" where
  \<comment> \<open>\<open>re.search(r + group, s).group(1)\<close>, \<open>None\<close> without a match\<close>
  "search_capture r g s = search_capture_from r g None s"

fun tokens_by :: "(char \<Rightarrow> bool) \<Rightarrow> string \<Rightarrow> string list" where
  \<comment> \<open>\<open>re.findall\<close> of \<open>[class]+\<close>: the maximal runs of characters of the class\<close>
  "tokens_by P [] = []"
| "tokens_by P [c] = (if P c then [[c]] else [])"
| "tokens_by P (c # d # ds) =
     (if P c then
        (if P d then (case tokens_by P (d # ds) of [] \<Rightarrow> [[c]] | t # ts \<Rightarrow> (c # t) # ts)
         else [c] # tokens_by P (d # ds))
      else tokens_by P (d # ds))"

definition py_split :: "string \<Rightarrow> string list" where
  \<comment> \<open>\<open>s.split()\<close>\<close>
  "py_split s = tokens_by (\<lambda>c. \<not> is_space c) s"

section \<open>Library functions the source calls\<close>

text \<open>
  \<open>posixpath.join\<close>, \<open>posixpath.normpath\<close> and \<open>shlex.split\<close> of the Python standard
  library, written out from their CPython sources so that the tool belt can be evaluated.
\<close>

definition posix_join :: "string \<Rightarrow> string \<Rightarrow> string" where
  "posix_join a b =
     (if startswith b ''/'' then b
      else if a = [] \<or> endswith a ''/'' then a @ b
      else a @ ''/'' @ b)"

fun normpath_comps :: "string list \<Rightarrow> bool \<Rightarrow> string list \<Rightarrow> string list" where
  "normpath_comps [] rooted acc = acc"
| "normpath_comps (c # cs) rooted acc =
     (if c = [] \<or> c = ''.'' then normpath_comps cs rooted acc
      else if c \<noteq> ''..'' \<or> (\<not> rooted \<and> acc = []) \<or> (acc \<noteq> [] \<and> last acc = ''..'')
      then normpath_comps cs rooted (acc @ [c])
      else if acc \<noteq> [] then normpath_comps cs rooted (butlast acc)
      else normpath_comps cs rooted acc)"

definition normpath :: "string \<Rightarrow> string" where
  "normpath path =
     (if path = [] then ''.''
      else
        (let slashes =
               (if startswith path ''/''
                then (if startswith path ''//'' \<and> \<not> startswith path ''///'' then 2 else 1)
                else (0::nat));
             comps = normpath_comps (split_on (CHR ''/'') path) (slashes \<noteq> 0) [];
             p = replicate slashes (CHR ''/'') @ join ''/'' comps
         in if p = [] then ''.'' else p))"

datatype lex_st = LNone | LWord | LQuote char | LEsc lex_st

definition shlex_ws :: "char \<Rightarrow> bool" where
  "shlex_ws c = (c \<in> set [CHR '' '', CHR 0x09, CHR 0x0D, CHR 0x0A])"

fun shlex_go :: "lex_st \<Rightarrow> string \<Rightarrow> bool \<Rightarrow> string \<Rightarrow> string list option" where
  \<comment> \<open>state, token so far, whether the token had a quote, input left\<close>
  "shlex_go st tok q [] =
     (case st of
        LQuote _ \<Rightarrow> None
      | LEsc _ \<Rightarrow> None
      | _ \<Rightarrow> Some (if tok \<noteq> [] \<or> q then [tok] else []))"
| "shlex_go LNone tok q (c # cs) =
     (if shlex_ws c then shlex_go LNone [] False cs
      else if c = BS then shlex_go (LEsc LWord) tok q cs
      else if c = SQ \<or> c = DQ then shlex_go (LQuote c) tok q cs
      else shlex_go LWord [c] q cs)"
| "shlex_go (LQuote qc) tok q (c # cs) =
     (if c = qc then shlex_go LWord tok True cs
      else if c = BS \<and> qc = DQ then shlex_go (LEsc (LQuote qc)) tok True cs
      else shlex_go (LQuote qc) (tok @ [c]) True cs)"
| "shlex_go (LEsc es) tok q (c # cs) =
     (let tok' = (case es of
                    LQuote qc \<Rightarrow> (if c \<noteq> BS \<and> c \<noteq> qc then tok @ [BS] else tok)
                  | _ \<Rightarrow> tok)
      in shlex_go es (tok' @ [c]) q cs)"
| "shlex_go LWord tok q (c # cs) =
     (if shlex_ws c then
        (if tok \<noteq> [] \<or> q then map_option (Cons tok) (shlex_go LNone [] False cs)
         else shlex_go LNone [] False cs)
      else if c = SQ \<or> c = DQ then shlex_go (LQuote c) tok q cs
      else if c = BS then shlex_go (LEsc LWord) tok q cs
      else shlex_go LWord (tok @ [c]) q cs)"

definition shlex_split :: "string \<Rightarrow> string list option" where
  \<comment> \<open>\<open>shlex.split(s)\<close>; \<open>None\<close> is its ValueError (no closing quotation, no escaped character)\<close>
  "shlex_split s = shlex_go LNone [] False s"

section \<open>The tool belt (agent/tools.py, agent/config.py)\<close>

datatype exn = ValueError string

definition exn_str :: "exn \<Rightarrow> string" where
  "exn_str e = (case e of ValueError m \<Rightarrow> m)"

definition exn_class :: "exn \<Rightarrow> string" where
  "exn_class e = (case e of ValueError _ \<Rightarrow> ''ValueError'')"

definition bs :: "string \<Rightarrow> string" where
  "bs s = BS # s"

definition DENY_PATTERNS :: "(string \<times> re) list" where
  \<comment> \<open>each pattern with its source text, which the error message quotes\<close>
  "DENY_PATTERNS =
    [(bs ''brm'' @ bs ''s+-rf'' @ bs ''b'',
        Seq [WordB, Lit ''rm'', Plus CSpace, Lit ''-rf'', WordB]),
     (bs ''bdd'' @ bs ''b'', Seq [WordB, Lit ''dd'', WordB]),
     (bs ''bmkfs'' @ bs ''b'', Seq [WordB, Lit ''mkfs'', WordB]),
     (bs ''bmount'' @ bs ''b'', Seq [WordB, Lit ''mount'', WordB]),
     (bs ''bsudo'' @ bs ''b'', Seq [WordB, Lit ''sudo'', WordB]),
     (bs ''bchown'' @ bs ''b'', Seq [WordB, Lit ''chown'', WordB]),
     (bs ''bchmod'' @ bs ''b'' @ bs ''s+777'',
        Seq [WordB, Lit ''chmod'', WordB, Plus CSpace, Lit ''777'']),
     ('':'' @ bs ''('' @ bs '')'' @ bs ''s*'' @ bs ''{'' @ bs ''s*:'' @ bs ''s*'' @ bs ''|''
        @ bs ''s*:'' @ bs ''s*&'' @ bs ''s*'' @ bs ''}'' @ bs ''s*;'',
        Seq [Lit '':()'', Star CSpace, Lit ''{'', Star CSpace, Lit '':'', Star CSpace,
             Lit ''|'', Star CSpace, Lit '':'', Star CSpace, Lit ''&'', Star CSpace,
             Lit ''}'', Star CSpace, Lit '';''])]"

definition MAX_TOOL_SECONDS :: nat where
  "MAX_TOOL_SECONDS = 900"

definition VENV_DIR :: string where
  "VENV_DIR = ''/work/.venv''"

record ToolBelt =
  cwd :: string
  env :: "(string \<times> string) list"

definition ToolBelt_init :: ToolBelt where
  "ToolBelt_init = \<lparr>cwd = ''/work'', env = []\<rparr>"

fun replace_char :: "char \<Rightarrow> string \<Rightarrow> string \<Rightarrow> string" where
  \<comment> \<open>\<open>s.replace(c, r)\<close> for a one-character \<open>c\<close>\<close>
  "replace_char c r [] = []"
| "replace_char c r (x # xs) = (if x = c then r @ replace_char c r xs else x # replace_char c r xs)"

definition shlex_quote :: "string \<Rightarrow> string" where
  "shlex_quote s = [SQ] @ replace_char SQ ([SQ, DQ, SQ, DQ, SQ]) s @ [SQ]"

definition deny_check :: "string \<Rightarrow> exn option" where
  \<comment> \<open>\<open>_deny_check\<close>: the exception it raises, \<open>None\<close> when it returns\<close>
  "deny_check cmdline =
     (case filter (\<lambda>pr. re_search (snd pr) cmdline) DENY_PATTERNS of
        [] \<Rightarrow> None
      | pr # _ \<Rightarrow> Some (ValueError (''Denied command pattern matched: '' @ fst pr)))"

definition normalize_cwd :: "ToolBelt \<Rightarrow> string \<Rightarrow> exn + string" where
  "normalize_cwd tb new_cwd0 =
     (let new_cwd = strip new_cwd0 in
      if new_cwd = [] then Inr (cwd tb)
      else
        (let resolved = (if startswith new_cwd ''/'' then normpath new_cwd
                         else normpath (posix_join (cwd tb) new_cwd))
         in if \<not> (resolved = ''/work'' \<or> startswith resolved ''/work/''
                   \<or> resolved = ''/input'' \<or> startswith resolved ''/input/'')
            then Inl (ValueError ''Denied cwd outside /work or /input'')
            else Inr resolved))"

fun split_cmd :: "string \<Rightarrow> string list" where
  \<comment> \<open>\<open>re.split(r"\s*(?:&&|;)\s*", cmdline)\<close> up to the blanks around the separators,
      which the caller strips from every part\<close>
  "split_cmd [] = [[]]"
| "split_cmd [c] = (if c = CHR '';'' then [[], []] else [[c]])"
| "split_cmd (c # d # ds) =
     (if c = CHR '';'' then [] # split_cmd (d # ds)
      else if c = CHR ''&'' \<and> d = CHR ''&'' then [] # split_cmd ds
      else (case split_cmd (d # ds) of [] \<Rightarrow> [[c]] | p # ps \<Rightarrow> (c # p) # ps))"

definition dict_set :: "'k \<Rightarrow> 'v \<Rightarrow> ('k \<times> 'v) list \<Rightarrow> ('k \<times> 'v) list" where
  \<comment> \<open>\<open>d[k] = v\<close> on a dict kept in insertion order\<close>
  "dict_set k v d =
     (if k \<in> set (map fst d) then map (\<lambda>p. if fst p = k then (k, v) else p) d else d @ [(k, v)])"

definition unquote_target :: "string \<Rightarrow> string" where
  "unquote_target target =
     (if (startswith target [DQ] \<and> endswith target [DQ])
         \<or> (startswith target [SQ] \<and> endswith target [SQ])
      then butlast (tl target) else target)"

definition export_token :: "ToolBelt \<Rightarrow> string \<Rightarrow> ToolBelt" where
  "export_token tb tok =
     (if CHR ''='' \<notin> set tok then tb
      else
        (let k = takeWhile (\<lambda>c. c \<noteq> CHR ''='') tok;
             v = tl (dropWhile (\<lambda>c. c \<noteq> CHR ''='') tok)
         in if \<not> re_match (Seq [One CAlphaU, Star CWordC, Eol]) k then tb
            else tb\<lparr>env := dict_set k v (env tb)\<rparr>))"

definition apply_exports :: "ToolBelt \<Rightarrow> string \<Rightarrow> ToolBelt" where
  "apply_exports tb exports =
     (let tokens = (case shlex_split exports of Some ts \<Rightarrow> ts | None \<Rightarrow> py_split exports)
      in foldl export_token tb tokens)"

fun update_parts :: "ToolBelt \<Rightarrow> string list \<Rightarrow> exn option \<times> ToolBelt" where
  \<comment> \<open>the loop over the parts: \<open>continue\<close> recurses, \<open>break\<close> and a raise stop\<close>
  "update_parts tb [] = (None, tb)"
| "update_parts tb (p # ps) =
     (let part = strip p in
      if part = [] then update_parts tb ps
      else
        (case match_capture (Seq [Lit ''cd'', Plus CSpace]) dot_plus_eol (None, part) of
           Some g \<Rightarrow>
             (case normalize_cwd tb (unquote_target (strip g)) of
                Inl e \<Rightarrow> (Some e, tb)
              | Inr d \<Rightarrow> update_parts (tb\<lparr>cwd := d\<rparr>) ps)
         | None \<Rightarrow>
             (case match_capture (Seq [Lit ''export'', Plus CSpace]) dot_plus_eol (None, part) of
                Some g \<Rightarrow> update_parts (apply_exports tb (strip g)) ps
              | None \<Rightarrow> (None, tb))))"

definition update_persistent_state :: "ToolBelt \<Rightarrow> string \<Rightarrow> exn option \<times> ToolBelt" where
  \<comment> \<open>\<open>_update_persistent_state\<close>: the exception it raises, if any, and the belt it leaves\<close>
  "update_persistent_state tb cmdline0 =
     (let cmdline = strip cmdline0 in
      if cmdline = [] then (None, tb) else update_parts tb (split_cmd cmdline))"

definition wrap_cmd :: "ToolBelt \<Rightarrow> string \<Rightarrow> string" where
  "wrap_cmd tb cmdline =
     (let exports = concat (map (\<lambda>kv. ''export '' @ fst kv @ ''='' @ shlex_quote (snd kv) @ ''; '')
                              (sort_key fst (env tb)))
      in ''cd '' @ shlex_quote (cwd tb) @ ''; ''
         @ ''export VIRTUAL_ENV='' @ shlex_quote VENV_DIR @ ''; ''
         @ ''export PATH='' @ shlex_quote (VENV_DIR @ ''/bin'') @ '':$PATH; ''
         @ ''export XDG_CACHE_HOME=/work/.cache; ''
         @ ''export PIP_CACHE_DIR=/work/.cache/pip; ''
         @ ''export NPM_CONFIG_CACHE=/work/.cache/npm; ''
         @ ''export PLAYWRIGHT_BROWSERS_PATH=/work/.cache/ms-playwright; ''
         @ exports @ cmdline)"

record obs =
  o_exit_code :: "int option"
  o_output :: "string option"
  o_cwd :: "string option"
  o_error :: "string option"
  o_error_type :: "string option"
  o_hint :: "string option"

definition obs_empty :: obs where
  "obs_empty = \<lparr>o_exit_code = None, o_output = None, o_cwd = None, o_error = None,
                 o_error_type = None, o_hint = None\<rparr>"

text \<open>
  The sandbox is an external collaborator. A call of \<open>shell\<close> takes the reply the backend
  gives if it is asked (exit code and combined output) and returns, besides the
  observation or the exception, the belt it leaves and the commands it handed to
  \<open>SandboxManager.exec\<close> (none when it raises before the dispatch).
\<close>

type_synonym reply = "int \<times> string"

definition shell :: "ToolBelt \<Rightarrow> string \<Rightarrow> reply \<Rightarrow> (exn + obs) \<times> ToolBelt \<times> string list" where
  "shell tb cmd0 rep =
     (let cmd = strip cmd0 in
      case deny_check cmd of
        Some e \<Rightarrow> (Inl e, tb, [])
      | None \<Rightarrow>
          (case update_persistent_state tb cmd of
             (Some e, tb') \<Rightarrow> (Inl e, tb', [])
           | (None, tb') \<Rightarrow>
               (Inr (obs_empty\<lparr>o_exit_code := Some (fst rep),
                                o_output := Some (last_n 12000 (snd rep)),
                                o_cwd := Some (cwd tb')\<rparr>),
                tb', [wrap_cmd tb' cmd])))"

section \<open>URLs (urllib.parse)\<close>

text \<open>
  \<open>urlparse\<close>, \<open>parse_qs\<close> and \<open>unquote\<close> of the standard library, written out from
  their CPython sources for ASCII text (percent-escapes decode to single bytes). \<open>None\<close>
  is the ValueError of an unbalanced bracket in the network location.
\<close>

record url_parts =
  u_scheme :: string
  u_netloc :: string
  u_path :: string
  u_query :: string

definition is_hex :: "char \<Rightarrow> bool" where
  "is_hex c = (is_digit c \<or> c \<in> set ''abcdefABCDEF'')"

definition hexval :: "char \<Rightarrow> nat" where
  "hexval c = (if is_digit c then code c - 48
               else if is_upper c then code c - 55 else code c - 87)"

fun unquote :: "string \<Rightarrow> string" where
  "unquote (c # h1 # h2 # rest) =
     (if c = CHR ''%'' \<and> is_hex h1 \<and> is_hex h2
      then char_of (16 * hexval h1 + hexval h2) # unquote rest
      else c # unquote (h1 # h2 # rest))"
| "unquote s = s"

definition split_once :: "char \<Rightarrow> string \<Rightarrow> string \<times> string option" where
  \<comment> \<open>\<open>s.split(d, 1)\<close>: the text before the first \<open>d\<close>, and the text after it if there is one\<close>
  "split_once d s =
     (if d \<in> set s then (takeWhile (\<lambda>c. c \<noteq> d) s, Some (tl (dropWhile (\<lambda>c. c \<noteq> d) s)))
      else (s, None))"

definition uses_params :: "string list" where
  "uses_params = [[], ''ftp'', ''hdl'', ''prospero'', ''http'', ''imap'', ''https'', ''shttp'',
                  ''rtsp'', ''rtspu'', ''sip'', ''sips'', ''mms'', ''sftp'', ''tel'']"

definition split_scheme :: "string \<Rightarrow> string \<times> string" where
  "split_scheme url =
     (let pre = takeWhile (\<lambda>c. c \<noteq> CHR '':'') url in
      if CHR '':'' \<in> set url \<and> pre \<noteq> [] \<and> (is_upper (hd pre) \<or> is_lower (hd pre))
         \<and> (\<forall>c \<in> set pre. is_alnum c \<or> c \<in> set ''+-.'')
      then (lower pre, drop (Suc (length pre)) url)
      else ([], url))"

definition split_params :: "string \<Rightarrow> string" where
  \<comment> \<open>the path without the parameters of its last segment\<close>
  "split_params url =
     (let segs = split_on (CHR ''/'') url;
          lastseg = last segs
      in if CHR '';'' \<in> set lastseg
         then take (length url - length lastseg) url @ takeWhile (\<lambda>c. c \<noteq> CHR '';'') lastseg
         else url)"

definition urlparse :: "string \<Rightarrow> url_parts option" where
  "urlparse url0 =
     (let url1 = dropWhile (\<lambda>c. code c \<le> 32) url0;
          url2 = filter (\<lambda>c. c \<notin> set [CHR 0x09, CHR 0x0D, CHR 0x0A]) url1;
          (scheme, url3) = split_scheme url2;
          (netloc, url4) =
             (if startswith url3 ''//''
              then (takeWhile (\<lambda>c. c \<notin> set ''/?#'') (drop 2 url3),
                    dropWhile (\<lambda>c. c \<notin> set ''/?#'') (drop 2 url3))
              else ([], url3))
      in if (CHR ''['' \<in> set netloc \<and> CHR '']'' \<notin> set netloc)
            \<or> (CHR '']'' \<in> set netloc \<and> CHR ''['' \<notin> set netloc)
         then None
         else
           (let url5 = fst (split_once (CHR ''#'') url4);
                (url6, q) = split_once (CHR ''?'') url5;
                path = (if scheme \<in> set uses_params \<and> CHR '';'' \<in> set url6
                        then split_params url6 else url6)
            in Some \<lparr>u_scheme = scheme, u_netloc = netloc, u_path = path,
                      u_query = (case q of None \<Rightarrow> [] | Some x \<Rightarrow> x)\<rparr>))"

definition plus_to_space :: "string \<Rightarrow> string" where
  "plus_to_space s = map (\<lambda>c. if c = CHR ''+'' then CHR '' '' else c) s"

definition parse_qsl :: "string \<Rightarrow> (string \<times> string) list" where
  "parse_qsl qs =
     concat (map (\<lambda>name_value.
               (case split_once (CHR ''='') name_value of
                  (n, Some v) \<Rightarrow>
                    (if v \<noteq> [] then [(unquote (plus_to_space n), unquote (plus_to_space v))]
                     else [])
                | (n, None) \<Rightarrow> []))
             (split_on (CHR ''&'') qs))"

definition qs_first :: "string \<Rightarrow> string \<Rightarrow> string option" where
  \<comment> \<open>\<open>parse_qs(qs)[key][0]\<close> when the key is present\<close>
  "qs_first qs key = map_of (parse_qsl qs) key"

section \<open>The pure helpers of the loop (agent/loop.py)\<close>

datatype notes_mode = Append | Overwrite

definition not_bs_n :: cls where
  \<comment> \<open>the class written \<open>[^\\n]\<close> in the raw patterns: anything but a backslash and the
      letter n\<close>
  "not_bs_n = CNotIn [BS, CHR ''n'']"

definition notes_write_mode :: "string \<Rightarrow> notes_mode option" where
  "notes_write_mode cmd =
     (if cmd = [] \<or> \<not> contains cmd ''notes.md'' then None
      else
        (let c = lower cmd in
         if re_search (Seq [Lit ''>>'', Star CSpace, Star not_bs_n, Lit ''notes.md'']) c
         then Some Append
         else if re_search (Seq [WordB, Lit ''tee'', WordB, Star not_bs_n, One CSpace,
                                 Alt [Lit ''-a'', Lit ''--append''], WordB, Star not_bs_n,
                                 Lit ''notes.md'']) c
         then Some Append
         else if contains c ''notes_append'' then Some Append
         else if re_search (Seq [NotBehind (CHR ''>''), Lit ''>'', Star CSpace, Star not_bs_n,
                                 Lit ''notes.md'']) c
         then Some Overwrite
         else if re_search (Seq [WordB, Lit ''cat'', WordB, Plus CSpace, Lit ''>'', Star CDot,
                                 Lit ''notes.md'']) c
         then Some Overwrite
         else if re_search (Seq [WordB, Lit ''tee'', WordB, Star not_bs_n, Lit ''notes.md'']) c
         then Some Overwrite
         else if re_search (Seq [WordB, Lit ''truncate'', WordB, Star not_bs_n, Lit ''notes.md'']) c
         then Some Overwrite
         else if re_search (Seq [WordB, Lit ''rm'', WordB, Star not_bs_n, Lit ''notes.md'']) c
         then Some Overwrite
         else if re_search (Seq [WordB, Lit ''mv'', WordB, Star not_bs_n, Lit ''notes.md'']) c
         then Some Overwrite
         else if re_search (Seq [WordB, Lit ''cp'', WordB, Star not_bs_n, Lit ''notes.md'']) c
         then Some Overwrite
         else if contains c ''write_text'' \<or> contains c ''write('' \<or> contains c ''notes_reset''
         then Some Overwrite
         else None))"

definition is_notes_append :: "string \<Rightarrow> bool" where
  "is_notes_append cmd = (notes_write_mode cmd = Some Append)"

definition truthy :: "string option \<Rightarrow> bool" where
  \<comment> \<open>the truth value of an optional string: neither \<open>None\<close> nor empty\<close>
  "truthy x = (case x of None \<Rightarrow> False | Some s \<Rightarrow> s \<noteq> [])"

definition or_empty :: "string option \<Rightarrow> string" where
  \<comment> \<open>\<open>x or ""\<close>\<close>
  "or_empty x = (case x of None \<Rightarrow> [] | Some s \<Rightarrow> s)"

definition normalize_domain :: "string option \<Rightarrow> string option" where
  "normalize_domain dmn =
     (case dmn of
        None \<Rightarrow> None
      | Some d0 \<Rightarrow>
          (if d0 = [] then None
           else (let d = lower d0 in Some (if startswith d ''www.'' then drop 4 d else d))))"

definition search_suffixes :: "string list" where
  "search_suffixes = [''google.com'', ''bing.com'', ''duckduckgo.com'', ''search.brave.com'',
                      ''yahoo.com'']"

definition is_search_domain :: "string option \<Rightarrow> bool" where
  "is_search_domain dmn =
     (if \<not> truthy dmn then False
      else (let d = or_empty (normalize_domain dmn) in
            list_ex (\<lambda>x. endswith d x) search_suffixes))"

definition task_stop_words :: "string list" where
  "task_stop_words =
     [''the'', ''a'', ''an'', ''of'', ''for'', ''and'', ''to'', ''in'', ''on'', ''with'', ''by'',
      ''from'', ''official'', ''launch'', ''released'', ''release'', ''version'', ''report'',
      ''true'', ''false'', ''yet'', ''still'', ''actually'', ''already'']"

definition task_domain_tokens :: "string \<Rightarrow> string list" where
  \<comment> \<open>\<open>_task_domain_tokens\<close>; the set is kept as a list without repetition\<close>
  "task_domain_tokens task_text =
     (if task_text = [] then []
      else remdups (filter (\<lambda>tl. tl \<notin> set task_stop_words)
                     (map lower (filter (\<lambda>t. 3 \<le> length t) (tokens_by is_alnum task_text)))))"

definition is_negative_claim_task :: "string \<Rightarrow> bool" where
  "is_negative_claim_task task_text =
     (if task_text = [] then False
      else
        (let t = lower task_text in
         re_search (Seq [WordB, Alt [Lit ''not'', Lit ''no'', Lit ''never'', Lit ''false'',
                                     Lit ''yet'', Lit ''still'', Lit ''actually'', Lit ''really''],
                         WordB]) t
         \<or> re_search (Seq [WordB, Alt [Seq [Lit ''has'', Plus CSpace, Star CDot, Plus CSpace,
                                           Lit ''launched''], Lit ''released''], WordB]) t
         \<or> re_search (Seq [WordB, Alt [Lit ''is'', Lit ''are''], Plus CSpace, Star CDot, WordB,
                           Alt [Lit ''out'', Lit ''launched'', Lit ''released''], WordB]) t))"

definition is_official_domain :: "string list \<Rightarrow> string list \<Rightarrow> string option \<Rightarrow> bool" where
  \<comment> \<open>\<open>_is_official_domain\<close>, given \<open>official_domain_hints\<close> and \<open>task_domain_tokens\<close>\<close>
  "is_official_domain hints toks dmn =
     (if \<not> truthy dmn then False
      else
        (let d = or_empty (normalize_domain dmn) in
         d \<in> set hints
         \<or> endswith d ''.gov'' \<or> endswith d ''.int'' \<or> endswith d ''.eu''
         \<or> list_ex (\<lambda>tok. tok \<noteq> [] \<and> contains d tok) toks))"

definition url_at :: "string \<Rightarrow> string option" where
  \<comment> \<open>the match of \<open>https?://[^\s"'<>]+\<close> that starts at the head of the text\<close>
  "url_at s =
     (let n = (if startswith s ''https://'' then Some 8
               else if startswith s ''http://'' then Some (7::nat) else None) in
      case n of
        None \<Rightarrow> None
      | Some k \<Rightarrow>
          (let body = takeWhile (cls_mem (CNotSpaceOr [DQ, SQ, CHR ''<'', CHR ''>''])) (drop k s)
           in if body = [] then None else Some (take k s @ body)))"

fun urls_scan :: "nat \<Rightarrow> string \<Rightarrow> string list" where
  \<comment> \<open>\<open>re.findall\<close>: left to right, no overlap; the number counts the characters of the
      last match still to skip\<close>
  "urls_scan k [] = []"
| "urls_scan (Suc k) (c # cs) = urls_scan k cs"
| "urls_scan 0 (c # cs) =
     (case url_at (c # cs) of
        Some u \<Rightarrow> u # urls_scan (length u - 1) cs
      | None \<Rightarrow> urls_scan 0 cs)"

definition extract_urls :: "string \<Rightarrow> string list" where
  "extract_urls text = urls_scan 0 text"

definition extract_domain :: "string \<Rightarrow> string option" where
  "extract_domain url =
     (case urlparse url of None \<Rightarrow> None | Some u \<Rightarrow> normalize_domain (Some (u_netloc u)))"

definition strip_slashes :: "string \<Rightarrow> string" where
  \<comment> \<open>\<open>s.strip("/")\<close>\<close>
  "strip_slashes s =
     rev (dropWhile (\<lambda>c. c = CHR ''/'') (rev (dropWhile (\<lambda>c. c = CHR ''/'') s)))"

fun after_marker :: "string \<Rightarrow> string \<Rightarrow> string option" where
  \<comment> \<open>\<open>path.split(marker, 1)[-1]\<close> when the marker is in the path\<close>
  "after_marker m [] = (if m = [] then Some [] else None)"
| "after_marker m (c # cs) =
     (if startswith (c # cs) m then Some (drop (length m) (c # cs)) else after_marker m cs)"

fun query_from_path :: "string list \<Rightarrow> string \<Rightarrow> string option" where
  "query_from_path [] path = None"
| "query_from_path (m # ms) path =
     (case after_marker m path of
        None \<Rightarrow> query_from_path ms path
      | Some t \<Rightarrow>
          (let tail = strip_slashes t in
           if tail \<noteq> [] \<and> length tail < 120
           then Some (map (\<lambda>c. if c = CHR ''_'' then CHR '' '' else c) tail)
           else query_from_path ms path))"

fun first_key :: "string list \<Rightarrow> string \<Rightarrow> string option" where
  "first_key [] qs = None"
| "first_key (k # ks) qs =
     (case qs_first qs k of
        Some v \<Rightarrow> Some (unquote v)
      | None \<Rightarrow> first_key ks qs)"

definition extract_query_from_url :: "string \<Rightarrow> string option" where
  "extract_query_from_url url =
     (case urlparse url of
        None \<Rightarrow> None
      | Some u \<Rightarrow>
          (case first_key [''q'', ''query'', ''search'', ''s'', ''text'', ''keyword'', ''term'']
                  (u_query u) of
             Some q \<Rightarrow> Some q
           | None \<Rightarrow>
               query_from_path [''/search/'', ''/query/'', ''/name/'', ''/compound/name/'', ''/wiki/'']
                 (unquote (u_path u))))"

definition query_stop_words :: "string list" where
  "query_stop_words =
     [''the'', ''a'', ''an'', ''of'', ''for'', ''and'', ''to'', ''in'', ''on'', ''with'', ''by'', ''from'']"

definition normalize_query :: "string \<Rightarrow> string" where
  "normalize_query q =
     (if q = [] then []
      else
        (let q' = lower (unquote q);
             tokens = tokens_by (cls_mem CAlnumLower) q'
         in join '' '' (filter (\<lambda>t. t \<notin> set query_stop_words) tokens)))"

definition classify_source ::
  "string list \<Rightarrow> string list \<Rightarrow> string option \<Rightarrow> string option \<Rightarrow> string" where
  \<comment> \<open>\<open>_classify_source(url, domain)\<close>, given \<open>official_domain_hints\<close> and
      \<open>task_domain_tokens\<close>\<close>
  "classify_source hints toks url dmn =
     (if \<not> truthy dmn then ''unknown''
      else
        (let d = lower (or_empty dmn) in
         if is_official_domain hints toks (Some d) then ''official''
         else if endswith d ''.gov'' \<or> endswith d ''.eu'' \<or> endswith d ''.int''
         then ''regulatory''
         else if list_ex (contains d)
                   [''pubchem'', ''chemspider'', ''drugbank'', ''clinicaltrials'', ''who.int'']
         then ''registry''
         else if list_ex (contains d) [''ncbi.nlm.nih.gov'', ''nih.gov'', ''pubmed'', ''pmc'']
         then ''primary_literature''
         else if list_ex (contains d) [''arxiv.org'', ''biorxiv.org'', ''medrxiv.org'', ''doi.org'']
         then ''primary_literature''
         else if list_ex (contains d) [''wikipedia.org'', ''stackexchange.com'', ''reddit.com'']
         then ''commentary''
         else if truthy url
                 \<and> re_search (Seq [LitI ''.pdf'', Alt [Lit ''?'', Eol]]) (or_empty url)
         then ''primary_literature''
         else ''commentary''))"

definition classify_move ::
  "string option \<Rightarrow> string option \<Rightarrow> string option \<Rightarrow>
   string option \<Rightarrow> string option \<Rightarrow> string option \<Rightarrow> string" where
  \<comment> \<open>\<open>_classify_move\<close>, given \<open>last_domain\<close>, \<open>last_query_family\<close> and
      \<open>last_source_class\<close>\<close>
  "classify_move ld lqf lsc dmn qf sc =
     (if \<not> truthy dmn \<and> \<not> truthy qf then ''non_search''
      else if ld = None then ''initial''
      else if dmn = ld then
        (if truthy qf \<and> qf = lqf then ''retry''
         else if truthy qf \<and> qf \<noteq> lqf then ''reformulate''
         else ''same_domain'')
      else if truthy sc \<and> truthy lsc \<and> sc \<noteq> lsc then ''source_shift''
      else ''domain_shift'')"

definition status_update_re :: re where
  \<comment> \<open>the pattern before the group of \<open>\bSTATUS_UPDATE\s*:\s*(.+)\<close>, under \<open>re.I\<close>\<close>
  "status_update_re = Seq [WordB, LitI ''status_update'', Star CSpace, Lit '':'', Star CSpace]"

definition extract_status_update :: "string \<Rightarrow> string option" where
  "extract_status_update text =
     (if text = [] then None
      else map_option strip (search_capture status_update_re dot_plus text))"

definition evidence_used_re :: re where
  "evidence_used_re = Seq [WordB, LitI ''evidence_used'', Star CSpace, Lit '':'', Star CSpace]"

definition extract_evidence_used :: "(string \<Rightarrow> string list option) \<Rightarrow> string \<Rightarrow> string list" where
  \<comment> \<open>\<open>_extract_evidence_used\<close>. Its first argument stands for \<open>json.loads\<close>: on the text of
      a JSON array it gives \<open>str(x)\<close> of every element, on anything else \<open>None\<close>\<close>
  "extract_evidence_used json_list text =
     (if text = [] then []
      else
        (case search_capture evidence_used_re dot_plus text of
           None \<Rightarrow> []
         | Some g \<Rightarrow>
             (let blob = strip g in
              case json_list blob of
                Some xs \<Rightarrow> filter (\<lambda>x. x \<noteq> []) (map strip xs)
              | None \<Rightarrow> tokens_by (\<lambda>c. c \<noteq> CHR '','' \<and> \<not> is_space c) blob)))"

definition finalization_markers :: "string list" where
  "finalization_markers =
     [''final answer'', ''final output'', ''final deliverable'', ''final deliverables'',
      ''final report'', ''final summary'', ''all the information i need'', ''complete final'',
      ''deliverables as requested'']"

definition finalization_intent :: "string \<Rightarrow> bool" where
  "finalization_intent text =
     (if text = [] then False
      else (let t = lower text in list_ex (contains t) finalization_markers))"

definition writes_final_like_file :: "string \<Rightarrow> bool" where
  "writes_final_like_file cmd =
     (if cmd = [] then False
      else
        (let c = lower cmd in
         if \<not> contains c ''>'' \<and> \<not> contains c ''tee'' then False
         else if \<not> contains c ''/work'' \<and> \<not> contains c ''cd /work'' then False
         else list_ex (contains c)
                [''final'', ''deliverable'', ''answer'', ''summary'', ''report'', ''output'',
                 ''visual'', ''stability'']))"

definition clip_text :: "string \<Rightarrow> nat \<Rightarrow> string" where
  "clip_text text max_chars =
     (if length text \<le> max_chars then text
      else take max_chars text @ ''...[truncated '' @ str_nat (length text - max_chars) @ '' chars]'')"

section \<open>The data of the loop\<close>

text \<open>
  A tool call is a tool name and the dict of its arguments, here string-valued as
  \<open>TOOL_SPEC\<close> declares them. Files are modelled by what the loop appends to them: the
  evidence, move and query ledgers are lists of records, the trace is a list of events.
  \<open>notes.md\<close> lives in the sandbox; what happens to it is what the sandbox is asked to
  run, so the state keeps the list of every command handed to the sandbox, in order.
\<close>

type_synonym args = "(string \<times> string) list"

record tool_call =
  tc_tool :: string
  tc_args :: args

definition args_cmd :: "args \<Rightarrow> string" where
  \<comment> \<open>\<open>args.get("cmd", "")\<close>\<close>
  "args_cmd a = (case map_of a ''cmd'' of None \<Rightarrow> [] | Some c \<Rightarrow> c)"

datatype status = IN_PROGRESS | UNRESOLVED | BLOCKED | VERIFIED

record EpistemicState =
  status :: status
  unresolved :: "string list"
  constraints :: "string list"
  blocked :: "string list"

definition EpistemicState_init :: EpistemicState where
  "EpistemicState_init = \<lparr>status = IN_PROGRESS, unresolved = [], constraints = [], blocked = []\<rparr>"

definition add_constraint :: "string \<Rightarrow> EpistemicState \<Rightarrow> EpistemicState" where
  "add_constraint text e =
     (if text = [] then e
      else if text \<notin> set (constraints e) then e\<lparr>constraints := constraints e @ [text]\<rparr>
      else e)"

definition add_unresolved :: "string \<Rightarrow> EpistemicState \<Rightarrow> EpistemicState" where
  "add_unresolved text e =
     (if text = [] then e
      else if text \<notin> set (unresolved e) then e\<lparr>unresolved := unresolved e @ [text]\<rparr>
      else e)"

definition add_blocked :: "string \<Rightarrow> EpistemicState \<Rightarrow> EpistemicState" where
  "add_blocked text e =
     (if text = [] then e
      else if text \<notin> set (blocked e) then e\<lparr>blocked := blocked e @ [text]\<rparr>
      else e)"

definition set_verified :: "EpistemicState \<Rightarrow> EpistemicState" where
  "set_verified e = e\<lparr>status := VERIFIED, constraints := [], unresolved := [], blocked := []\<rparr>"

record evidence =
  ev_id :: string
  ev_step :: nat
  ev_tool :: string
  ev_args :: args
  ev_obs :: obs
  ev_urls :: "string list"
  ev_failure_type :: "string option"

record move =
  mv_id :: string
  mv_step :: nat
  mv_tool :: string
  mv_cmd :: string
  mv_url :: "string option"
  mv_domain :: "string option"
  mv_query :: "string option"
  mv_query_family :: "string option"
  mv_source_class :: string
  mv_move_type :: string
  mv_move_sig :: string
  mv_failure_type :: "string option"
  mv_outcome :: string

record query_rec =
  q_id :: string
  q_step :: nat
  q_url :: "string option"
  q_domain :: "string option"
  q_query :: "string option"
  q_query_family :: "string option"
  q_source_class :: string
  q_move_type :: string
  q_outcome :: string

text \<open>
  The verifier's gradient, as far as the loop reads it: the (tool, cmd) pairs of the
  suggested tools of its next actions, and the texts the loop turns its \<open>missing\<close> and
  \<open>wrong\<close> entries into.
\<close>

record gradient =
  g_suggested :: "(string \<times> string) list"
  g_missing :: "string list"
  g_wrong :: "string list"

datatype json =
    JNull
  | JBool bool
  | JInt int
  | JStr string
  | JList "json list"
  | JObj "(string \<times> json) list"

record check =
  kind :: string
  claim :: string
  question :: string
  source_hint :: string
  taxonomy :: string

record check_item =
  ci_check :: check
  ci_result :: json

record meta =
  m_gradient :: "gradient option"
  m_n_checks :: "nat option"
  m_instruction_count :: "nat option"
  m_instruction_chars :: "nat option"
  m_instruction_has_url :: "bool option"
  m_instruction_has_path :: "bool option"
  m_instruction_has_cmd :: "bool option"
  m_negative_claim :: "bool option"
  m_needs_coverage :: "bool option"
  m_unknown_checks :: "nat option"
  m_evidence_url_count :: "nat option"
  m_distinct_domains :: "string list option"
  m_distinct_domain_count :: "nat option"
  m_coverage_ok :: "bool option"
  m_score_before_cap :: "int option"
  m_score_capped :: "bool option"
  m_cap_reasons :: "string list option"

definition meta_empty :: meta where
  "meta_empty =
     \<lparr>m_gradient = None, m_n_checks = None, m_instruction_count = None,
      m_instruction_chars = None, m_instruction_has_url = None, m_instruction_has_path = None,
      m_instruction_has_cmd = None, m_negative_claim = None, m_needs_coverage = None,
      m_unknown_checks = None, m_evidence_url_count = None, m_distinct_domains = None,
      m_distinct_domain_count = None, m_coverage_ok = None, m_score_before_cap = None,
      m_score_capped = None, m_cap_reasons = None\<rparr>"

record VerifierDecision =
  score :: int
  explanation :: string
  instructions :: "string list"
  checks :: "check_item list"
  vmeta :: meta

datatype scope = ScAgent | ScRuntime
  \<comment> \<open>\<open>ScAgent\<close>: a \<open>tool\<close> event of the loop, which has no \<open>scope\<close> field;
      \<open>ScRuntime\<close>: \<open>"scope": "runtime"\<close>\<close>

datatype verifier_event =
    VeModel nat nat                 \<comment> \<open>\<open>model\<close>: parent_step, check_idx\<close>
  | VeAssistant nat nat string      \<comment> \<open>\<open>assistant\<close>: parent_step, check_idx, content\<close>
  | VeTool nat nat string args obs
      \<comment> \<open>\<open>tool\<close> with \<open>"scope": "verifier"\<close>: parent_step, check_idx, tool, args, obs;
          it has no \<open>step\<close> field\<close>

datatype notes_text =
    TaskHeader string                            \<comment> \<open>the text of the initial reset\<close>
  | StepBlock nat string args obs "string option"  \<comment> \<open>step, TOOL, ARGS, OBS, EVIDENCE_ID\<close>
  | ModelOutput nat string string                \<comment> \<open>step, tag, snippet\<close>

datatype sandbox_call =
    AgentShell string               \<comment> \<open>a model-initiated command, wrapped by the belt\<close>
  | RuntimeNotesReset notes_text
  | RuntimeNotesAppend notes_text
  | RuntimeLedgerInit
  | VerifierShell string            \<comment> \<open>a command of the verifier's mini-agent\<close>

datatype trace_event =
    EvTask string
  | EvSandbox
  | EvAssistant nat string
  | EvModelIO nat
  | EvModel nat
  | EvTool scope "nat option" string args "obs option"
      \<comment> \<open>a \<open>tool\<close> event: scope, the \<open>step\<close> field if it has one, tool, args, obs\<close>
  | EvPolicy string nat             \<comment> \<open>a \<open>policy_*\<close> event: its kind and step\<close>
  | EvVerifier nat VerifierDecision
  | EvVerifierToAgent nat int
  | EvVerifierGradient nat
  | EvAgentFromVerifier nat
  | EvVerifierInner verifier_event  \<comment> \<open>an event the verifier passes to \<open>trace_cb\<close>\<close>

datatype message =
    Assistant string
  | User string
  | UserObservation string obs      \<comment> \<open>the user message "OBSERVATION:" with tool and obs\<close>
  | UserFeedback VerifierDecision   \<comment> \<open>the user message \<open>format_verifier_feedback\<close> renders\<close>

record config =
  task :: string
  max_steps :: int
  NOTES_UPDATE_INTERVAL :: int
  NEGATIVE_CLAIM_MIN_OFFICIAL :: int
  NEGATIVE_CLAIM_MIN_INDEPENDENT :: int
  negative_claim_budget_steps :: int
  DOMAIN_SHIFT_LIMIT :: int
  STAGNATION_LIMIT :: int
  FAILURE_ESCALATION_LIMIT :: int
  QUERY_MUTATION_BUDGET :: int
  MOVE_REPEAT_LIMIT :: int
  json_list :: "string \<Rightarrow> string list option"

definition max_verifier_rounds :: nat where
  "max_verifier_rounds = 8"

record loop_state =
  step :: nat
  history :: "message list"
  last_resp :: string
  verifier_rounds :: nat
  pending_gradient :: "gradient option"
  gradient_reminders :: nat
  tool_calls_made :: nat
  pre_tool_nudges :: nat
  length_nudges :: nat
  finalization_hits :: nat
  stagnation_streak :: nat
  last_failure_type :: "string option"
  last_failure_streak :: nat
  last_source_class :: "string option"
  source_class_failure_streak :: nat
  force_tool_next :: bool
  force_query_mutation :: bool
  force_move_change :: bool
  force_source_shift :: bool
  force_domain_shift :: bool
  parse_error_hits :: nat
  notes_required :: bool
  epistemic :: EpistemicState
  evidence_counter :: nat
  move_counter :: nat
  query_counter :: nat
  evidence_ids :: "string list"
  last_evidence_count :: nat
  last_move_sig :: "string option"
  last_move_type :: "string option"
  last_domain :: "string option"
  last_domain_key :: "string option"
  last_query_family :: "string option"
  move_repeat_streak :: nat
  domain_same_streak :: nat
  recent_query_families :: "string list"
  official_domain_hints :: "string list"
  official_domains_checked :: "string list"
  independent_domains_checked :: "string list"
  domain_attempts :: "(string \<times> nat) list"
  tb :: ToolBelt
  trace :: "trace_event list"
  evidence_file :: "evidence list"
  move_ledger :: "move list"
  query_ledger :: "query_rec list"
  sandbox_log :: "sandbox_call list"
  raised :: "exn option"
    \<comment> \<open>the exception that has left \<open>runtime_shell\<close>, if one has: nothing catches it, so no
        statement of \<open>run_agent\<close> runs after it\<close>

definition set_add :: "'a \<Rightarrow> 'a list \<Rightarrow> 'a list" where
  \<comment> \<open>\<open>s.add(x)\<close> on a set kept as a list without repetition\<close>
  "set_add x xs = (if x \<in> set xs then xs else xs @ [x])"

definition deque_append :: "nat \<Rightarrow> 'a \<Rightarrow> 'a list \<Rightarrow> 'a list" where
  \<comment> \<open>\<open>append\<close> on a \<open>deque(maxlen=m)\<close>\<close>
  "deque_append m x xs = last_n m (xs @ [x])"

definition trace_event :: "trace_event \<Rightarrow> loop_state \<Rightarrow> loop_state" where
  "trace_event e st = st\<lparr>trace := trace st @ [e]\<rparr>"

definition history_append :: "message \<Rightarrow> loop_state \<Rightarrow> loop_state" where
  "history_append m st = st\<lparr>history := history st @ [m]\<rparr>"

section \<open>The scripts of the runtime\<close>

text \<open>
  The runtime writes \<open>notes.md\<close> through the belt, as a Python here-document that carries
  the text base64-encoded. The text of a step block is built with \<open>json.dumps\<close>
  (\<open>ensure_ascii=False\<close>) of the arguments and of the observation. A string stands for the
  UTF-8 bytes of a Python string here: escaping and base64 are exact on them, and the
  slices of the note texts count code points, as lead bytes.
\<close>

definition is_cont :: "char \<Rightarrow> bool" where
  \<comment> \<open>a continuation byte of UTF-8\<close>
  "is_cont c = (128 \<le> code c \<and> code c < 192)"

fun take_chars :: "nat \<Rightarrow> string \<Rightarrow> string" where
  \<comment> \<open>\<open>s[:n]\<close>, counted in code points\<close>
  "take_chars n [] = []"
| "take_chars n (c # cs) =
     (if is_cont c then c # take_chars n cs
      else (case n of 0 \<Rightarrow> [] | Suc k \<Rightarrow> c # take_chars k cs))"

definition length_chars :: "string \<Rightarrow> nat" where
  \<comment> \<open>\<open>len(s)\<close>, counted in code points\<close>
  "length_chars s = length (filter (\<lambda>c. \<not> is_cont c) s)"

definition b64_char :: "nat \<Rightarrow> char" where
  "b64_char n = ''ABCDEFGHIJKLMNOPQRSTUVWXYZabcdefghijklmnopqrstuvwxyz0123456789+/'' ! n"

fun b64encode :: "string \<Rightarrow> string" where
  \<comment> \<open>\<open>base64.b64encode\<close>\<close>
  "b64encode [] = []"
| "b64encode [a] =
     [b64_char (code a div 4), b64_char (code a mod 4 * 16), CHR ''='', CHR ''='']"
| "b64encode [a, b] =
     [b64_char (code a div 4), b64_char (code a mod 4 * 16 + code b div 16),
      b64_char (code b mod 16 * 4), CHR ''='']"
| "b64encode (a # b # c # cs) =
     [b64_char (code a div 4), b64_char (code a mod 4 * 16 + code b div 16),
      b64_char (code b mod 16 * 4 + code c div 64), b64_char (code c mod 64)] @ b64encode cs"

definition hex_lower :: "nat \<Rightarrow> char" where
  "hex_lower n = ''0123456789abcdef'' ! n"

definition json_escape :: "char \<Rightarrow> string" where
  \<comment> \<open>what \<open>json.dumps\<close> writes for a character of a string, with \<open>ensure_ascii=False\<close>\<close>
  "json_escape c =
     (if c = DQ then [BS, DQ]
      else if c = BS then [BS, BS]
      else if c = NL then [BS, CHR ''n'']
      else if c = CHR 0x0D then [BS, CHR ''r'']
      else if c = CHR 0x09 then [BS, CHR ''t'']
      else if c = CHR 0x08 then [BS, CHR ''b'']
      else if c = CHR 0x0C then [BS, CHR ''f'']
      else if code c < 32
      then [BS, CHR ''u'', CHR ''0'', CHR ''0'', hex_lower (code c div 16), hex_lower (code c mod 16)]
      else [c])"

definition json_str :: "string \<Rightarrow> string" where
  "json_str s = [DQ] @ concat (map json_escape s) @ [DQ]"

definition json_dict :: "(string \<times> string) list \<Rightarrow> string" where
  \<comment> \<open>a dict whose values are already written\<close>
  "json_dict kvs =
     ''{'' @ join '', '' (map (\<lambda>kv. json_str (fst kv) @ '': '' @ snd kv) kvs) @ ''}''"

definition json_args :: "args \<Rightarrow> string" where
  "json_args a = json_dict (map (\<lambda>kv. (fst kv, json_str (snd kv))) a)"

definition json_obs :: "obs \<Rightarrow> string" where
  \<comment> \<open>the keys of an observation come in the order in which the loop and the belt set
      them, which is the order of the fields\<close>
  "json_obs ob =
     json_dict
       ((case o_exit_code ob of None \<Rightarrow> [] | Some c \<Rightarrow> [(''exit_code'', str_int c)])
        @ (case o_output ob of None \<Rightarrow> [] | Some x \<Rightarrow> [(''output'', json_str x)])
        @ (case o_cwd ob of None \<Rightarrow> [] | Some x \<Rightarrow> [(''cwd'', json_str x)])
        @ (case o_error ob of None \<Rightarrow> [] | Some x \<Rightarrow> [(''error'', json_str x)])
        @ (case o_error_type ob of None \<Rightarrow> [] | Some x \<Rightarrow> [(''error_type'', json_str x)])
        @ (case o_hint ob of None \<Rightarrow> [] | Some x \<Rightarrow> [(''hint'', json_str x)]))"

definition render_note :: "notes_text \<Rightarrow> string" where
  \<comment> \<open>the text that \<open>notes_reset\<close> or \<open>notes_append\<close> is called with\<close>
  "render_note t =
     (case t of
        TaskHeader x \<Rightarrow> x
      | StepBlock n tool a ob eid \<Rightarrow>
          [NL, NL] @ ''## Step '' @ str_nat n @ [NL]
          @ ''TOOL: '' @ tool @ [NL]
          @ ''ARGS: '' @ json_args a @ [NL]
          @ ''OBS: '' @ take_chars 2000 (json_obs ob) @ [NL]
          @ ''EVIDENCE_ID: '' @ (case eid of None \<Rightarrow> ''None'' | Some e \<Rightarrow> e) @ [NL]
      | ModelOutput n tag snippet \<Rightarrow>
          [NL, NL] @ ''## Step '' @ str_nat n @ '' (model_output:'' @ tag @ '')'' @ [NL]
          @ snippet @ [NL])"

definition script_head :: string where
  "script_head = ''python3 - <<'' @ [SQ] @ ''PY'' @ [SQ, NL]"

definition decode_line :: "string \<Rightarrow> string" where
  "decode_line b64 =
     ''data = base64.b64decode('' @ [SQ] @ b64 @ [SQ] @ '').decode('' @ [SQ] @ ''utf-8'' @ [SQ]
     @ '', errors='' @ [SQ] @ ''replace'' @ [SQ] @ '')'' @ [NL]"

definition notes_path_lines :: string where
  "notes_path_lines =
     ''p = Path('' @ [SQ] @ ''/work/notes.md'' @ [SQ] @ '')'' @ [NL]
     @ ''p.parent.mkdir(parents=True, exist_ok=True)'' @ [NL]"

definition print_ok :: string where
  "print_ok = ''print('' @ [SQ] @ ''OK'' @ [SQ] @ '')'' @ [NL] @ ''PY''"

definition notes_reset_script :: "string \<Rightarrow> string" where
  "notes_reset_script text =
     script_head @ ''import base64'' @ [NL] @ ''from pathlib import Path'' @ [NL]
     @ decode_line (b64encode text) @ notes_path_lines
     @ ''p.write_text(data, encoding='' @ [SQ] @ ''utf-8'' @ [SQ] @ '', errors='' @ [SQ]
     @ ''replace'' @ [SQ] @ '')'' @ [NL]
     @ print_ok"

definition notes_append_script :: "string \<Rightarrow> string" where
  "notes_append_script text =
     script_head @ ''import base64'' @ [NL] @ ''from pathlib import Path'' @ [NL]
     @ decode_line (b64encode text) @ notes_path_lines
     @ ''with p.open('' @ [SQ] @ ''a'' @ [SQ] @ '', encoding='' @ [SQ] @ ''utf-8'' @ [SQ]
     @ '', errors='' @ [SQ] @ ''replace'' @ [SQ] @ '') as f:'' @ [NL]
     @ ''    f.write(data)'' @ [NL]
     @ print_ok"

definition ledger_init_script :: string where
  "ledger_init_script =
     script_head @ ''from pathlib import Path'' @ [NL]
     @ ''for name in ('' @ [SQ] @ ''evidence.jsonl'' @ [SQ] @ '','' @ [SQ] @ ''move_ledger.jsonl''
     @ [SQ] @ '','' @ [SQ] @ ''query_ledger.jsonl'' @ [SQ] @ ''):'' @ [NL]
     @ ''    p = Path('' @ [SQ] @ ''/work'' @ [SQ] @ '') / name'' @ [NL]
     @ ''    if not p.exists():'' @ [NL]
     @ ''        p.write_text('' @ [SQ, SQ] @ '', encoding='' @ [SQ] @ ''utf-8'' @ [SQ]
     @ '', errors='' @ [SQ] @ ''replace'' @ [SQ] @ '')'' @ [NL]
     @ print_ok"

text \<open>
  \<open>runtime_shell\<close> hands a script of the runtime to \<open>ToolBelt.shell\<close>, like a call of the
  model, and traces a \<open>tool\<close> event of scope runtime with step 0. The deny check of the
  belt reads the whole script, so also the base64 text: its \<open>ValueError\<close> is caught
  nowhere and ends \<open>run_agent\<close>. The arguments and the reply of the sandbox only go to the
  trace event and are left out.
\<close>

definition runtime_shell :: "string \<Rightarrow> sandbox_call \<Rightarrow> loop_state \<Rightarrow> loop_state" where
  "runtime_shell script c st =
     (case shell (tb st) script (0, []) of
        (Inl e, tb', cmds) \<Rightarrow> st\<lparr>tb := tb', raised := Some e\<rparr>
      | (Inr ob, tb', cmds) \<Rightarrow>
          trace_event (EvTool ScRuntime (Some 0) ''shell'' [] None)
            (st\<lparr>tb := tb', sandbox_log := sandbox_log st @ [c]\<rparr>))"

definition unless_raised :: "(loop_state \<Rightarrow> loop_state) \<Rightarrow> loop_state \<Rightarrow> loop_state" where
  \<comment> \<open>the statements that follow a call of the runtime shell: they run if it returned\<close>
  "unless_raised f st = (if raised st = None then f st else st)"

definition notes_reset :: "notes_text \<Rightarrow> loop_state \<Rightarrow> loop_state" where
  "notes_reset t st = runtime_shell (notes_reset_script (render_note t)) (RuntimeNotesReset t) st"

definition notes_append :: "notes_text \<Rightarrow> loop_state \<Rightarrow> loop_state" where
  "notes_append t st = runtime_shell (notes_append_script (render_note t)) (RuntimeNotesAppend t) st"

definition MAX_MODEL_NOTE_CHARS :: nat where
  "MAX_MODEL_NOTE_CHARS = 6000"

definition model_snippet :: "string \<Rightarrow> string" where
  \<comment> \<open>the snippet of a response that \<open>log_model_output\<close> writes to the notes\<close>
  "model_snippet resp_text =
     (let snippet0 = strip resp_text
      in if length_chars snippet0 > MAX_MODEL_NOTE_CHARS
         then take_chars MAX_MODEL_NOTE_CHARS snippet0 @ [NL] @ ''... [truncated]''
         else snippet0)"

definition log_model_output :: "string \<Rightarrow> string \<Rightarrow> loop_state \<Rightarrow> loop_state" where
  "log_model_output resp_text tag st =
     (if resp_text = [] then st
      else notes_append (ModelOutput (step st) tag (model_snippet resp_text)) st)"

definition evidence_id :: "nat \<Rightarrow> string" where
  \<comment> \<open>\<open>f"ev_{evidence_counter:04d}"\<close>\<close>
  "evidence_id n = ''ev_'' @ fmt_04d n"

definition or_else :: "string \<Rightarrow> string \<Rightarrow> string" where
  \<comment> \<open>\<open>a or b\<close> on strings\<close>
  "or_else a b = (if a \<noteq> [] then a else b)"

definition failure_type_of :: "string \<Rightarrow> string \<Rightarrow> obs \<Rightarrow> string" where
  \<comment> \<open>the \<open>failure_type\<close> that \<open>record_evidence\<close> derives (empty for none), given the tool,
      its \<open>cmd\<close> and the observation\<close>
  "failure_type_of tool cmd ob =
     (let output = or_empty (o_output ob);
          error_type = or_empty (o_error_type ob);
          error_msg = or_empty (o_error ob);
          f0 = (if startswith error_type ''notes_'' then []
                else if error_type \<noteq> [] \<or> error_msg \<noteq> [] then or_else error_type ''tool_error''
                else if (case o_exit_code ob of None \<Rightarrow> False | Some c \<Rightarrow> c \<noteq> 0)
                then ''tool_error'' else [])
      in if tool = ''shell'' \<and> cmd \<noteq> [] then
           (let f1 = (if re_search (Seq [WordB, Alt [LitI ''403'', LitI ''forbidden'',
                                                    LitI ''access denied'', LitI ''captcha'',
                                                    LitI ''cloudflare''], WordB]) output
                      then or_else f0 ''access_blocked'' else f0);
                f2 = (if re_search (Seq [WordB, Alt [LitI ''401'', LitI ''unauthorized''], WordB])
                           output
                      then or_else f1 ''auth_required'' else f1);
                f3 = (if re_search (Seq [WordB, Alt [LitI ''429'', LitI ''rate limit'',
                                                    LitI ''too many requests''], WordB]) output
                      then or_else f2 ''rate_limited'' else f2);
                f4 = (if (contains cmd ''curl'' \<or> contains cmd ''wget'') \<and> strip output = []
                      then or_else f3 ''empty_response'' else f3)
            in f4)
         else f0)"

definition record_evidence ::
  "string \<Rightarrow> args \<Rightarrow> obs \<Rightarrow> loop_state \<Rightarrow> string option \<times> loop_state" where
  \<comment> \<open>\<open>record_evidence(step, tool, args, obs)\<close>: the id it returns and the state it leaves.
      Writing the file is taken to succeed, so the \<open>except\<close> branch is never entered.\<close>
  "record_evidence tool a ob st =
     (let n = Suc (evidence_counter st);
          eid = evidence_id n;
          cmd = (if tool = ''shell'' then args_cmd a else []);
          output = or_empty (o_output ob);
          urls = extract_urls (cmd @ [NL] @ output);
          ft = failure_type_of tool cmd ob;
          st1 = st\<lparr>evidence_counter := n\<rparr>;
          st2 = (if ft \<noteq> [] then
                   (let st' = (if Some ft = last_failure_type st1
                               then st1\<lparr>last_failure_streak := Suc (last_failure_streak st1)\<rparr>
                               else st1\<lparr>last_failure_type := Some ft, last_failure_streak := 1\<rparr>);
                        detail = (if cmd \<noteq> [] then ft @ '': '' @ take 200 cmd else ft)
                    in st'\<lparr>epistemic := (add_blocked detail (epistemic st'))\<lparr>status := BLOCKED\<rparr>\<rparr>)
                 else st1\<lparr>last_failure_type := None, last_failure_streak := 0\<rparr>);
          ev = \<lparr>ev_id = eid, ev_step = step st, ev_tool = tool, ev_args = a,
                ev_obs = obs_empty\<lparr>o_exit_code := o_exit_code ob,
                                    o_error_type := o_error_type ob,
                                    o_error := o_error ob,
                                    o_output := Some (clip_text output 2000)\<rparr>,
                ev_urls = take 20 urls,
                ev_failure_type = (if ft \<noteq> [] then Some ft else None)\<rparr>
      in (Some eid,
          st2\<lparr>evidence_file := evidence_file st2 @ [ev],
               evidence_ids := set_add eid (evidence_ids st2)\<rparr>))"

definition record_move ::
  "string \<Rightarrow> string \<Rightarrow> string option \<Rightarrow> string option \<Rightarrow> string option \<Rightarrow> string option \<Rightarrow>
   string \<Rightarrow> string \<Rightarrow> string \<Rightarrow> string option \<Rightarrow> string \<Rightarrow> loop_state \<Rightarrow> loop_state" where
  "record_move tool cmd url dmn query qf sc mt ms ft outcome st =
     (let n = Suc (move_counter st) in
      st\<lparr>move_counter := n,
          move_ledger := move_ledger st @
            [\<lparr>mv_id = ''mv_'' @ fmt_04d n, mv_step = step st, mv_tool = tool, mv_cmd = cmd,
              mv_url = url, mv_domain = dmn, mv_query = query, mv_query_family = qf,
              mv_source_class = sc, mv_move_type = mt, mv_move_sig = ms,
              mv_failure_type = ft, mv_outcome = outcome\<rparr>]\<rparr>)"

definition record_query ::
  "string option \<Rightarrow> string option \<Rightarrow> string option \<Rightarrow> string option \<Rightarrow>
   string \<Rightarrow> string \<Rightarrow> string \<Rightarrow> loop_state \<Rightarrow> loop_state" where
  "record_query url dmn query qf sc mt outcome st =
     (let n = Suc (query_counter st) in
      st\<lparr>query_counter := n,
          query_ledger := query_ledger st @
            [\<lparr>q_id = ''q_'' @ fmt_04d n, q_step = step st, q_url = url, q_domain = dmn,
              q_query = query, q_query_family = qf, q_source_class = sc, q_move_type = mt,
              q_outcome = outcome\<rparr>]\<rparr>)"

section \<open>The tool branch of a turn\<close>

text \<open>
  What the loop derives from a call before any gate: the command, its notes mode, the
  primary URL with its domain, query and query family, the source class, the move type
  and the move signature.
\<close>

record derived =
  dv_cmd :: string
  dv_notes_mode :: "notes_mode option"
  dv_primary_url :: "string option"
  dv_domain :: "string option"
  dv_query :: "string option"
  dv_query_family :: "string option"
  dv_source_class :: string
  dv_move_type :: string
  dv_move_sig :: string

definition or_dash :: "string option \<Rightarrow> string" where
  \<comment> \<open>\<open>x or '-'\<close>\<close>
  "or_dash x = (if truthy x then or_empty x else ''-'')"

definition classify_call :: "config \<Rightarrow> loop_state \<Rightarrow> tool_call \<Rightarrow> derived" where
  "classify_call cfg st call =
     (let tool = tc_tool call;
          cmd = args_cmd (tc_args call);
          nm = (if tool = ''shell'' then notes_write_mode cmd else None);
          urls = (if tool = ''shell'' then extract_urls cmd else []);
          primary_url = (case urls of [] \<Rightarrow> None | u # _ \<Rightarrow> Some u);
          dmn = (case primary_url of None \<Rightarrow> None | Some u \<Rightarrow> extract_domain u);
          query = (case primary_url of None \<Rightarrow> None | Some u \<Rightarrow> extract_query_from_url u);
          qf = (if truthy query then Some (normalize_query (or_empty query)) else None);
          sc = classify_source (official_domain_hints st) (task_domain_tokens (task cfg))
                 primary_url dmn;
          mt = classify_move (last_domain st) (last_query_family st) (last_source_class st)
                 dmn qf (Some sc);
          ms = mt @ '':'' @ or_dash dmn @ '':'' @ or_dash qf
      in \<lparr>dv_cmd = cmd, dv_notes_mode = nm, dv_primary_url = primary_url, dv_domain = dmn,
          dv_query = query, dv_query_family = qf, dv_source_class = sc, dv_move_type = mt,
          dv_move_sig = ms\<rparr>)"

definition policy_choice :: "loop_state \<Rightarrow> loop_state" where
  \<comment> \<open>a pending gradient is compared with the call (a traced metric only) and dropped\<close>
  "policy_choice st =
     (case pending_gradient st of
        None \<Rightarrow> st
      | Some g \<Rightarrow>
          (trace_event (EvPolicy ''policy_choice'' (step st)) st)
            \<lparr>pending_gradient := None, gradient_reminders := 0\<rparr>)"

definition obs_error :: "string \<Rightarrow> string \<Rightarrow> obs" where
  "obs_error msg et = obs_empty\<lparr>o_error := Some msg, o_error_type := Some et\<rparr>"

definition obs_notes_overwrite :: obs where
  "obs_notes_overwrite =
     obs_error ''Action Blocked: Overwriting notes.md is not allowed. Use append (>> or tee -a).''
       ''notes_overwrite_blocked''"

definition obs_notes_required :: obs where
  "obs_notes_required =
     obs_error ''Action Blocked: You must update notes.md first (append-only).''
       ''notes_update_required''"

definition obs_query_mutation :: "config \<Rightarrow> loop_state \<Rightarrow> obs" where
  "obs_query_mutation cfg st =
     obs_error (''Action Blocked: query mutation required before retrying. Need ''
                  @ str_int (QUERY_MUTATION_BUDGET cfg) @ '' distinct query families; seen ''
                  @ str_nat (length (recent_query_families st)) @ ''.'')
       ''query_mutation_required''"

definition obs_domain_shift :: obs where
  "obs_domain_shift =
     obs_error (''Action Blocked: domain shift required for negative-claim tasks. ''
                  @ ''Use a different domain to meet official/independent source minimums.'')
       ''domain_shift_required''"

definition observe :: "string \<Rightarrow> tool_call \<Rightarrow> obs \<Rightarrow> loop_state \<Rightarrow> string option \<times> loop_state" where
  \<comment> \<open>what every blocked branch does first: the policy event, the observation in the
      history, the \<open>tool\<close> event, the evidence record\<close>
  "observe pk call ob st =
     record_evidence (tc_tool call) (tc_args call) ob
       (trace_event (EvTool ScAgent (Some (step st)) (tc_tool call) (tc_args call) (Some ob))
          (history_append (UserObservation (tc_tool call) ob)
             (trace_event (EvPolicy pk (step st)) st)))"

definition note_step :: "tool_call \<Rightarrow> obs \<Rightarrow> string option \<Rightarrow> loop_state \<Rightarrow> loop_state" where
  \<comment> \<open>\<open>tool_calls_made += 1\<close> and the step block appended to the notes\<close>
  "note_step call ob eid st =
     notes_append (StepBlock (step st) (tc_tool call) (tc_args call) ob eid)
       (st\<lparr>tool_calls_made := Suc (tool_calls_made st)\<rparr>)"

definition reset_stagnation :: "loop_state \<Rightarrow> loop_state" where
  \<comment> \<open>the three assignments before \<open>continue\<close>\<close>
  "reset_stagnation st =
     st\<lparr>force_tool_next := False, stagnation_streak := 0,
        last_evidence_count := length (evidence_ids st)\<rparr>"

definition settle :: "tool_call \<Rightarrow> obs \<Rightarrow> string option \<Rightarrow> loop_state \<Rightarrow> loop_state" where
  \<comment> \<open>what a blocked branch does last: count the call, append the step block to the
      notes, reset the stagnation counters\<close>
  "settle call ob eid st = unless_raised reset_stagnation (note_step call ob eid st)"

definition ledger_move :: "tool_call \<Rightarrow> derived \<Rightarrow> string \<Rightarrow> loop_state \<Rightarrow> loop_state" where
  \<comment> \<open>\<open>record_move\<close> with the call's derived fields and the current \<open>last_failure_type\<close>\<close>
  "ledger_move call d outcome st =
     record_move (tc_tool call) (dv_cmd d) (dv_primary_url d) (dv_domain d) (dv_query d)
       (dv_query_family d) (dv_source_class d) (dv_move_type d) (dv_move_sig d)
       (last_failure_type st) outcome st"

definition ledger_query :: "derived \<Rightarrow> string \<Rightarrow> loop_state \<Rightarrow> loop_state" where
  "ledger_query d outcome st =
     record_query (dv_primary_url d) (dv_domain d) (dv_query d) (dv_query_family d)
       (dv_source_class d) (dv_move_type d) outcome st"

definition block_notes_overwrite :: "tool_call \<Rightarrow> loop_state \<Rightarrow> loop_state" where
  "block_notes_overwrite call st =
     (case observe ''policy_notes_guard'' call obs_notes_overwrite st of
        (eid, st1) \<Rightarrow> settle call obs_notes_overwrite eid st1)"

definition block_notes_required :: "tool_call \<Rightarrow> loop_state \<Rightarrow> loop_state" where
  "block_notes_required call st =
     (case observe ''policy_notes_gate'' call obs_notes_required st of
        (eid, st1) \<Rightarrow> settle call obs_notes_required eid st1)"

definition block_query_mutation :: "config \<Rightarrow> tool_call \<Rightarrow> derived \<Rightarrow> loop_state \<Rightarrow> loop_state" where
  "block_query_mutation cfg call d st =
     (let ob = obs_query_mutation cfg st in
      case observe ''policy_query_mutation'' call ob st of
        (eid, st1) \<Rightarrow>
          unless_raised (\<lambda>st3. reset_stagnation (st3\<lparr>force_query_mutation := True\<rparr>))
            (note_step call ob eid
               (ledger_query d ''blocked'' (ledger_move call d ''blocked'' st1))))"

definition block_domain_shift :: "tool_call \<Rightarrow> derived \<Rightarrow> loop_state \<Rightarrow> loop_state" where
  "block_domain_shift call d st =
     (case observe ''policy_domain_shift'' call obs_domain_shift st of
        (eid, st1) \<Rightarrow>
          (let st2 = ledger_move call d ''blocked'' st1;
               st3 = (if truthy (dv_query_family d) then ledger_query d ''blocked'' st2 else st2)
           in settle call obs_domain_shift eid st3))"

definition run_tool :: "tool_call \<Rightarrow> reply \<Rightarrow> loop_state \<Rightarrow> obs \<times> loop_state" where
  \<comment> \<open>the \<open>try\<close> block of an accepted call: the observation and the state it leaves. An
      exception of the belt becomes an observation with \<open>error\<close> and \<open>error_type\<close>.\<close>
  "run_tool call rep st =
     (if tc_tool call \<noteq> ''shell'' then
        (obs_empty\<lparr>o_error := Some (''Unknown tool (shell-only mode): '' @ tc_tool call),
                   o_hint := Some (''Use the shell tool only. If you need the internet, ''
                                   @ ''do it from the shell.'')\<rparr>, st)
      else
        (case shell (tb st) (args_cmd (tc_args call)) rep of
           (r, tb', cmds) \<Rightarrow>
             (let st' = st\<lparr>tb := tb', sandbox_log := sandbox_log st @ map AgentShell cmds\<rparr>;
                  c = args_cmd (tc_args call)
              in case r of
                   Inl e \<Rightarrow> (obs_error (exn_str e) (exn_class e), st')
                 | Inr ob \<Rightarrow>
                     (if o_exit_code ob \<noteq> Some 0 \<and> contains c ''echo'' \<and> contains c [SQ]
                         \<and> contains (or_empty (o_output ob)) ''command not found''
                      then ob\<lparr>o_hint := Some (''Check your quotes. You might have an unescaped ''
                                              @ ''single quote inside a single-quoted string.'')\<rparr>
                      else ob, st'))))"

definition negative_claim_task :: "config \<Rightarrow> bool" where
  "negative_claim_task cfg = is_negative_claim_task (task cfg)"

definition note_domain :: "config \<Rightarrow> derived \<Rightarrow> loop_state \<Rightarrow> loop_state" where
  \<comment> \<open>the bookkeeping under \<open>if domain_key:\<close> after an executed call\<close>
  "note_domain cfg d st =
     (if \<not> truthy (dv_domain d) then st
      else
        (let dk = or_empty (dv_domain d);
             n = (case map_of (domain_attempts st) dk of None \<Rightarrow> 0 | Some k \<Rightarrow> k);
             st1 = st\<lparr>domain_attempts := dict_set dk (Suc n) (domain_attempts st)\<rparr>;
             st2 = (if negative_claim_task cfg \<and> \<not> is_search_domain (Some dk)
                       \<and> official_domain_hints st1 = []
                    then st1\<lparr>official_domain_hints := set_add dk (official_domain_hints st1)\<rparr>
                    else st1);
             is_official =
               (is_official_domain (official_domain_hints st2) (task_domain_tokens (task cfg))
                  (Some dk)
                \<or> dv_source_class d \<in> set [''official'', ''regulatory'', ''registry'']);
             st3 = (if is_official
                    then st2\<lparr>official_domains_checked := set_add dk (official_domains_checked st2)\<rparr>
                    else if \<not> is_search_domain (Some dk)
                    then st2\<lparr>independent_domains_checked :=
                               set_add dk (independent_domains_checked st2)\<rparr>
                    else st2);
             st4 = (if last_domain_key st3 = Some dk
                    then st3\<lparr>domain_same_streak := Suc (domain_same_streak st3)\<rparr>
                    else st3\<lparr>domain_same_streak := 0, force_domain_shift := False\<rparr>)
         in st4\<lparr>last_domain_key := Some dk\<rparr>))"

definition note_query :: "config \<Rightarrow> derived \<Rightarrow> loop_state \<Rightarrow> loop_state" where
  "note_query cfg d st =
     (if truthy (dv_query_family d) \<and> or_empty (dv_query_family d) \<notin> set (recent_query_families st)
      then st\<lparr>recent_query_families :=
                 deque_append (nat (max (QUERY_MUTATION_BUDGET cfg) 1))
                   (or_empty (dv_query_family d)) (recent_query_families st),
               force_query_mutation := False\<rparr>
      else st)"

definition note_move :: "derived \<Rightarrow> loop_state \<Rightarrow> loop_state" where
  "note_move d st =
     (let st1 = (if Some (dv_move_sig d) = last_move_sig st \<and> Some (dv_move_type d) = last_move_type st
                 then st\<lparr>move_repeat_streak := Suc (move_repeat_streak st)\<rparr>
                 else st\<lparr>move_repeat_streak := 0, force_move_change := False\<rparr>);
          st2 = (if truthy (dv_domain d) then st1\<lparr>last_domain := dv_domain d\<rparr> else st1);
          st3 = (if truthy (dv_query_family d) then st2\<lparr>last_query_family := dv_query_family d\<rparr>
                 else st2)
      in st3\<lparr>last_move_sig := Some (dv_move_sig d), last_move_type := Some (dv_move_type d)\<rparr>)"

definition note_source :: "config \<Rightarrow> derived \<Rightarrow> string option \<Rightarrow> loop_state \<Rightarrow> loop_state" where
  "note_source cfg d failure_type st =
     (let sc = dv_source_class d in
      if sc = [] then st
      else
        (let st1 = (if last_source_class st = Some sc \<and> truthy failure_type
                    then st\<lparr>source_class_failure_streak := Suc (source_class_failure_streak st)\<rparr>
                    else st\<lparr>source_class_failure_streak := 0\<rparr>);
             st2 = (if int (source_class_failure_streak st1) \<ge> FAILURE_ESCALATION_LIMIT cfg
                       \<and> truthy failure_type
                    then st1\<lparr>force_source_shift := True,
                             epistemic := add_constraint
                               (''Source class stalled: '' @ sc @ '' failed ''
                                @ str_nat (source_class_failure_streak st1) @ '' times'')
                               (epistemic st1)\<rparr>
                    else st1);
             st3 = (if Some sc \<noteq> last_source_class st2 then st2\<lparr>force_source_shift := False\<rparr>
                    else st2)
         in st3\<lparr>last_source_class := Some sc\<rparr>))"

definition note_move_stagnation :: "config \<Rightarrow> derived \<Rightarrow> loop_state \<Rightarrow> loop_state" where
  "note_move_stagnation cfg d st =
     (if status (epistemic st) = UNRESOLVED \<and> int (move_repeat_streak st) \<ge> MOVE_REPEAT_LIMIT cfg
      then st\<lparr>force_move_change := True,
              epistemic := add_constraint
                (''Move stagnation: repeated '' @ dv_move_type d @ '' ''
                 @ str_nat (move_repeat_streak st) @ '' times'')
                (epistemic st)\<rparr>
      else st)"

datatype outcome = Continue | Return string | Raise exn
  \<comment> \<open>how a stretch of the loop ends: with \<open>continue\<close> (or by falling through), with
      \<open>return\<close> of a text, or with an exception that nothing catches\<close>

definition outcome_of :: "loop_state \<Rightarrow> outcome \<Rightarrow> outcome" where
  "outcome_of st oc = (case raised st of None \<Rightarrow> oc | Some e \<Rightarrow> Raise e)"

definition finalization_stop_msg :: string where
  "finalization_stop_msg =
     ''Final deliverables appear to be written under /work. Stopping to prevent a tool loop.''"

definition dispatch :: "tool_call \<Rightarrow> reply \<Rightarrow> loop_state \<Rightarrow> obs \<times> string option \<times> loop_state" where
  \<comment> \<open>an accepted call up to \<open>tool_calls_made += 1\<close>: the \<open>try\<close> block, the observation in
      the history, the \<open>tool\<close> event, the evidence record. It gives the observation, the id
      of the evidence and the state.\<close>
  "dispatch call rep st =
     (let r = run_tool call rep st;
          ob = fst r;
          st1 = snd r;
          ev = record_evidence (tc_tool call) (tc_args call) ob
                 (trace_event (EvTool ScAgent (Some (step st1)) (tc_tool call) (tc_args call)
                                 (Some ob))
                    (history_append (UserObservation (tc_tool call) ob) st1));
          st2 = snd ev
      in (ob, fst ev, st2\<lparr>tool_calls_made := Suc (tool_calls_made st2)\<rparr>))"

definition write_ledgers ::
  "tool_call \<Rightarrow> derived \<Rightarrow> obs \<Rightarrow> string option \<Rightarrow> loop_state \<Rightarrow> loop_state" where
  \<comment> \<open>from \<open>failure_type = last_failure_type\<close> to the step block appended to the notes\<close>
  "write_ledgers call d ob eid st3 =
     (let failure_type = last_failure_type st3;
          outc = (if \<not> truthy failure_type then ''ok'' else ''failed'');
          st4 = ledger_move call d outc st3;
          st5 = (if truthy (dv_query_family d) then ledger_query d outc st4 else st4);
          st6 = (if notes_required st5 \<and> tc_tool call = ''shell''
                    \<and> dv_notes_mode d = Some Append
                 then st5\<lparr>notes_required := False\<rparr> else st5)
      in notes_append (StepBlock (step st6) (tc_tool call) (tc_args call) ob eid) st6)"

definition update_streaks :: "config \<Rightarrow> derived \<Rightarrow> string option \<Rightarrow> loop_state \<Rightarrow> loop_state" where
  \<comment> \<open>from \<open>if domain_key:\<close> to \<open>last_evidence_count = len(evidence_ids)\<close>\<close>
  "update_streaks cfg d failure_type st7 =
     (let st8 = note_domain cfg d st7;
          st9 = note_query cfg d st8;
          st10 = note_move d st9;
          st11 = note_source cfg d failure_type st10;
          st12 = note_move_stagnation cfg d st11
      in st12\<lparr>force_tool_next := False, stagnation_streak := 0,
               last_evidence_count := length (evidence_ids st12)\<rparr>)"

definition finalization_stop :: "string \<Rightarrow> tool_call \<Rightarrow> loop_state \<Rightarrow> outcome \<times> loop_state" where
  \<comment> \<open>the end of the loop body: the stop of a response that keeps finalizing\<close>
  "finalization_stop resp call st13 =
     (if tc_tool call = ''shell'' \<and> finalization_intent resp
         \<and> writes_final_like_file (args_cmd (tc_args call))
      then
        (let st14 = trace_event (EvPolicy ''policy_finalization_stop'' (step st13))
                      (st13\<lparr>finalization_hits := Suc (finalization_hits st13)\<rparr>)
         in if finalization_hits st14 \<ge> 3 then (Return finalization_stop_msg, st14)
            else (Continue, st14))
      else (Continue, st13))"

definition execute_call ::
  "config \<Rightarrow> string \<Rightarrow> tool_call \<Rightarrow> reply \<Rightarrow> derived \<Rightarrow> loop_state \<Rightarrow> outcome \<times> loop_state" where
  \<comment> \<open>an accepted call, from the dispatch to the end of the loop body\<close>
  "execute_call cfg resp call rep d st =
     (case dispatch call rep st of
        (ob, eid, st3) \<Rightarrow>
          (let st7 = write_ledgers call d ob eid st3 in
           case raised st7 of
             Some e \<Rightarrow> (Raise e, st7)
           | None \<Rightarrow>
               finalization_stop resp call (update_streaks cfg d (last_failure_type st3) st7)))"

definition overwrite_gate :: "tool_call \<Rightarrow> derived \<Rightarrow> bool" where
  "overwrite_gate call d = (tc_tool call = ''shell'' \<and> dv_notes_mode d = Some Overwrite)"

definition notes_gate :: "loop_state \<Rightarrow> tool_call \<Rightarrow> derived \<Rightarrow> bool" where
  "notes_gate st call d =
     (notes_required st \<and> tc_tool call = ''shell'' \<and> dv_notes_mode d \<noteq> Some Append)"

definition query_gate :: "config \<Rightarrow> loop_state \<Rightarrow> tool_call \<Rightarrow> derived \<Rightarrow> bool" where
  "query_gate cfg st call d =
     (tc_tool call = ''shell'' \<and> truthy (dv_query_family d)
      \<and> or_empty (dv_query_family d) \<in> set (recent_query_families st)
      \<and> int (length (recent_query_families st)) < QUERY_MUTATION_BUDGET cfg)"

definition minima_met :: "config \<Rightarrow> loop_state \<Rightarrow> bool" where
  "minima_met cfg st =
     (int (length (official_domains_checked st)) \<ge> NEGATIVE_CLAIM_MIN_OFFICIAL cfg
      \<and> int (length (independent_domains_checked st)) \<ge> NEGATIVE_CLAIM_MIN_INDEPENDENT cfg)"

definition raise_domain_shift :: "config \<Rightarrow> derived \<Rightarrow> loop_state \<Rightarrow> loop_state" where
  "raise_domain_shift cfg d st =
     (if negative_claim_task cfg \<and> truthy (dv_domain d) \<and> last_domain_key st = dv_domain d
         \<and> int (domain_same_streak st) \<ge> DOMAIN_SHIFT_LIMIT cfg
         \<and> \<not> minima_met cfg st
      then st\<lparr>force_domain_shift := True\<rparr> else st)"

definition domain_gate :: "config \<Rightarrow> loop_state \<Rightarrow> derived \<Rightarrow> bool" where
  "domain_gate cfg st d =
     (negative_claim_task cfg \<and> force_domain_shift st \<and> truthy (dv_domain d)
      \<and> last_domain_key st = dv_domain d)"

definition blocked_by :: "loop_state \<Rightarrow> outcome \<times> loop_state" where
  \<comment> \<open>the end of a blocked branch: \<open>continue\<close>, unless the note of the step has raised\<close>
  "blocked_by st = (outcome_of st Continue, st)"

definition tool_call_step ::
  "config \<Rightarrow> string \<Rightarrow> tool_call \<times> reply \<Rightarrow> loop_state \<Rightarrow> outcome \<times> loop_state" where
  \<comment> \<open>the body of \<open>for call in tool_calls\<close> for one call; the reply is what the sandbox
      answers if the call is dispatched\<close>
  "tool_call_step cfg resp cr st0 =
     (let call = fst cr;
          st = policy_choice st0;
          d = classify_call cfg st call
      in if overwrite_gate call d then blocked_by (block_notes_overwrite call st)
         else if notes_gate st call d then blocked_by (block_notes_required call st)
         else if query_gate cfg st call d then blocked_by (block_query_mutation cfg call d st)
         else
           (let st' = raise_domain_shift cfg d st in
            if domain_gate cfg st' d then blocked_by (block_domain_shift call d st')
            else execute_call cfg resp call (snd cr) d st'))"

fun tool_calls_loop ::
  "config \<Rightarrow> string \<Rightarrow> (tool_call \<times> reply) list \<Rightarrow> loop_state \<Rightarrow> outcome \<times> loop_state" where
  "tool_calls_loop cfg resp [] st = (Continue, st)"
| "tool_calls_loop cfg resp (cr # crs) st =
     (case tool_call_step cfg resp cr st of
        (Continue, st') \<Rightarrow> tool_calls_loop cfg resp crs st'
      | (oc, st') \<Rightarrow> (oc, st'))"

section \<open>A turn of the loop\<close>

text \<open>
  The model, the parser (agent/parse.py) and the verifier's own model calls are outside this
  development. A turn takes what they produce: the response with its finish reason, the
  tool calls \<open>_extract_tool_calls\<close> finds in it (each with the reply the sandbox gives if
  the call is dispatched), the result of \<open>parse_with_thought\<close>, and what \<open>deep_verify\<close>
  yields if the turn invokes it: its decision, the events it traces, the commands its
  mini-agents hand to the sandbox and the belt they leave. Building the prompt only feeds the
  model and the \<open>model_io\<close> event and is left out.
\<close>

record parsed =
  p_error :: "string option"
  p_tool_name :: "string option"
  p_tool_args :: args
  p_final :: "string option"        \<comment> \<open>\<open>str(tool_args.get("final"))\<close> if that is true\<close>

record verifier_run =
  vr_decision :: VerifierDecision
  vr_events :: "verifier_event list"
  vr_sandbox :: "string list"
  vr_tb :: ToolBelt

record turn_input =
  ti_resp :: string
  ti_finish_reason :: "string option"
  ti_tool_calls :: "(tool_call \<times> reply) list"
  ti_parsed :: parsed
  ti_parsed_reply :: reply
  ti_verifier :: verifier_run

definition nudge_stagnation :: "config \<Rightarrow> loop_state \<Rightarrow> string" where
  "nudge_stagnation cfg st =
     ''STAGNATION DETECTED: You must run a tool now to obtain new evidence.''
     @ (if truthy (last_failure_type st)
        then '' Previous failures: '' @ or_empty (last_failure_type st)
             @ ''. Try a different source/tool.''
        else [])
     @ (if int (last_failure_streak st) \<ge> FAILURE_ESCALATION_LIMIT cfg
           \<and> truthy (last_failure_type st)
        then '' Escalate to a different acquisition path (alternate domain, API, or browser automation).''
        else [])"

definition nudge_query_mutation :: string where
  "nudge_query_mutation =
     ''QUERY MUTATION REQUIRED: propose a materially different query before retrying. ''
     @ ''Use different keywords, synonyms, or a different formulation.''"

definition nudge_move_change :: string where
  "nudge_move_change =
     ''MOVE CHANGE REQUIRED: change your search move type (reformulate or domain shift). ''
     @ ''Avoid repeating the same move.''"

definition ARROW :: string where
  \<comment> \<open>the sign U+2192 of the source text, three bytes in UTF-8\<close>
  "ARROW = [CHR 0xE2, CHR 0x86, CHR 0x92]"

definition nudge_source_shift :: string where
  "nudge_source_shift =
     ''SOURCE CLASS SHIFT REQUIRED: switch to a different source class ''
     @ ''(e.g., registry '' @ ARROW @ '' primary literature '' @ ARROW @ '' regulatory ''
     @ ARROW @ '' commentary).''"

definition nudge_domain_shift :: "config \<Rightarrow> string" where
  "nudge_domain_shift cfg =
     ''DOMAIN SHIFT REQUIRED: use a different domain than the last attempt. ''
     @ ''For negative-claim tasks, ensure at least ''
     @ str_int (NEGATIVE_CLAIM_MIN_OFFICIAL cfg) @ '' official domains and ''
     @ str_int (NEGATIVE_CLAIM_MIN_INDEPENDENT cfg) @ '' independent domains are checked.''"

definition on_flag :: "bool \<Rightarrow> (loop_state \<Rightarrow> loop_state) \<Rightarrow> loop_state \<Rightarrow> loop_state" where
  "on_flag b f st = (if b then f st else st)"

definition pre_turn :: "config \<Rightarrow> loop_state \<Rightarrow> loop_state" where
  \<comment> \<open>the advisories of the raised flags, then the notes cadence\<close>
  "pre_turn cfg st =
     (let st1 = on_flag (force_tool_next st) (history_append (User (nudge_stagnation cfg st))) st;
          st2 = on_flag (force_query_mutation st1) (history_append (User nudge_query_mutation)) st1;
          st3 = on_flag (force_move_change st2) (history_append (User nudge_move_change)) st2;
          st4 = on_flag (force_source_shift st3) (history_append (User nudge_source_shift)) st3;
          st5 = on_flag (force_domain_shift st4) (history_append (User (nudge_domain_shift cfg))) st4
      in if NOTES_UPDATE_INTERVAL cfg > 0 \<and> step st5 > 0
            \<and> int (step st5) mod NOTES_UPDATE_INTERVAL cfg = 0
         then st5\<lparr>notes_required := True\<rparr> else st5)"

definition receive :: "turn_input \<Rightarrow> loop_state \<Rightarrow> loop_state" where
  \<comment> \<open>the model call: \<open>last\<close> and the three events traced after it\<close>
  "receive inp st =
     trace_event (EvModel (step st))
       (trace_event (EvModelIO (step st))
          (trace_event (EvAssistant (step st) (take 20000 (ti_resp inp)))
             (st\<lparr>last_resp := ti_resp inp\<rparr>)))"

definition msg_truncated_retry :: string where
  "msg_truncated_retry =
     ''Your response was truncated due to length limits. ''
     @ ''Please try again, but output a shorter response or split the content into multiple steps.''"

definition msg_format_stop :: string where
  "msg_format_stop =
     ''Stopped due to repeated format errors (missing THOUGHT/ACTION). See /work/notes.md.''"

definition parse_error_turn :: "turn_input \<Rightarrow> string \<Rightarrow> loop_state \<Rightarrow> outcome \<times> loop_state" where
  \<comment> \<open>the branch of a response without tool call whose parse reports an error\<close>
  "parse_error_turn inp err st =
     (let resp = ti_resp inp in
      if ti_finish_reason inp = Some ''length'' then
        (let st1 = log_model_output resp ''length_truncation''
                     (history_append (User msg_truncated_retry)
                        (history_append (Assistant resp)
                           (trace_event (EvPolicy ''policy_length_nudge'' (step st))
                              (st\<lparr>length_nudges := Suc (length_nudges st)\<rparr>))))
         in (outcome_of st1 Continue, st1))
      else
        (let st1 = log_model_output resp ''parse_error''
                     (history_append (User (''SYSTEM FORMAT ERROR: '' @ err))
                        (history_append (Assistant resp)
                           (trace_event (EvPolicy ''policy_parse_error'' (step st))
                              (st\<lparr>parse_error_hits := Suc (parse_error_hits st)\<rparr>))))
         in (outcome_of st1 (if parse_error_hits st1 \<ge> 5 then Return msg_format_stop
                             else Continue), st1)))"

definition msg_gradient_reminder :: string where
  "msg_gradient_reminder =
     ''You have verifier feedback. Use tools to gather missing evidence and make progress now. ''
     @ ''Prefer next_actions when helpful, but you may choose any sensible action.''"

definition citation_contract :: "config \<Rightarrow> string \<Rightarrow> loop_state \<Rightarrow> loop_state" where
  \<comment> \<open>the body of \<open>if enforce_contract:\<close>\<close>
  "citation_contract cfg resp st =
     (let status_update = extract_status_update resp;
          evidence_used = extract_evidence_used (json_list cfg) resp;
          e0 = epistemic st;
          e1 = (if \<not> truthy status_update
                then add_constraint ''Missing STATUS_UPDATE'' (e0\<lparr>status := UNRESOLVED\<rparr>)
                else
                  (let s = or_empty status_update in
                   if contains (upper s) ''UNRESOLVED''
                   then add_unresolved s (e0\<lparr>status := UNRESOLVED\<rparr>)
                   else if contains (upper s) ''BLOCKED''
                   then add_blocked s (e0\<lparr>status := BLOCKED\<rparr>)
                   else if contains (upper s) ''VERIFIED'' \<and> constraints e0 = []
                   then set_verified e0
                   else e0));
          e2 = (if evidence_used \<noteq> [] then
                  (let missing = filter (\<lambda>e. e \<notin> set (evidence_ids st)) evidence_used in
                   if missing \<noteq> []
                   then add_constraint (''Unknown EVIDENCE_USED ids: '' @ join '', '' missing)
                          (e1\<lparr>status := UNRESOLVED\<rparr>)
                   else e1)
                else add_constraint ''Missing EVIDENCE_USED'' (e1\<lparr>status := UNRESOLVED\<rparr>))
      in st\<lparr>epistemic := e2\<rparr>)"

definition enforce_contract :: "string \<Rightarrow> loop_state \<Rightarrow> bool" where
  "enforce_contract resp st = (tool_calls_made st \<ge> 3 \<or> finalization_intent resp)"

definition negative_claim_exhausted :: "config \<Rightarrow> loop_state \<Rightarrow> loop_state" where
  "negative_claim_exhausted cfg st =
     (if negative_claim_task cfg \<and> int (step st) \<ge> negative_claim_budget_steps cfg
         \<and> minima_met cfg st
      then st\<lparr>epistemic := add_unresolved ''negative_claim_evidence_exhausted''
                              ((epistemic st)\<lparr>status := UNRESOLVED\<rparr>)\<rparr>
      else st)"

definition stagnation_check :: "config \<Rightarrow> loop_state \<Rightarrow> loop_state" where
  "stagnation_check cfg st =
     (let st1 = (if status (epistemic st) = UNRESOLVED
                    \<and> length (evidence_ids st) = last_evidence_count st
                 then st\<lparr>stagnation_streak := Suc (stagnation_streak st)\<rparr>
                 else st\<lparr>stagnation_streak := 0\<rparr>)
      in if int (stagnation_streak st1) \<ge> STAGNATION_LIMIT cfg \<and> \<not> force_tool_next st1
         then trace_event (EvPolicy ''policy_stagnation'' (step st1))
                (st1\<lparr>force_tool_next := True,
                     epistemic := add_constraint
                       (''Stagnation: no new evidence for '' @ str_nat (stagnation_streak st1)
                        @ '' consecutive turns'')
                       (epistemic st1)\<rparr>)
         else st1)"

definition msg_use_tools :: string where
  "msg_use_tools =
     ''You have not used tools yet. Use the shell now to make concrete progress. ''
     @ ''You can chain commands with && to do multiple steps in one tool call.''"

definition msg_stop_planning :: string where
  "msg_stop_planning = ''Stop planning and run a shell command that gathers evidence.''"

definition msg_truncated_short :: string where
  "msg_truncated_short =
     ''Your previous response was truncated. Keep it short and run a shell command now.''"

definition msg_budget_exhausted :: string where
  "msg_budget_exhausted =
     ''Verifier could not confirm correctness within the verification budget. ''
     @ ''See /work/trace.jsonl and /work/notes.md.'' @ [NL, NL]"

definition add_constraints :: "string list \<Rightarrow> EpistemicState \<Rightarrow> EpistemicState" where
  "add_constraints xs e = foldl (\<lambda>e x. add_constraint x e) e xs"

definition add_unresolveds :: "string list \<Rightarrow> EpistemicState \<Rightarrow> EpistemicState" where
  "add_unresolveds xs e = foldl (\<lambda>e x. add_unresolved x e) e xs"

definition invoke_verifier :: "verifier_run \<Rightarrow> loop_state \<Rightarrow> loop_state" where
  \<comment> \<open>the call of \<open>deep_verify\<close> with what it does to the trace, the sandbox and the belt,
      and the \<open>verifier\<close> event the loop traces once it returns\<close>
  "invoke_verifier vr st =
     trace_event (EvVerifier (step st) (vr_decision vr))
       (st\<lparr>verifier_rounds := Suc (verifier_rounds st),
            trace := trace st @ map EvVerifierInner (vr_events vr),
            sandbox_log := sandbox_log st @ map VerifierShell (vr_sandbox vr),
            tb := vr_tb vr\<rparr>)"

definition verify_stage :: "string \<Rightarrow> verifier_run \<Rightarrow> loop_state \<Rightarrow> outcome \<times> loop_state" where
  \<comment> \<open>the end of the no-tool branch, from \<open>verifier_rounds += 1\<close> on\<close>
  "verify_stage resp vr st =
     (let decision = vr_decision vr;
          st1 = invoke_verifier vr st;
          st2 = (if score decision < 3 then
                   st1\<lparr>epistemic :=
                         add_unresolveds
                           (case m_cap_reasons (vmeta decision) of None \<Rightarrow> [] | Some rs \<Rightarrow> rs)
                           (add_constraints (take 5 (instructions decision))
                              ((epistemic st1)\<lparr>status := UNRESOLVED\<rparr>))\<rparr>
                 else st1)
      in if score decision \<ge> 3 then
           (Return resp, st2\<lparr>epistemic := set_verified (epistemic st2)\<rparr>)
         else if verifier_rounds st2 \<ge> max_verifier_rounds then
           (Return (msg_budget_exhausted @ resp),
            st2\<lparr>epistemic := add_unresolved ''verification_budget_exhausted''
                                 ((epistemic st2)\<lparr>status := UNRESOLVED\<rparr>)\<rparr>)
         else
           (let st3 = trace_event (EvVerifierToAgent (step st2) (score decision)) st2;
                st4 = (case m_gradient (vmeta decision) of
                         None \<Rightarrow> st3
                       | Some g \<Rightarrow>
                           (let st' = trace_event (EvVerifierGradient (step st3))
                                        (st3\<lparr>pending_gradient := Some g, gradient_reminders := 0\<rparr>)
                            in if score decision < 3 then
                                 st'\<lparr>epistemic :=
                                       add_constraints (g_wrong g)
                                         (add_constraints (g_missing g)
                                            ((epistemic st')\<lparr>status := UNRESOLVED\<rparr>))\<rparr>
                               else st'))
            in (Continue,
                trace_event (EvAgentFromVerifier (step st4))
                  (history_append (UserFeedback decision)
                     (history_append (Assistant resp) st4)))))"

definition no_tool_checks :: "config \<Rightarrow> string \<Rightarrow> loop_state \<Rightarrow> loop_state" where
  \<comment> \<open>the body of \<open>if not tool_calls:\<close> up to the early-phase gating: the note of the model
      output, the citation contract, the budget of a negative-claim task, the stagnation
      detector\<close>
  "no_tool_checks cfg resp st =
     unless_raised
       (\<lambda>st1. let st2 = (if enforce_contract resp st1 then citation_contract cfg resp st1
                              else st1);
                  st3 = negative_claim_exhausted cfg st2
              in stagnation_check cfg st3)
       (log_model_output resp ''no_tool'' st)"

definition length_nudge :: "turn_input \<Rightarrow> loop_state \<Rightarrow> loop_state" where
  \<comment> \<open>the count and the event under \<open>if finish_reason == "length":\<close>\<close>
  "length_nudge inp st =
     (if ti_finish_reason inp = Some ''length''
      then trace_event (EvPolicy ''policy_length_nudge'' (step st))
             (st\<lparr>length_nudges := Suc (length_nudges st)\<rparr>)
      else st)"

definition no_tool_turn :: "config \<Rightarrow> turn_input \<Rightarrow> loop_state \<Rightarrow> outcome \<times> loop_state" where
  \<comment> \<open>the body of \<open>if not tool_calls:\<close>. The text handed to the verifier as the answer
      (\<open>answer_text\<close>) only feeds the verifier's models, so it does not appear here.\<close>
  "no_tool_turn cfg inp st =
     (let resp = ti_resp inp;
          st4 = no_tool_checks cfg resp st
      in if raised st4 \<noteq> None then (outcome_of st4 Continue, st4)
         else if tool_calls_made st4 < 3 then
           (let st5 = trace_event (EvPolicy ''policy_pre_tool_nudge'' (step st4))
                        (st4\<lparr>pre_tool_nudges := Suc (pre_tool_nudges st4)\<rparr>)
            in (Continue,
                history_append
                  (User (if pre_tool_nudges st5 \<le> 6 then msg_use_tools else msg_stop_planning))
                  (history_append (Assistant resp) st5)))
         else
           (let st5 = length_nudge inp st4
            in if ti_finish_reason inp = Some ''length'' \<and> length_nudges st5 \<le> 4 then
                 (Continue,
                  history_append (User msg_truncated_short) (history_append (Assistant resp) st5))
               else verify_stage resp (ti_verifier inp) st5))"

definition gradient_reminder :: "loop_state \<Rightarrow> loop_state" where
  \<comment> \<open>the count and the event under \<open>if pending_gradient is not None and not tool_calls:\<close>\<close>
  "gradient_reminder st =
     trace_event (EvPolicy ''policy_reminder'' (step st))
       (st\<lparr>gradient_reminders := Suc (gradient_reminders st)\<rparr>)"

definition reminder_overflow :: "loop_state \<Rightarrow> loop_state" where
  \<comment> \<open>a reminder that is past the fourth one: the turn goes on, and past the sixth the
      gradient is dropped\<close>
  "reminder_overflow st =
     (let st' = gradient_reminder st
      in if gradient_reminders st' > 6 then st'\<lparr>pending_gradient := None\<rparr> else st')"

definition turn :: "config \<Rightarrow> turn_input \<Rightarrow> loop_state \<Rightarrow> outcome \<times> loop_state" where
  \<comment> \<open>one iteration of \<open>while True\<close>, after the step budget has been checked\<close>
  "turn cfg inp st0 =
     (let st = receive inp (pre_turn cfg st0);
          resp = ti_resp inp;
          pr = ti_parsed inp
      in if ti_tool_calls inp = [] \<and> truthy (p_error pr) then
           parse_error_turn inp (or_empty (p_error pr)) st
         else
           (let calls = (if ti_tool_calls inp = [] \<and> truthy (p_tool_name pr)
                         then [(\<lparr>tc_tool = or_empty (p_tool_name pr), tc_args = p_tool_args pr\<rparr>,
                                ti_parsed_reply inp)]
                         else ti_tool_calls inp)
            in if calls = [] \<and> pending_gradient st \<noteq> None
                  \<and> Suc (gradient_reminders st) \<le> 4 then
                 (Continue,
                  history_append (User msg_gradient_reminder)
                    (history_append (Assistant resp) (gradient_reminder st)))
               else
                 (let st1 = (if calls = [] \<and> pending_gradient st \<noteq> None
                             then reminder_overflow st else st)
                  in if calls = [] then no_tool_turn cfg inp st1
                     else tool_calls_loop cfg resp calls
                            (history_append (Assistant resp) (st1\<lparr>parse_error_hits := 0\<rparr>)))))"

section \<open>The run\<close>

datatype result =
    Text string
  | Unresolved string EpistemicState
      \<comment> \<open>the report that starts "UNRESOLVED:": its headline and the state it prints\<close>
  | Raises exn
      \<comment> \<open>\<open>run_agent\<close> does not return: the exception leaves it\<close>

definition negative_claim_constraint :: string where
  \<comment> \<open>the source writes "at least" as the sign U+2265, three bytes in UTF-8\<close>
  "negative_claim_constraint =
     ''Negative-claim task: require '' @ [CHR 0xE2, CHR 0x89, CHR 0xA5] @ ''2 official domains and ''
     @ [CHR 0xE2, CHR 0x89, CHR 0xA5] @ ''1 independent domain before concluding ''
     @ [SQ] @ ''no official announcement found in sources checked'' @ [SQ]
     @ ''. Do not assert non-launch; explicit denial is optional (only cite it if found).''"

definition initial_locals :: "config \<Rightarrow> loop_state" where
  \<comment> \<open>the values of the locals of \<open>run_agent\<close> before its first statement that acts, with
      the state of the files and of the sandbox\<close>
  "initial_locals cfg =
     \<lparr>step = 0, history = [], last_resp = [], verifier_rounds = 0, pending_gradient = None,
      gradient_reminders = 0, tool_calls_made = 0, pre_tool_nudges = 0, length_nudges = 0,
      finalization_hits = 0, stagnation_streak = 0, last_failure_type = None,
      last_failure_streak = 0, last_source_class = None, source_class_failure_streak = 0,
      force_tool_next = False, force_query_mutation = False, force_move_change = False,
      force_source_shift = False, force_domain_shift = False, parse_error_hits = 0,
      notes_required = False,
      epistemic = (if negative_claim_task cfg
                   then add_constraint negative_claim_constraint EpistemicState_init
                   else EpistemicState_init),
      evidence_counter = 0, move_counter = 0, query_counter = 0, evidence_ids = [],
      last_evidence_count = 0, last_move_sig = None, last_move_type = None,
      last_domain = None, last_domain_key = None, last_query_family = None,
      move_repeat_streak = 0, domain_same_streak = 0, recent_query_families = [],
      official_domain_hints = [], official_domains_checked = [],
      independent_domains_checked = [], domain_attempts = [], tb = ToolBelt_init,
      trace = [], evidence_file = [], move_ledger = [], query_ledger = [], sandbox_log = [],
      raised = None\<rparr>"

definition init_state :: "config \<Rightarrow> loop_state" where
  \<comment> \<open>\<open>run_agent\<close> up to the loop: the notes reset, the ledger files, the first events\<close>
  "init_state cfg =
     unless_raised (\<lambda>st. trace_event (EvTask (task cfg)) (trace_event EvSandbox st))
       (unless_raised (runtime_shell ledger_init_script RuntimeLedgerInit)
          (notes_reset (TaskHeader (''# Task'' @ [NL] @ task cfg @ [NL, NL] @ ''# Log'' @ [NL]))
             (initial_locals cfg)))"

definition final_report :: "config \<Rightarrow> loop_state \<Rightarrow> result" where
  \<comment> \<open>the code after the loop, reached by \<open>break\<close>\<close>
  "final_report cfg st =
     (if max_steps cfg > 0 \<and> int (step st) \<ge> max_steps cfg then
        (if status (epistemic st) \<noteq> VERIFIED
         then Unresolved ''UNRESOLVED: Evidence requirements not satisfied within the step budget.''
                (epistemic st)
         else Text (''Did not reach a verifiable final answer within the step budget. ''
                    @ ''See /work/notes.md.''))
      else if status (epistemic st) \<noteq> VERIFIED
      then Unresolved ''UNRESOLVED: Evidence requirements not satisfied.'' (epistemic st)
      else Text ''Stopped without a verifiable final answer. See /work/notes.md.'')"

fun run_loop :: "config \<Rightarrow> turn_input list \<Rightarrow> loop_state \<Rightarrow> result option \<times> loop_state" where
  \<comment> \<open>\<open>while True\<close> over the turns the model supplies; \<open>None\<close> if they run out before the
      loop ends\<close>
  "run_loop cfg [] st = (None, st)"
| "run_loop cfg (inp # inps) st =
     (let st1 = st\<lparr>step := Suc (step st)\<rparr> in
      if max_steps cfg > 0 \<and> int (step st1) > max_steps cfg then (Some (final_report cfg st1), st1)
      else
        (case turn cfg inp st1 of
           (Return r, st2) \<Rightarrow> (Some (Text r), st2)
         | (Raise e, st2) \<Rightarrow> (Some (Raises e), st2)
         | (Continue, st2) \<Rightarrow> run_loop cfg inps st2))"

definition run_agent :: "config \<Rightarrow> turn_input list \<Rightarrow> result option \<times> loop_state" where
  "run_agent cfg inps =
     (let st = init_state cfg in
      case raised st of
        Some e \<Rightarrow> (Some (Raises e), st)
      | None \<Rightarrow> run_loop cfg inps st)"



definition verifying_state :: "config \<Rightarrow> turn_input \<Rightarrow> loop_state \<Rightarrow> loop_state" where
  \<comment> \<open>the state in which a turn without tool call reaches \<open>verifier_rounds += 1\<close>, if it is
      not sent back earlier: the stages of \<open>turn\<close> and \<open>no_tool_turn\<close> on that path\<close>
  "verifying_state cfg inp st0 =
     (let st = receive inp (pre_turn cfg st0);
          st1 = (if pending_gradient st \<noteq> None then reminder_overflow st else st)
      in length_nudge inp (no_tool_checks cfg (ti_resp inp) st1))"


section \<open>Reading the files of a run\<close>

text \<open>
  The \<open>tool\<close> events of the trace that stand for a call of the model are those the loop
  writes itself: they have a \<open>step\<close> and no \<open>scope\<close>. \<open>agent_tool_calls\<close> lists them in
  order, each with its step, tool and arguments; \<open>tool_event_steps\<close> lists the \<open>step\<close>
  field of every \<open>tool\<close> event, whoever wrote it, \<open>None\<close> for an event without that field.
\<close>

fun agent_tool_calls :: "trace_event list \<Rightarrow> (nat \<times> string \<times> args) list" where
  "agent_tool_calls [] = []"
| "agent_tool_calls (EvTool ScAgent (Some s) t a ob # es) = (s, t, a) # agent_tool_calls es"
| "agent_tool_calls (e # es) = agent_tool_calls es"

fun tool_event_steps :: "trace_event list \<Rightarrow> nat option list" where
  "tool_event_steps [] = []"
| "tool_event_steps (EvTool sc s t a ob # es) = s # tool_event_steps es"
| "tool_event_steps (EvVerifierInner (VeTool p i t a ob) # es) = None # tool_event_steps es"
| "tool_event_steps (e # es) = tool_event_steps es"

definition evidence_calls :: "evidence list \<Rightarrow> (nat \<times> string \<times> args) list" where
  \<comment> \<open>the step, tool and arguments of every record of the evidence file, in order\<close>
  "evidence_calls evs = map (\<lambda>e. (ev_step e, ev_tool e, ev_args e)) evs"


definition follows :: "loop_state \<Rightarrow> bool" where
  \<comment> \<open>the evidence file has one record for every \<open>tool\<close> event of a call of the model, in
      the order of the trace and with its step, tool and arguments, and the ids of the
      records count up from 1 without a gap\<close>
  "follows st =
     (evidence_calls (evidence_file st) = agent_tool_calls (trace st)
      \<and> map ev_id (evidence_file st) = map evidence_id [1..<Suc (length (evidence_file st))]
      \<and> evidence_counter st = length (evidence_file st))"



definition note_denied :: "notes_text \<Rightarrow> exn option" where
  \<comment> \<open>the exception of the deny check on the script that appends a text to the notes, if
      the script is denied\<close>
  "note_denied t = deny_check (strip (notes_append_script (render_note t)))"


definition deny_words :: "string list" where
  \<comment> \<open>a literal of every pattern of \<open>DENY_PATTERNS\<close>: a text that contains none of them
      matches none of the patterns\<close>
  "deny_words = [''rm'', ''dd'', ''mkfs'', ''mount'', ''sudo'', ''chown'', ''chmod'', '':()'']"


text \<open>
  The script that appends to the notes, cut at the quotes of its base64 text.
\<close>

definition append_script_before :: string where
  "append_script_before =
     script_head @ ''import base64'' @ [NL] @ ''from pathlib import Path'' @ [NL]
     @ ''data = base64.b64decode(''"

definition append_script_after :: string where
  "append_script_after =
     '').decode('' @ [SQ] @ ''utf-8'' @ [SQ] @ '', errors='' @ [SQ] @ ''replace'' @ [SQ] @ '')''
     @ [NL] @ notes_path_lines
     @ ''with p.open('' @ [SQ] @ ''a'' @ [SQ] @ '', encoding='' @ [SQ] @ ''utf-8'' @ [SQ]
     @ '', errors='' @ [SQ] @ ''replace'' @ [SQ] @ '') as f:'' @ [NL]
     @ ''    f.write(data)'' @ [NL]
     @ print_ok"


definition model_output_denied :: "nat \<Rightarrow> string \<Rightarrow> string \<Rightarrow> exn option" where
  \<comment> \<open>the exception with which \<open>log_model_output(step, resp, tag)\<close> ends, if it raises\<close>
  "model_output_denied n tag r =
     (if r = [] then None else note_denied (ModelOutput n tag (model_snippet r)))"

definition reset_script_after :: string where
  "reset_script_after =
     '').decode('' @ [SQ] @ ''utf-8'' @ [SQ] @ '', errors='' @ [SQ] @ ''replace'' @ [SQ] @ '')''
     @ [NL] @ notes_path_lines
     @ ''p.write_text(data, encoding='' @ [SQ] @ ''utf-8'' @ [SQ] @ '', errors='' @ [SQ]
     @ ''replace'' @ [SQ] @ '')'' @ [NL]
     @ print_ok"

definition task_header :: "config \<Rightarrow> notes_text" where
  \<comment> \<open>the text of the initial reset of the notes\<close>
  "task_header cfg = TaskHeader (''# Task'' @ [NL] @ task cfg @ [NL, NL] @ ''# Log'' @ [NL])"

definition init_denied :: "config \<Rightarrow> exn option" where
  \<comment> \<open>the exception with which the statements before the loop end, if one of the two
      scripts of the runtime is denied\<close>
  "init_denied cfg =
     (case deny_check (strip (notes_reset_script (render_note (task_header cfg)))) of
        Some e \<Rightarrow> Some e
      | None \<Rightarrow> deny_check (strip ledger_init_script))"

section \<open>Properties of the tool belt\<close>

lemma deny_check_hit:
  assumes "pr \<in> set DENY_PATTERNS" and "re_search (snd pr) c"
  shows "\<exists>p \<in> set DENY_PATTERNS. re_search (snd p) c \<and>
           deny_check c = Some (ValueError (''Denied command pattern matched: '' @ fst p))"
proof -
  from assms have "pr \<in> set (filter (\<lambda>pr. re_search (snd pr) c) DENY_PATTERNS)" by simp
  then obtain p ps where f: "filter (\<lambda>pr. re_search (snd pr) c) DENY_PATTERNS = p # ps"
    by (cases "filter (\<lambda>pr. re_search (snd pr) c) DENY_PATTERNS") auto
  then have "p \<in> set (filter (\<lambda>pr. re_search (snd pr) c) DENY_PATTERNS)" by simp
  then have "p \<in> set DENY_PATTERNS" "re_search (snd p) c" by auto
  moreover have "deny_check c = Some (ValueError (''Denied command pattern matched: '' @ fst p))"
    unfolding deny_check_def f by simp
  ultimately show ?thesis by blast
qed

lemma sudo_pattern_listed: "DENY_PATTERNS ! 4 \<in> set DENY_PATTERNS"
  by (simp add: DENY_PATTERNS_def)

lemma sudo_pattern_found: "re_search (snd (DENY_PATTERNS ! 4)) (strip ''cd /work/a && sudo ls'')"
  by code_simp

lemma cd_alone_moves_the_belt:
  "update_persistent_state ToolBelt_init ''cd /work/a && ls'' = (None, ToolBelt_init\<lparr>cwd := ''/work/a''\<rparr>)"
  by code_simp

text \<open>
  Claim C10. \<open>ToolBelt.shell\<close> is atomic on denied commands: if the stripped command is
  found by \<open>re.search\<close> for some entry of \<open>DENY_PATTERNS\<close>, then \<open>shell\<close> raises the
  \<open>ValueError\<close> of \<open>_deny_check\<close> for a listed pattern, no command is handed to the sandbox
  (the list of executed commands is empty), and the belt it leaves, that is the tracked
  \<open>cwd\<close> and the exported \<open>env\<close>, is the belt it was called with.
\<close>

theorem shell_denied_atomic:
  assumes "pr \<in> set DENY_PATTERNS" and "re_search (snd pr) (strip cmd)"
  shows "\<exists>p \<in> set DENY_PATTERNS.
           shell belt cmd rep
             = (Inl (ValueError (''Denied command pattern matched: '' @ fst p)), belt, [])"
proof -
  from deny_check_hit[OF assms] obtain p where p: "p \<in> set DENY_PATTERNS"
    "deny_check (strip cmd) = Some (ValueError (''Denied command pattern matched: '' @ fst p))"
    by blast
  have "shell belt cmd rep
          = (Inl (ValueError (''Denied command pattern matched: '' @ fst p)), belt, [])"
    unfolding shell_def Let_def p(2) by simp
  with p(1) show ?thesis by blast
qed

theorem shell_denied_atomic_witness:
  "DENY_PATTERNS ! 4 \<in> set DENY_PATTERNS
   \<and> re_search (snd (DENY_PATTERNS ! 4)) (strip ''cd /work/a && sudo ls'')
   \<and> (\<exists>p \<in> set DENY_PATTERNS.
         shell ToolBelt_init ''cd /work/a && sudo ls'' (0, ''bin'')
           = (Inl (ValueError (''Denied command pattern matched: '' @ fst p)), ToolBelt_init, []))"
  using shell_denied_atomic [OF sudo_pattern_listed sudo_pattern_found,
      of ToolBelt_init "(0, ''bin'')"]
    sudo_pattern_listed sudo_pattern_found
  by simp


section \<open>The belt on the scripts of the runtime\<close>

lemma dropWhile_rev_nonempty:
  assumes "\<not> is_space c"
  shows "\<exists>t. rev (dropWhile is_space (rev (c # s))) = c # t"
proof -
  have "\<exists>ys. dropWhile is_space (rev s @ [c]) = ys @ [c]"
  proof (cases "\<forall>x \<in> set (rev s). is_space x")
    case True
    then have "dropWhile is_space (rev s @ [c]) = dropWhile is_space [c]"
      by (intro dropWhile_append2) simp
    then have "dropWhile is_space (rev s @ [c]) = [] @ [c]" using assms by simp
    then show ?thesis by blast
  next
    case False
    then have "dropWhile is_space (rev s @ [c]) = dropWhile is_space (rev s) @ [c]"
      by (auto simp add: dropWhile_append1)
    then show ?thesis by blast
  qed
  then obtain ys where "dropWhile is_space (rev s @ [c]) = ys @ [c]" by blast
  then have "rev (dropWhile is_space (rev (c # s))) = c # rev ys" by simp
  then show ?thesis by blast
qed

lemma strip_keeps_head:
  assumes "\<not> is_space c"
  shows "\<exists>t. strip (c # s) = c # t"
  using assms dropWhile_rev_nonempty[OF assms] by (simp add: strip_def)

lemma split_cmd_keeps_head:
  assumes "c \<noteq> CHR '';''" and "c \<noteq> CHR ''&''"
  shows "\<exists>p ps. split_cmd (c # s) = (c # p) # ps"
  using assms by (cases s) (auto split: list.splits)

lemma lit_states_mismatch:
  assumes "a \<noteq> f c"
  shows "lit_states f (a # w) (p, c # s) = []"
  using assms by (auto simp add: lit_states_def)

lemma update_parts_other:
  assumes "\<not> is_space c" and "c \<noteq> CHR ''c''" and "c \<noteq> CHR ''e''"
  shows "update_parts belt ((c # p) # ps) = (None, belt)"
proof -
  obtain t where t: "strip (c # p) = c # t" using strip_keeps_head[OF assms(1)] by blast
  have a: "match_capture (Seq [Lit ''cd'', Plus CSpace]) dot_plus_eol (None, c # t) = None"
    using assms(2) by (simp add: match_capture_def lit_states_mismatch)
  have b: "match_capture (Seq [Lit ''export'', Plus CSpace]) dot_plus_eol (None, c # t) = None"
    using assms(3) by (simp add: match_capture_def lit_states_mismatch)
  show ?thesis by (simp add: Let_def t a b)
qed

lemma update_persistent_state_other:
  assumes "\<not> is_space c" and "c \<noteq> CHR ''c''" and "c \<noteq> CHR ''e''"
    and "c \<noteq> CHR '';''" and "c \<noteq> CHR ''&''"
  shows "update_persistent_state belt (c # s) = (None, belt)"
proof -
  obtain t where t: "strip (c # s) = c # t" using strip_keeps_head[OF assms(1)] by blast
  obtain p ps where p: "split_cmd (c # t) = (c # p) # ps"
    using split_cmd_keeps_head[OF assms(4,5)] by blast
  show ?thesis
    by (simp add: update_persistent_state_def Let_def t p update_parts_other[OF assms(1,2,3)]
        del: update_parts.simps)
qed

lemma script_head_first: "script_head @ s = CHR ''p'' # tl (script_head @ s)"
  by (simp add: script_head_def)

lemma shell_on_script:
  "shell belt (script_head @ s) rep =
     (case deny_check (strip (script_head @ s)) of
        Some e \<Rightarrow> (Inl e, belt, [])
      | None \<Rightarrow>
          (Inr (obs_empty\<lparr>o_exit_code := Some (fst rep), o_output := Some (last_n 12000 (snd rep)),
                           o_cwd := Some (cwd belt)\<rparr>),
           belt, [wrap_cmd belt (strip (script_head @ s))]))"
proof -
  obtain t where t: "strip (script_head @ s) = CHR ''p'' # t"
    using strip_keeps_head[of "CHR ''p''" "tl (script_head @ s)"] script_head_first[of s]
    by (auto simp add: is_space_def code_def)
  have u: "update_persistent_state belt (CHR ''p'' # t) = (None, belt)"
    by (rule update_persistent_state_other) (simp_all add: is_space_def code_def)
  show ?thesis by (simp add: shell_def Let_def t u split: option.splits)
qed

lemma runtime_shell_on_script:
  "runtime_shell (script_head @ s) c st =
     (case deny_check (strip (script_head @ s)) of
        Some e \<Rightarrow> st\<lparr>raised := Some e\<rparr>
      | None \<Rightarrow> (st\<lparr>sandbox_log := sandbox_log st @ [c],
                     trace := trace st @ [EvTool ScRuntime (Some 0) ''shell'' [] None]\<rparr>))"
  by (simp add: runtime_shell_def shell_on_script trace_event_def split: option.splits)

lemma notes_append_cases:
  "notes_append t st =
     (case note_denied t of
        Some e \<Rightarrow> st\<lparr>raised := Some e\<rparr>
      | None \<Rightarrow> (st\<lparr>sandbox_log := sandbox_log st @ [RuntimeNotesAppend t],
                     trace := trace st @ [EvTool ScRuntime (Some 0) ''shell'' [] None]\<rparr>))"
proof -
  have "notes_append_script (render_note t) = script_head @ drop (length script_head) (notes_append_script (render_note t))"
    by (simp add: notes_append_script_def)
  then show ?thesis
    unfolding notes_append_def note_denied_def using runtime_shell_on_script by metis
qed


section \<open>What the steps of the loop leave unchanged\<close>

lemma trace_event_frame:
  "step (trace_event e st) = step st"
  "history (trace_event e st) = history st"
  "last_resp (trace_event e st) = last_resp st"
  "verifier_rounds (trace_event e st) = verifier_rounds st"
  "pending_gradient (trace_event e st) = pending_gradient st"
  "gradient_reminders (trace_event e st) = gradient_reminders st"
  "tool_calls_made (trace_event e st) = tool_calls_made st"
  "pre_tool_nudges (trace_event e st) = pre_tool_nudges st"
  "length_nudges (trace_event e st) = length_nudges st"
  "finalization_hits (trace_event e st) = finalization_hits st"
  "stagnation_streak (trace_event e st) = stagnation_streak st"
  "last_failure_type (trace_event e st) = last_failure_type st"
  "last_failure_streak (trace_event e st) = last_failure_streak st"
  "last_source_class (trace_event e st) = last_source_class st"
  "source_class_failure_streak (trace_event e st) = source_class_failure_streak st"
  "force_tool_next (trace_event e st) = force_tool_next st"
  "force_query_mutation (trace_event e st) = force_query_mutation st"
  "force_move_change (trace_event e st) = force_move_change st"
  "force_source_shift (trace_event e st) = force_source_shift st"
  "force_domain_shift (trace_event e st) = force_domain_shift st"
  "parse_error_hits (trace_event e st) = parse_error_hits st"
  "notes_required (trace_event e st) = notes_required st"
  "epistemic (trace_event e st) = epistemic st"
  "evidence_counter (trace_event e st) = evidence_counter st"
  "move_counter (trace_event e st) = move_counter st"
  "query_counter (trace_event e st) = query_counter st"
  "evidence_ids (trace_event e st) = evidence_ids st"
  "last_evidence_count (trace_event e st) = last_evidence_count st"
  "last_move_sig (trace_event e st) = last_move_sig st"
  "last_move_type (trace_event e st) = last_move_type st"
  "last_domain (trace_event e st) = last_domain st"
  "last_domain_key (trace_event e st) = last_domain_key st"
  "last_query_family (trace_event e st) = last_query_family st"
  "move_repeat_streak (trace_event e st) = move_repeat_streak st"
  "domain_same_streak (trace_event e st) = domain_same_streak st"
  "recent_query_families (trace_event e st) = recent_query_families st"
  "official_domain_hints (trace_event e st) = official_domain_hints st"
  "official_domains_checked (trace_event e st) = official_domains_checked st"
  "independent_domains_checked (trace_event e st) = independent_domains_checked st"
  "domain_attempts (trace_event e st) = domain_attempts st"
  "tb (trace_event e st) = tb st"
  "evidence_file (trace_event e st) = evidence_file st"
  "move_ledger (trace_event e st) = move_ledger st"
  "query_ledger (trace_event e st) = query_ledger st"
  "sandbox_log (trace_event e st) = sandbox_log st"
  "raised (trace_event e st) = raised st"
  by (simp_all add: trace_event_def)

lemma history_append_frame:
  "step (history_append m st) = step st"
  "last_resp (history_append m st) = last_resp st"
  "verifier_rounds (history_append m st) = verifier_rounds st"
  "pending_gradient (history_append m st) = pending_gradient st"
  "gradient_reminders (history_append m st) = gradient_reminders st"
  "tool_calls_made (history_append m st) = tool_calls_made st"
  "pre_tool_nudges (history_append m st) = pre_tool_nudges st"
  "length_nudges (history_append m st) = length_nudges st"
  "finalization_hits (history_append m st) = finalization_hits st"
  "stagnation_streak (history_append m st) = stagnation_streak st"
  "last_failure_type (history_append m st) = last_failure_type st"
  "last_failure_streak (history_append m st) = last_failure_streak st"
  "last_source_class (history_append m st) = last_source_class st"
  "source_class_failure_streak (history_append m st) = source_class_failure_streak st"
  "force_tool_next (history_append m st) = force_tool_next st"
  "force_query_mutation (history_append m st) = force_query_mutation st"
  "force_move_change (history_append m st) = force_move_change st"
  "force_source_shift (history_append m st) = force_source_shift st"
  "force_domain_shift (history_append m st) = force_domain_shift st"
  "parse_error_hits (history_append m st) = parse_error_hits st"
  "notes_required (history_append m st) = notes_required st"
  "epistemic (history_append m st) = epistemic st"
  "evidence_counter (history_append m st) = evidence_counter st"
  "move_counter (history_append m st) = move_counter st"
  "query_counter (history_append m st) = query_counter st"
  "evidence_ids (history_append m st) = evidence_ids st"
  "last_evidence_count (history_append m st) = last_evidence_count st"
  "last_move_sig (history_append m st) = last_move_sig st"
  "last_move_type (history_append m st) = last_move_type st"
  "last_domain (history_append m st) = last_domain st"
  "last_domain_key (history_append m st) = last_domain_key st"
  "last_query_family (history_append m st) = last_query_family st"
  "move_repeat_streak (history_append m st) = move_repeat_streak st"
  "domain_same_streak (history_append m st) = domain_same_streak st"
  "recent_query_families (history_append m st) = recent_query_families st"
  "official_domain_hints (history_append m st) = official_domain_hints st"
  "official_domains_checked (history_append m st) = official_domains_checked st"
  "independent_domains_checked (history_append m st) = independent_domains_checked st"
  "domain_attempts (history_append m st) = domain_attempts st"
  "tb (history_append m st) = tb st"
  "trace (history_append m st) = trace st"
  "evidence_file (history_append m st) = evidence_file st"
  "move_ledger (history_append m st) = move_ledger st"
  "query_ledger (history_append m st) = query_ledger st"
  "sandbox_log (history_append m st) = sandbox_log st"
  "raised (history_append m st) = raised st"
  by (simp_all add: history_append_def)

lemma notes_append_frame:
  "step (notes_append t st) = step st"
  "history (notes_append t st) = history st"
  "last_resp (notes_append t st) = last_resp st"
  "verifier_rounds (notes_append t st) = verifier_rounds st"
  "pending_gradient (notes_append t st) = pending_gradient st"
  "gradient_reminders (notes_append t st) = gradient_reminders st"
  "tool_calls_made (notes_append t st) = tool_calls_made st"
  "pre_tool_nudges (notes_append t st) = pre_tool_nudges st"
  "length_nudges (notes_append t st) = length_nudges st"
  "finalization_hits (notes_append t st) = finalization_hits st"
  "stagnation_streak (notes_append t st) = stagnation_streak st"
  "last_failure_type (notes_append t st) = last_failure_type st"
  "last_failure_streak (notes_append t st) = last_failure_streak st"
  "last_source_class (notes_append t st) = last_source_class st"
  "source_class_failure_streak (notes_append t st) = source_class_failure_streak st"
  "force_tool_next (notes_append t st) = force_tool_next st"
  "force_query_mutation (notes_append t st) = force_query_mutation st"
  "force_move_change (notes_append t st) = force_move_change st"
  "force_source_shift (notes_append t st) = force_source_shift st"
  "force_domain_shift (notes_append t st) = force_domain_shift st"
  "parse_error_hits (notes_append t st) = parse_error_hits st"
  "notes_required (notes_append t st) = notes_required st"
  "epistemic (notes_append t st) = epistemic st"
  "evidence_counter (notes_append t st) = evidence_counter st"
  "move_counter (notes_append t st) = move_counter st"
  "query_counter (notes_append t st) = query_counter st"
  "evidence_ids (notes_append t st) = evidence_ids st"
  "last_evidence_count (notes_append t st) = last_evidence_count st"
  "last_move_sig (notes_append t st) = last_move_sig st"
  "last_move_type (notes_append t st) = last_move_type st"
  "last_domain (notes_append t st) = last_domain st"
  "last_domain_key (notes_append t st) = last_domain_key st"
  "last_query_family (notes_append t st) = last_query_family st"
  "move_repeat_streak (notes_append t st) = move_repeat_streak st"
  "domain_same_streak (notes_append t st) = domain_same_streak st"
  "recent_query_families (notes_append t st) = recent_query_families st"
  "official_domain_hints (notes_append t st) = official_domain_hints st"
  "official_domains_checked (notes_append t st) = official_domains_checked st"
  "independent_domains_checked (notes_append t st) = independent_domains_checked st"
  "domain_attempts (notes_append t st) = domain_attempts st"
  "tb (notes_append t st) = tb st"
  "evidence_file (notes_append t st) = evidence_file st"
  "move_ledger (notes_append t st) = move_ledger st"
  "query_ledger (notes_append t st) = query_ledger st"
  by (simp_all add: notes_append_cases split: option.splits)

lemma log_model_output_frame:
  "step (log_model_output r t st) = step st"
  "history (log_model_output r t st) = history st"
  "last_resp (log_model_output r t st) = last_resp st"
  "verifier_rounds (log_model_output r t st) = verifier_rounds st"
  "pending_gradient (log_model_output r t st) = pending_gradient st"
  "gradient_reminders (log_model_output r t st) = gradient_reminders st"
  "tool_calls_made (log_model_output r t st) = tool_calls_made st"
  "pre_tool_nudges (log_model_output r t st) = pre_tool_nudges st"
  "length_nudges (log_model_output r t st) = length_nudges st"
  "finalization_hits (log_model_output r t st) = finalization_hits st"
  "stagnation_streak (log_model_output r t st) = stagnation_streak st"
  "last_failure_type (log_model_output r t st) = last_failure_type st"
  "last_failure_streak (log_model_output r t st) = last_failure_streak st"
  "last_source_class (log_model_output r t st) = last_source_class st"
  "source_class_failure_streak (log_model_output r t st) = source_class_failure_streak st"
  "force_tool_next (log_model_output r t st) = force_tool_next st"
  "force_query_mutation (log_model_output r t st) = force_query_mutation st"
  "force_move_change (log_model_output r t st) = force_move_change st"
  "force_source_shift (log_model_output r t st) = force_source_shift st"
  "force_domain_shift (log_model_output r t st) = force_domain_shift st"
  "parse_error_hits (log_model_output r t st) = parse_error_hits st"
  "notes_required (log_model_output r t st) = notes_required st"
  "epistemic (log_model_output r t st) = epistemic st"
  "evidence_counter (log_model_output r t st) = evidence_counter st"
  "move_counter (log_model_output r t st) = move_counter st"
  "query_counter (log_model_output r t st) = query_counter st"
  "evidence_ids (log_model_output r t st) = evidence_ids st"
  "last_evidence_count (log_model_output r t st) = last_evidence_count st"
  "last_move_sig (log_model_output r t st) = last_move_sig st"
  "last_move_type (log_model_output r t st) = last_move_type st"
  "last_domain (log_model_output r t st) = last_domain st"
  "last_domain_key (log_model_output r t st) = last_domain_key st"
  "last_query_family (log_model_output r t st) = last_query_family st"
  "move_repeat_streak (log_model_output r t st) = move_repeat_streak st"
  "domain_same_streak (log_model_output r t st) = domain_same_streak st"
  "recent_query_families (log_model_output r t st) = recent_query_families st"
  "official_domain_hints (log_model_output r t st) = official_domain_hints st"
  "official_domains_checked (log_model_output r t st) = official_domains_checked st"
  "independent_domains_checked (log_model_output r t st) = independent_domains_checked st"
  "domain_attempts (log_model_output r t st) = domain_attempts st"
  "tb (log_model_output r t st) = tb st"
  "evidence_file (log_model_output r t st) = evidence_file st"
  "move_ledger (log_model_output r t st) = move_ledger st"
  "query_ledger (log_model_output r t st) = query_ledger st"
  by (simp_all add: log_model_output_def Let_def notes_append_frame)

lemma policy_choice_frame:
  "step (policy_choice st) = step st"
  "history (policy_choice st) = history st"
  "last_resp (policy_choice st) = last_resp st"
  "verifier_rounds (policy_choice st) = verifier_rounds st"
  "tool_calls_made (policy_choice st) = tool_calls_made st"
  "pre_tool_nudges (policy_choice st) = pre_tool_nudges st"
  "length_nudges (policy_choice st) = length_nudges st"
  "finalization_hits (policy_choice st) = finalization_hits st"
  "stagnation_streak (policy_choice st) = stagnation_streak st"
  "last_failure_type (policy_choice st) = last_failure_type st"
  "last_failure_streak (policy_choice st) = last_failure_streak st"
  "last_source_class (policy_choice st) = last_source_class st"
  "source_class_failure_streak (policy_choice st) = source_class_failure_streak st"
  "force_tool_next (policy_choice st) = force_tool_next st"
  "force_query_mutation (policy_choice st) = force_query_mutation st"
  "force_move_change (policy_choice st) = force_move_change st"
  "force_source_shift (policy_choice st) = force_source_shift st"
  "force_domain_shift (policy_choice st) = force_domain_shift st"
  "parse_error_hits (policy_choice st) = parse_error_hits st"
  "notes_required (policy_choice st) = notes_required st"
  "epistemic (policy_choice st) = epistemic st"
  "evidence_counter (policy_choice st) = evidence_counter st"
  "move_counter (policy_choice st) = move_counter st"
  "query_counter (policy_choice st) = query_counter st"
  "evidence_ids (policy_choice st) = evidence_ids st"
  "last_evidence_count (policy_choice st) = last_evidence_count st"
  "last_move_sig (policy_choice st) = last_move_sig st"
  "last_move_type (policy_choice st) = last_move_type st"
  "last_domain (policy_choice st) = last_domain st"
  "last_domain_key (policy_choice st) = last_domain_key st"
  "last_query_family (policy_choice st) = last_query_family st"
  "move_repeat_streak (policy_choice st) = move_repeat_streak st"
  "domain_same_streak (policy_choice st) = domain_same_streak st"
  "recent_query_families (policy_choice st) = recent_query_families st"
  "official_domain_hints (policy_choice st) = official_domain_hints st"
  "official_domains_checked (policy_choice st) = official_domains_checked st"
  "independent_domains_checked (policy_choice st) = independent_domains_checked st"
  "domain_attempts (policy_choice st) = domain_attempts st"
  "tb (policy_choice st) = tb st"
  "evidence_file (policy_choice st) = evidence_file st"
  "move_ledger (policy_choice st) = move_ledger st"
  "query_ledger (policy_choice st) = query_ledger st"
  "sandbox_log (policy_choice st) = sandbox_log st"
  "raised (policy_choice st) = raised st"
  by (simp_all add: policy_choice_def trace_event_def split: option.splits)

lemma ledger_move_frame:
  "step (ledger_move call d oc st) = step st"
  "history (ledger_move call d oc st) = history st"
  "last_resp (ledger_move call d oc st) = last_resp st"
  "verifier_rounds (ledger_move call d oc st) = verifier_rounds st"
  "pending_gradient (ledger_move call d oc st) = pending_gradient st"
  "gradient_reminders (ledger_move call d oc st) = gradient_reminders st"
  "tool_calls_made (ledger_move call d oc st) = tool_calls_made st"
  "pre_tool_nudges (ledger_move call d oc st) = pre_tool_nudges st"
  "length_nudges (ledger_move call d oc st) = length_nudges st"
  "finalization_hits (ledger_move call d oc st) = finalization_hits st"
  "stagnation_streak (ledger_move call d oc st) = stagnation_streak st"
  "last_failure_type (ledger_move call d oc st) = last_failure_type st"
  "last_failure_streak (ledger_move call d oc st) = last_failure_streak st"
  "last_source_class (ledger_move call d oc st) = last_source_class st"
  "source_class_failure_streak (ledger_move call d oc st) = source_class_failure_streak st"
  "force_tool_next (ledger_move call d oc st) = force_tool_next st"
  "force_query_mutation (ledger_move call d oc st) = force_query_mutation st"
  "force_move_change (ledger_move call d oc st) = force_move_change st"
  "force_source_shift (ledger_move call d oc st) = force_source_shift st"
  "force_domain_shift (ledger_move call d oc st) = force_domain_shift st"
  "parse_error_hits (ledger_move call d oc st) = parse_error_hits st"
  "notes_required (ledger_move call d oc st) = notes_required st"
  "epistemic (ledger_move call d oc st) = epistemic st"
  "evidence_counter (ledger_move call d oc st) = evidence_counter st"
  "query_counter (ledger_move call d oc st) = query_counter st"
  "evidence_ids (ledger_move call d oc st) = evidence_ids st"
  "last_evidence_count (ledger_move call d oc st) = last_evidence_count st"
  "last_move_sig (ledger_move call d oc st) = last_move_sig st"
  "last_move_type (ledger_move call d oc st) = last_move_type st"
  "last_domain (ledger_move call d oc st) = last_domain st"
  "last_domain_key (ledger_move call d oc st) = last_domain_key st"
  "last_query_family (ledger_move call d oc st) = last_query_family st"
  "move_repeat_streak (ledger_move call d oc st) = move_repeat_streak st"
  "domain_same_streak (ledger_move call d oc st) = domain_same_streak st"
  "recent_query_families (ledger_move call d oc st) = recent_query_families st"
  "official_domain_hints (ledger_move call d oc st) = official_domain_hints st"
  "official_domains_checked (ledger_move call d oc st) = official_domains_checked st"
  "independent_domains_checked (ledger_move call d oc st) = independent_domains_checked st"
  "domain_attempts (ledger_move call d oc st) = domain_attempts st"
  "tb (ledger_move call d oc st) = tb st"
  "trace (ledger_move call d oc st) = trace st"
  "evidence_file (ledger_move call d oc st) = evidence_file st"
  "query_ledger (ledger_move call d oc st) = query_ledger st"
  "sandbox_log (ledger_move call d oc st) = sandbox_log st"
  "raised (ledger_move call d oc st) = raised st"
  by (simp_all add: ledger_move_def record_move_def Let_def)

lemma ledger_query_frame:
  "step (ledger_query d oc st) = step st"
  "history (ledger_query d oc st) = history st"
  "last_resp (ledger_query d oc st) = last_resp st"
  "verifier_rounds (ledger_query d oc st) = verifier_rounds st"
  "pending_gradient (ledger_query d oc st) = pending_gradient st"
  "gradient_reminders (ledger_query d oc st) = gradient_reminders st"
  "tool_calls_made (ledger_query d oc st) = tool_calls_made st"
  "pre_tool_nudges (ledger_query d oc st) = pre_tool_nudges st"
  "length_nudges (ledger_query d oc st) = length_nudges st"
  "finalization_hits (ledger_query d oc st) = finalization_hits st"
  "stagnation_streak (ledger_query d oc st) = stagnation_streak st"
  "last_failure_type (ledger_query d oc st) = last_failure_type st"
  "last_failure_streak (ledger_query d oc st) = last_failure_streak st"
  "last_source_class (ledger_query d oc st) = last_source_class st"
  "source_class_failure_streak (ledger_query d oc st) = source_class_failure_streak st"
  "force_tool_next (ledger_query d oc st) = force_tool_next st"
  "force_query_mutation (ledger_query d oc st) = force_query_mutation st"
  "force_move_change (ledger_query d oc st) = force_move_change st"
  "force_source_shift (ledger_query d oc st) = force_source_shift st"
  "force_domain_shift (ledger_query d oc st) = force_domain_shift st"
  "parse_error_hits (ledger_query d oc st) = parse_error_hits st"
  "notes_required (ledger_query d oc st) = notes_required st"
  "epistemic (ledger_query d oc st) = epistemic st"
  "evidence_counter (ledger_query d oc st) = evidence_counter st"
  "move_counter (ledger_query d oc st) = move_counter st"
  "evidence_ids (ledger_query d oc st) = evidence_ids st"
  "last_evidence_count (ledger_query d oc st) = last_evidence_count st"
  "last_move_sig (ledger_query d oc st) = last_move_sig st"
  "last_move_type (ledger_query d oc st) = last_move_type st"
  "last_domain (ledger_query d oc st) = last_domain st"
  "last_domain_key (ledger_query d oc st) = last_domain_key st"
  "last_query_family (ledger_query d oc st) = last_query_family st"
  "move_repeat_streak (ledger_query d oc st) = move_repeat_streak st"
  "domain_same_streak (ledger_query d oc st) = domain_same_streak st"
  "recent_query_families (ledger_query d oc st) = recent_query_families st"
  "official_domain_hints (ledger_query d oc st) = official_domain_hints st"
  "official_domains_checked (ledger_query d oc st) = official_domains_checked st"
  "independent_domains_checked (ledger_query d oc st) = independent_domains_checked st"
  "domain_attempts (ledger_query d oc st) = domain_attempts st"
  "tb (ledger_query d oc st) = tb st"
  "trace (ledger_query d oc st) = trace st"
  "evidence_file (ledger_query d oc st) = evidence_file st"
  "move_ledger (ledger_query d oc st) = move_ledger st"
  "sandbox_log (ledger_query d oc st) = sandbox_log st"
  "raised (ledger_query d oc st) = raised st"
  by (simp_all add: ledger_query_def record_query_def Let_def)

lemma record_evidence_frame:
  "step (snd (record_evidence tool a ob st)) = step st"
  "history (snd (record_evidence tool a ob st)) = history st"
  "last_resp (snd (record_evidence tool a ob st)) = last_resp st"
  "verifier_rounds (snd (record_evidence tool a ob st)) = verifier_rounds st"
  "pending_gradient (snd (record_evidence tool a ob st)) = pending_gradient st"
  "gradient_reminders (snd (record_evidence tool a ob st)) = gradient_reminders st"
  "tool_calls_made (snd (record_evidence tool a ob st)) = tool_calls_made st"
  "pre_tool_nudges (snd (record_evidence tool a ob st)) = pre_tool_nudges st"
  "length_nudges (snd (record_evidence tool a ob st)) = length_nudges st"
  "finalization_hits (snd (record_evidence tool a ob st)) = finalization_hits st"
  "stagnation_streak (snd (record_evidence tool a ob st)) = stagnation_streak st"
  "last_source_class (snd (record_evidence tool a ob st)) = last_source_class st"
  "source_class_failure_streak (snd (record_evidence tool a ob st)) = source_class_failure_streak st"
  "force_tool_next (snd (record_evidence tool a ob st)) = force_tool_next st"
  "force_query_mutation (snd (record_evidence tool a ob st)) = force_query_mutation st"
  "force_move_change (snd (record_evidence tool a ob st)) = force_move_change st"
  "force_source_shift (snd (record_evidence tool a ob st)) = force_source_shift st"
  "force_domain_shift (snd (record_evidence tool a ob st)) = force_domain_shift st"
  "parse_error_hits (snd (record_evidence tool a ob st)) = parse_error_hits st"
  "notes_required (snd (record_evidence tool a ob st)) = notes_required st"
  "move_counter (snd (record_evidence tool a ob st)) = move_counter st"
  "query_counter (snd (record_evidence tool a ob st)) = query_counter st"
  "last_evidence_count (snd (record_evidence tool a ob st)) = last_evidence_count st"
  "last_move_sig (snd (record_evidence tool a ob st)) = last_move_sig st"
  "last_move_type (snd (record_evidence tool a ob st)) = last_move_type st"
  "last_domain (snd (record_evidence tool a ob st)) = last_domain st"
  "last_domain_key (snd (record_evidence tool a ob st)) = last_domain_key st"
  "last_query_family (snd (record_evidence tool a ob st)) = last_query_family st"
  "move_repeat_streak (snd (record_evidence tool a ob st)) = move_repeat_streak st"
  "domain_same_streak (snd (record_evidence tool a ob st)) = domain_same_streak st"
  "recent_query_families (snd (record_evidence tool a ob st)) = recent_query_families st"
  "official_domain_hints (snd (record_evidence tool a ob st)) = official_domain_hints st"
  "official_domains_checked (snd (record_evidence tool a ob st)) = official_domains_checked st"
  "independent_domains_checked (snd (record_evidence tool a ob st)) = independent_domains_checked st"
  "domain_attempts (snd (record_evidence tool a ob st)) = domain_attempts st"
  "tb (snd (record_evidence tool a ob st)) = tb st"
  "trace (snd (record_evidence tool a ob st)) = trace st"
  "move_ledger (snd (record_evidence tool a ob st)) = move_ledger st"
  "query_ledger (snd (record_evidence tool a ob st)) = query_ledger st"
  "sandbox_log (snd (record_evidence tool a ob st)) = sandbox_log st"
  "raised (snd (record_evidence tool a ob st)) = raised st"
  by (simp_all add: record_evidence_def Let_def)

lemma observe_frame:
  "step (snd (observe pk call ob st)) = step st"
  "last_resp (snd (observe pk call ob st)) = last_resp st"
  "verifier_rounds (snd (observe pk call ob st)) = verifier_rounds st"
  "pending_gradient (snd (observe pk call ob st)) = pending_gradient st"
  "gradient_reminders (snd (observe pk call ob st)) = gradient_reminders st"
  "tool_calls_made (snd (observe pk call ob st)) = tool_calls_made st"
  "pre_tool_nudges (snd (observe pk call ob st)) = pre_tool_nudges st"
  "length_nudges (snd (observe pk call ob st)) = length_nudges st"
  "finalization_hits (snd (observe pk call ob st)) = finalization_hits st"
  "stagnation_streak (snd (observe pk call ob st)) = stagnation_streak st"
  "last_source_class (snd (observe pk call ob st)) = last_source_class st"
  "source_class_failure_streak (snd (observe pk call ob st)) = source_class_failure_streak st"
  "force_tool_next (snd (observe pk call ob st)) = force_tool_next st"
  "force_query_mutation (snd (observe pk call ob st)) = force_query_mutation st"
  "force_move_change (snd (observe pk call ob st)) = force_move_change st"
  "force_source_shift (snd (observe pk call ob st)) = force_source_shift st"
  "force_domain_shift (snd (observe pk call ob st)) = force_domain_shift st"
  "parse_error_hits (snd (observe pk call ob st)) = parse_error_hits st"
  "notes_required (snd (observe pk call ob st)) = notes_required st"
  "move_counter (snd (observe pk call ob st)) = move_counter st"
  "query_counter (snd (observe pk call ob st)) = query_counter st"
  "last_evidence_count (snd (observe pk call ob st)) = last_evidence_count st"
  "last_move_sig (snd (observe pk call ob st)) = last_move_sig st"
  "last_move_type (snd (observe pk call ob st)) = last_move_type st"
  "last_domain (snd (observe pk call ob st)) = last_domain st"
  "last_domain_key (snd (observe pk call ob st)) = last_domain_key st"
  "last_query_family (snd (observe pk call ob st)) = last_query_family st"
  "move_repeat_streak (snd (observe pk call ob st)) = move_repeat_streak st"
  "domain_same_streak (snd (observe pk call ob st)) = domain_same_streak st"
  "recent_query_families (snd (observe pk call ob st)) = recent_query_families st"
  "official_domain_hints (snd (observe pk call ob st)) = official_domain_hints st"
  "official_domains_checked (snd (observe pk call ob st)) = official_domains_checked st"
  "independent_domains_checked (snd (observe pk call ob st)) = independent_domains_checked st"
  "domain_attempts (snd (observe pk call ob st)) = domain_attempts st"
  "tb (snd (observe pk call ob st)) = tb st"
  "move_ledger (snd (observe pk call ob st)) = move_ledger st"
  "query_ledger (snd (observe pk call ob st)) = query_ledger st"
  "sandbox_log (snd (observe pk call ob st)) = sandbox_log st"
  "raised (snd (observe pk call ob st)) = raised st"
  by (simp_all add: observe_def record_evidence_frame trace_event_frame history_append_frame)

lemma note_step_frame:
  "step (note_step call ob eid st) = step st"
  "history (note_step call ob eid st) = history st"
  "last_resp (note_step call ob eid st) = last_resp st"
  "verifier_rounds (note_step call ob eid st) = verifier_rounds st"
  "pending_gradient (note_step call ob eid st) = pending_gradient st"
  "gradient_reminders (note_step call ob eid st) = gradient_reminders st"
  "pre_tool_nudges (note_step call ob eid st) = pre_tool_nudges st"
  "length_nudges (note_step call ob eid st) = length_nudges st"
  "finalization_hits (note_step call ob eid st) = finalization_hits st"
  "stagnation_streak (note_step call ob eid st) = stagnation_streak st"
  "last_failure_type (note_step call ob eid st) = last_failure_type st"
  "last_failure_streak (note_step call ob eid st) = last_failure_streak st"
  "last_source_class (note_step call ob eid st) = last_source_class st"
  "source_class_failure_streak (note_step call ob eid st) = source_class_failure_streak st"
  "force_tool_next (note_step call ob eid st) = force_tool_next st"
  "force_query_mutation (note_step call ob eid st) = force_query_mutation st"
  "force_move_change (note_step call ob eid st) = force_move_change st"
  "force_source_shift (note_step call ob eid st) = force_source_shift st"
  "force_domain_shift (note_step call ob eid st) = force_domain_shift st"
  "parse_error_hits (note_step call ob eid st) = parse_error_hits st"
  "notes_required (note_step call ob eid st) = notes_required st"
  "epistemic (note_step call ob eid st) = epistemic st"
  "evidence_counter (note_step call ob eid st) = evidence_counter st"
  "move_counter (note_step call ob eid st) = move_counter st"
  "query_counter (note_step call ob eid st) = query_counter st"
  "evidence_ids (note_step call ob eid st) = evidence_ids st"
  "last_evidence_count (note_step call ob eid st) = last_evidence_count st"
  "last_move_sig (note_step call ob eid st) = last_move_sig st"
  "last_move_type (note_step call ob eid st) = last_move_type st"
  "last_domain (note_step call ob eid st) = last_domain st"
  "last_domain_key (note_step call ob eid st) = last_domain_key st"
  "last_query_family (note_step call ob eid st) = last_query_family st"
  "move_repeat_streak (note_step call ob eid st) = move_repeat_streak st"
  "domain_same_streak (note_step call ob eid st) = domain_same_streak st"
  "recent_query_families (note_step call ob eid st) = recent_query_families st"
  "official_domain_hints (note_step call ob eid st) = official_domain_hints st"
  "official_domains_checked (note_step call ob eid st) = official_domains_checked st"
  "independent_domains_checked (note_step call ob eid st) = independent_domains_checked st"
  "domain_attempts (note_step call ob eid st) = domain_attempts st"
  "tb (note_step call ob eid st) = tb st"
  "evidence_file (note_step call ob eid st) = evidence_file st"
  "move_ledger (note_step call ob eid st) = move_ledger st"
  "query_ledger (note_step call ob eid st) = query_ledger st"
  by (simp_all add: note_step_def notes_append_frame)

lemma reset_stagnation_frame:
  "step (reset_stagnation st) = step st"
  "history (reset_stagnation st) = history st"
  "last_resp (reset_stagnation st) = last_resp st"
  "verifier_rounds (reset_stagnation st) = verifier_rounds st"
  "pending_gradient (reset_stagnation st) = pending_gradient st"
  "gradient_reminders (reset_stagnation st) = gradient_reminders st"
  "tool_calls_made (reset_stagnation st) = tool_calls_made st"
  "pre_tool_nudges (reset_stagnation st) = pre_tool_nudges st"
  "length_nudges (reset_stagnation st) = length_nudges st"
  "finalization_hits (reset_stagnation st) = finalization_hits st"
  "last_failure_type (reset_stagnation st) = last_failure_type st"
  "last_failure_streak (reset_stagnation st) = last_failure_streak st"
  "last_source_class (reset_stagnation st) = last_source_class st"
  "source_class_failure_streak (reset_stagnation st) = source_class_failure_streak st"
  "force_query_mutation (reset_stagnation st) = force_query_mutation st"
  "force_move_change (reset_stagnation st) = force_move_change st"
  "force_source_shift (reset_stagnation st) = force_source_shift st"
  "force_domain_shift (reset_stagnation st) = force_domain_shift st"
  "parse_error_hits (reset_stagnation st) = parse_error_hits st"
  "notes_required (reset_stagnation st) = notes_required st"
  "epistemic (reset_stagnation st) = epistemic st"
  "evidence_counter (reset_stagnation st) = evidence_counter st"
  "move_counter (reset_stagnation st) = move_counter st"
  "query_counter (reset_stagnation st) = query_counter st"
  "evidence_ids (reset_stagnation st) = evidence_ids st"
  "last_move_sig (reset_stagnation st) = last_move_sig st"
  "last_move_type (reset_stagnation st) = last_move_type st"
  "last_domain (reset_stagnation st) = last_domain st"
  "last_domain_key (reset_stagnation st) = last_domain_key st"
  "last_query_family (reset_stagnation st) = last_query_family st"
  "move_repeat_streak (reset_stagnation st) = move_repeat_streak st"
  "domain_same_streak (reset_stagnation st) = domain_same_streak st"
  "recent_query_families (reset_stagnation st) = recent_query_families st"
  "official_domain_hints (reset_stagnation st) = official_domain_hints st"
  "official_domains_checked (reset_stagnation st) = official_domains_checked st"
  "independent_domains_checked (reset_stagnation st) = independent_domains_checked st"
  "domain_attempts (reset_stagnation st) = domain_attempts st"
  "tb (reset_stagnation st) = tb st"
  "trace (reset_stagnation st) = trace st"
  "evidence_file (reset_stagnation st) = evidence_file st"
  "move_ledger (reset_stagnation st) = move_ledger st"
  "query_ledger (reset_stagnation st) = query_ledger st"
  "sandbox_log (reset_stagnation st) = sandbox_log st"
  "raised (reset_stagnation st) = raised st"
  by (simp_all add: reset_stagnation_def)

lemma settle_frame:
  "step (settle call ob eid st) = step st"
  "history (settle call ob eid st) = history st"
  "last_resp (settle call ob eid st) = last_resp st"
  "verifier_rounds (settle call ob eid st) = verifier_rounds st"
  "pending_gradient (settle call ob eid st) = pending_gradient st"
  "gradient_reminders (settle call ob eid st) = gradient_reminders st"
  "pre_tool_nudges (settle call ob eid st) = pre_tool_nudges st"
  "length_nudges (settle call ob eid st) = length_nudges st"
  "finalization_hits (settle call ob eid st) = finalization_hits st"
  "last_failure_type (settle call ob eid st) = last_failure_type st"
  "last_failure_streak (settle call ob eid st) = last_failure_streak st"
  "last_source_class (settle call ob eid st) = last_source_class st"
  "source_class_failure_streak (settle call ob eid st) = source_class_failure_streak st"
  "force_query_mutation (settle call ob eid st) = force_query_mutation st"
  "force_move_change (settle call ob eid st) = force_move_change st"
  "force_source_shift (settle call ob eid st) = force_source_shift st"
  "force_domain_shift (settle call ob eid st) = force_domain_shift st"
  "parse_error_hits (settle call ob eid st) = parse_error_hits st"
  "notes_required (settle call ob eid st) = notes_required st"
  "epistemic (settle call ob eid st) = epistemic st"
  "evidence_counter (settle call ob eid st) = evidence_counter st"
  "move_counter (settle call ob eid st) = move_counter st"
  "query_counter (settle call ob eid st) = query_counter st"
  "evidence_ids (settle call ob eid st) = evidence_ids st"
  "last_move_sig (settle call ob eid st) = last_move_sig st"
  "last_move_type (settle call ob eid st) = last_move_type st"
  "last_domain (settle call ob eid st) = last_domain st"
  "last_domain_key (settle call ob eid st) = last_domain_key st"
  "last_query_family (settle call ob eid st) = last_query_family st"
  "move_repeat_streak (settle call ob eid st) = move_repeat_streak st"
  "domain_same_streak (settle call ob eid st) = domain_same_streak st"
  "recent_query_families (settle call ob eid st) = recent_query_families st"
  "official_domain_hints (settle call ob eid st) = official_domain_hints st"
  "official_domains_checked (settle call ob eid st) = official_domains_checked st"
  "independent_domains_checked (settle call ob eid st) = independent_domains_checked st"
  "domain_attempts (settle call ob eid st) = domain_attempts st"
  "tb (settle call ob eid st) = tb st"
  "evidence_file (settle call ob eid st) = evidence_file st"
  "move_ledger (settle call ob eid st) = move_ledger st"
  "query_ledger (settle call ob eid st) = query_ledger st"
  by (simp_all add: settle_def unless_raised_def note_step_frame reset_stagnation_frame)

lemma run_tool_frame:
  "step (snd (run_tool call rep st)) = step st"
  "history (snd (run_tool call rep st)) = history st"
  "last_resp (snd (run_tool call rep st)) = last_resp st"
  "verifier_rounds (snd (run_tool call rep st)) = verifier_rounds st"
  "pending_gradient (snd (run_tool call rep st)) = pending_gradient st"
  "gradient_reminders (snd (run_tool call rep st)) = gradient_reminders st"
  "tool_calls_made (snd (run_tool call rep st)) = tool_calls_made st"
  "pre_tool_nudges (snd (run_tool call rep st)) = pre_tool_nudges st"
  "length_nudges (snd (run_tool call rep st)) = length_nudges st"
  "finalization_hits (snd (run_tool call rep st)) = finalization_hits st"
  "stagnation_streak (snd (run_tool call rep st)) = stagnation_streak st"
  "last_failure_type (snd (run_tool call rep st)) = last_failure_type st"
  "last_failure_streak (snd (run_tool call rep st)) = last_failure_streak st"
  "last_source_class (snd (run_tool call rep st)) = last_source_class st"
  "source_class_failure_streak (snd (run_tool call rep st)) = source_class_failure_streak st"
  "force_tool_next (snd (run_tool call rep st)) = force_tool_next st"
  "force_query_mutation (snd (run_tool call rep st)) = force_query_mutation st"
  "force_move_change (snd (run_tool call rep st)) = force_move_change st"
  "force_source_shift (snd (run_tool call rep st)) = force_source_shift st"
  "force_domain_shift (snd (run_tool call rep st)) = force_domain_shift st"
  "parse_error_hits (snd (run_tool call rep st)) = parse_error_hits st"
  "notes_required (snd (run_tool call rep st)) = notes_required st"
  "epistemic (snd (run_tool call rep st)) = epistemic st"
  "evidence_counter (snd (run_tool call rep st)) = evidence_counter st"
  "move_counter (snd (run_tool call rep st)) = move_counter st"
  "query_counter (snd (run_tool call rep st)) = query_counter st"
  "evidence_ids (snd (run_tool call rep st)) = evidence_ids st"
  "last_evidence_count (snd (run_tool call rep st)) = last_evidence_count st"
  "last_move_sig (snd (run_tool call rep st)) = last_move_sig st"
  "last_move_type (snd (run_tool call rep st)) = last_move_type st"
  "last_domain (snd (run_tool call rep st)) = last_domain st"
  "last_domain_key (snd (run_tool call rep st)) = last_domain_key st"
  "last_query_family (snd (run_tool call rep st)) = last_query_family st"
  "move_repeat_streak (snd (run_tool call rep st)) = move_repeat_streak st"
  "domain_same_streak (snd (run_tool call rep st)) = domain_same_streak st"
  "recent_query_families (snd (run_tool call rep st)) = recent_query_families st"
  "official_domain_hints (snd (run_tool call rep st)) = official_domain_hints st"
  "official_domains_checked (snd (run_tool call rep st)) = official_domains_checked st"
  "independent_domains_checked (snd (run_tool call rep st)) = independent_domains_checked st"
  "domain_attempts (snd (run_tool call rep st)) = domain_attempts st"
  "trace (snd (run_tool call rep st)) = trace st"
  "evidence_file (snd (run_tool call rep st)) = evidence_file st"
  "move_ledger (snd (run_tool call rep st)) = move_ledger st"
  "query_ledger (snd (run_tool call rep st)) = query_ledger st"
  "raised (snd (run_tool call rep st)) = raised st"
  by (simp_all add: run_tool_def Let_def split: prod.splits sum.splits)

lemma note_domain_frame:
  "step (note_domain cfg d st) = step st"
  "history (note_domain cfg d st) = history st"
  "last_resp (note_domain cfg d st) = last_resp st"
  "verifier_rounds (note_domain cfg d st) = verifier_rounds st"
  "pending_gradient (note_domain cfg d st) = pending_gradient st"
  "gradient_reminders (note_domain cfg d st) = gradient_reminders st"
  "tool_calls_made (note_domain cfg d st) = tool_calls_made st"
  "pre_tool_nudges (note_domain cfg d st) = pre_tool_nudges st"
  "length_nudges (note_domain cfg d st) = length_nudges st"
  "finalization_hits (note_domain cfg d st) = finalization_hits st"
  "stagnation_streak (note_domain cfg d st) = stagnation_streak st"
  "last_failure_type (note_domain cfg d st) = last_failure_type st"
  "last_failure_streak (note_domain cfg d st) = last_failure_streak st"
  "last_source_class (note_domain cfg d st) = last_source_class st"
  "source_class_failure_streak (note_domain cfg d st) = source_class_failure_streak st"
  "force_tool_next (note_domain cfg d st) = force_tool_next st"
  "force_query_mutation (note_domain cfg d st) = force_query_mutation st"
  "force_move_change (note_domain cfg d st) = force_move_change st"
  "force_source_shift (note_domain cfg d st) = force_source_shift st"
  "parse_error_hits (note_domain cfg d st) = parse_error_hits st"
  "notes_required (note_domain cfg d st) = notes_required st"
  "epistemic (note_domain cfg d st) = epistemic st"
  "evidence_counter (note_domain cfg d st) = evidence_counter st"
  "move_counter (note_domain cfg d st) = move_counter st"
  "query_counter (note_domain cfg d st) = query_counter st"
  "evidence_ids (note_domain cfg d st) = evidence_ids st"
  "last_evidence_count (note_domain cfg d st) = last_evidence_count st"
  "last_move_sig (note_domain cfg d st) = last_move_sig st"
  "last_move_type (note_domain cfg d st) = last_move_type st"
  "last_domain (note_domain cfg d st) = last_domain st"
  "last_query_family (note_domain cfg d st) = last_query_family st"
  "move_repeat_streak (note_domain cfg d st) = move_repeat_streak st"
  "recent_query_families (note_domain cfg d st) = recent_query_families st"
  "tb (note_domain cfg d st) = tb st"
  "trace (note_domain cfg d st) = trace st"
  "evidence_file (note_domain cfg d st) = evidence_file st"
  "move_ledger (note_domain cfg d st) = move_ledger st"
  "query_ledger (note_domain cfg d st) = query_ledger st"
  "sandbox_log (note_domain cfg d st) = sandbox_log st"
  "raised (note_domain cfg d st) = raised st"
  by (simp_all add: note_domain_def Let_def)

lemma note_query_frame:
  "step (note_query cfg d st) = step st"
  "history (note_query cfg d st) = history st"
  "last_resp (note_query cfg d st) = last_resp st"
  "verifier_rounds (note_query cfg d st) = verifier_rounds st"
  "pending_gradient (note_query cfg d st) = pending_gradient st"
  "gradient_reminders (note_query cfg d st) = gradient_reminders st"
  "tool_calls_made (note_query cfg d st) = tool_calls_made st"
  "pre_tool_nudges (note_query cfg d st) = pre_tool_nudges st"
  "length_nudges (note_query cfg d st) = length_nudges st"
  "finalization_hits (note_query cfg d st) = finalization_hits st"
  "stagnation_streak (note_query cfg d st) = stagnation_streak st"
  "last_failure_type (note_query cfg d st) = last_failure_type st"
  "last_failure_streak (note_query cfg d st) = last_failure_streak st"
  "last_source_class (note_query cfg d st) = last_source_class st"
  "source_class_failure_streak (note_query cfg d st) = source_class_failure_streak st"
  "force_tool_next (note_query cfg d st) = force_tool_next st"
  "force_move_change (note_query cfg d st) = force_move_change st"
  "force_source_shift (note_query cfg d st) = force_source_shift st"
  "force_domain_shift (note_query cfg d st) = force_domain_shift st"
  "parse_error_hits (note_query cfg d st) = parse_error_hits st"
  "notes_required (note_query cfg d st) = notes_required st"
  "epistemic (note_query cfg d st) = epistemic st"
  "evidence_counter (note_query cfg d st) = evidence_counter st"
  "move_counter (note_query cfg d st) = move_counter st"
  "query_counter (note_query cfg d st) = query_counter st"
  "evidence_ids (note_query cfg d st) = evidence_ids st"
  "last_evidence_count (note_query cfg d st) = last_evidence_count st"
  "last_move_sig (note_query cfg d st) = last_move_sig st"
  "last_move_type (note_query cfg d st) = last_move_type st"
  "last_domain (note_query cfg d st) = last_domain st"
  "last_domain_key (note_query cfg d st) = last_domain_key st"
  "last_query_family (note_query cfg d st) = last_query_family st"
  "move_repeat_streak (note_query cfg d st) = move_repeat_streak st"
  "domain_same_streak (note_query cfg d st) = domain_same_streak st"
  "official_domain_hints (note_query cfg d st) = official_domain_hints st"
  "official_domains_checked (note_query cfg d st) = official_domains_checked st"
  "independent_domains_checked (note_query cfg d st) = independent_domains_checked st"
  "domain_attempts (note_query cfg d st) = domain_attempts st"
  "tb (note_query cfg d st) = tb st"
  "trace (note_query cfg d st) = trace st"
  "evidence_file (note_query cfg d st) = evidence_file st"
  "move_ledger (note_query cfg d st) = move_ledger st"
  "query_ledger (note_query cfg d st) = query_ledger st"
  "sandbox_log (note_query cfg d st) = sandbox_log st"
  "raised (note_query cfg d st) = raised st"
  by (simp_all add: note_query_def)

lemma note_move_frame:
  "step (note_move d st) = step st"
  "history (note_move d st) = history st"
  "last_resp (note_move d st) = last_resp st"
  "verifier_rounds (note_move d st) = verifier_rounds st"
  "pending_gradient (note_move d st) = pending_gradient st"
  "gradient_reminders (note_move d st) = gradient_reminders st"
  "tool_calls_made (note_move d st) = tool_calls_made st"
  "pre_tool_nudges (note_move d st) = pre_tool_nudges st"
  "length_nudges (note_move d st) = length_nudges st"
  "finalization_hits (note_move d st) = finalization_hits st"
  "stagnation_streak (note_move d st) = stagnation_streak st"
  "last_failure_type (note_move d st) = last_failure_type st"
  "last_failure_streak (note_move d st) = last_failure_streak st"
  "last_source_class (note_move d st) = last_source_class st"
  "source_class_failure_streak (note_move d st) = source_class_failure_streak st"
  "force_tool_next (note_move d st) = force_tool_next st"
  "force_query_mutation (note_move d st) = force_query_mutation st"
  "force_source_shift (note_move d st) = force_source_shift st"
  "force_domain_shift (note_move d st) = force_domain_shift st"
  "parse_error_hits (note_move d st) = parse_error_hits st"
  "notes_required (note_move d st) = notes_required st"
  "epistemic (note_move d st) = epistemic st"
  "evidence_counter (note_move d st) = evidence_counter st"
  "move_counter (note_move d st) = move_counter st"
  "query_counter (note_move d st) = query_counter st"
  "evidence_ids (note_move d st) = evidence_ids st"
  "last_evidence_count (note_move d st) = last_evidence_count st"
  "last_domain_key (note_move d st) = last_domain_key st"
  "domain_same_streak (note_move d st) = domain_same_streak st"
  "recent_query_families (note_move d st) = recent_query_families st"
  "official_domain_hints (note_move d st) = official_domain_hints st"
  "official_domains_checked (note_move d st) = official_domains_checked st"
  "independent_domains_checked (note_move d st) = independent_domains_checked st"
  "domain_attempts (note_move d st) = domain_attempts st"
  "tb (note_move d st) = tb st"
  "trace (note_move d st) = trace st"
  "evidence_file (note_move d st) = evidence_file st"
  "move_ledger (note_move d st) = move_ledger st"
  "query_ledger (note_move d st) = query_ledger st"
  "sandbox_log (note_move d st) = sandbox_log st"
  "raised (note_move d st) = raised st"
  by (simp_all add: note_move_def Let_def)

lemma note_source_frame:
  "step (note_source cfg d ft st) = step st"
  "history (note_source cfg d ft st) = history st"
  "last_resp (note_source cfg d ft st) = last_resp st"
  "verifier_rounds (note_source cfg d ft st) = verifier_rounds st"
  "pending_gradient (note_source cfg d ft st) = pending_gradient st"
  "gradient_reminders (note_source cfg d ft st) = gradient_reminders st"
  "tool_calls_made (note_source cfg d ft st) = tool_calls_made st"
  "pre_tool_nudges (note_source cfg d ft st) = pre_tool_nudges st"
  "length_nudges (note_source cfg d ft st) = length_nudges st"
  "finalization_hits (note_source cfg d ft st) = finalization_hits st"
  "stagnation_streak (note_source cfg d ft st) = stagnation_streak st"
  "last_failure_type (note_source cfg d ft st) = last_failure_type st"
  "last_failure_streak (note_source cfg d ft st) = last_failure_streak st"
  "force_tool_next (note_source cfg d ft st) = force_tool_next st"
  "force_query_mutation (note_source cfg d ft st) = force_query_mutation st"
  "force_move_change (note_source cfg d ft st) = force_move_change st"
  "force_domain_shift (note_source cfg d ft st) = force_domain_shift st"
  "parse_error_hits (note_source cfg d ft st) = parse_error_hits st"
  "notes_required (note_source cfg d ft st) = notes_required st"
  "evidence_counter (note_source cfg d ft st) = evidence_counter st"
  "move_counter (note_source cfg d ft st) = move_counter st"
  "query_counter (note_source cfg d ft st) = query_counter st"
  "evidence_ids (note_source cfg d ft st) = evidence_ids st"
  "last_evidence_count (note_source cfg d ft st) = last_evidence_count st"
  "last_move_sig (note_source cfg d ft st) = last_move_sig st"
  "last_move_type (note_source cfg d ft st) = last_move_type st"
  "last_domain (note_source cfg d ft st) = last_domain st"
  "last_domain_key (note_source cfg d ft st) = last_domain_key st"
  "last_query_family (note_source cfg d ft st) = last_query_family st"
  "move_repeat_streak (note_source cfg d ft st) = move_repeat_streak st"
  "domain_same_streak (note_source cfg d ft st) = domain_same_streak st"
  "recent_query_families (note_source cfg d ft st) = recent_query_families st"
  "official_domain_hints (note_source cfg d ft st) = official_domain_hints st"
  "official_domains_checked (note_source cfg d ft st) = official_domains_checked st"
  "independent_domains_checked (note_source cfg d ft st) = independent_domains_checked st"
  "domain_attempts (note_source cfg d ft st) = domain_attempts st"
  "tb (note_source cfg d ft st) = tb st"
  "trace (note_source cfg d ft st) = trace st"
  "evidence_file (note_source cfg d ft st) = evidence_file st"
  "move_ledger (note_source cfg d ft st) = move_ledger st"
  "query_ledger (note_source cfg d ft st) = query_ledger st"
  "sandbox_log (note_source cfg d ft st) = sandbox_log st"
  "raised (note_source cfg d ft st) = raised st"
  by (simp_all add: note_source_def Let_def)

lemma note_move_stagnation_frame:
  "step (note_move_stagnation cfg d st) = step st"
  "history (note_move_stagnation cfg d st) = history st"
  "last_resp (note_move_stagnation cfg d st) = last_resp st"
  "verifier_rounds (note_move_stagnation cfg d st) = verifier_rounds st"
  "pending_gradient (note_move_stagnation cfg d st) = pending_gradient st"
  "gradient_reminders (note_move_stagnation cfg d st) = gradient_reminders st"
  "tool_calls_made (note_move_stagnation cfg d st) = tool_calls_made st"
  "pre_tool_nudges (note_move_stagnation cfg d st) = pre_tool_nudges st"
  "length_nudges (note_move_stagnation cfg d st) = length_nudges st"
  "finalization_hits (note_move_stagnation cfg d st) = finalization_hits st"
  "stagnation_streak (note_move_stagnation cfg d st) = stagnation_streak st"
  "last_failure_type (note_move_stagnation cfg d st) = last_failure_type st"
  "last_failure_streak (note_move_stagnation cfg d st) = last_failure_streak st"
  "last_source_class (note_move_stagnation cfg d st) = last_source_class st"
  "source_class_failure_streak (note_move_stagnation cfg d st) = source_class_failure_streak st"
  "force_tool_next (note_move_stagnation cfg d st) = force_tool_next st"
  "force_query_mutation (note_move_stagnation cfg d st) = force_query_mutation st"
  "force_source_shift (note_move_stagnation cfg d st) = force_source_shift st"
  "force_domain_shift (note_move_stagnation cfg d st) = force_domain_shift st"
  "parse_error_hits (note_move_stagnation cfg d st) = parse_error_hits st"
  "notes_required (note_move_stagnation cfg d st) = notes_required st"
  "evidence_counter (note_move_stagnation cfg d st) = evidence_counter st"
  "move_counter (note_move_stagnation cfg d st) = move_counter st"
  "query_counter (note_move_stagnation cfg d st) = query_counter st"
  "evidence_ids (note_move_stagnation cfg d st) = evidence_ids st"
  "last_evidence_count (note_move_stagnation cfg d st) = last_evidence_count st"
  "last_move_sig (note_move_stagnation cfg d st) = last_move_sig st"
  "last_move_type (note_move_stagnation cfg d st) = last_move_type st"
  "last_domain (note_move_stagnation cfg d st) = last_domain st"
  "last_domain_key (note_move_stagnation cfg d st) = last_domain_key st"
  "last_query_family (note_move_stagnation cfg d st) = last_query_family st"
  "move_repeat_streak (note_move_stagnation cfg d st) = move_repeat_streak st"
  "domain_same_streak (note_move_stagnation cfg d st) = domain_same_streak st"
  "recent_query_families (note_move_stagnation cfg d st) = recent_query_families st"
  "official_domain_hints (note_move_stagnation cfg d st) = official_domain_hints st"
  "official_domains_checked (note_move_stagnation cfg d st) = official_domains_checked st"
  "independent_domains_checked (note_move_stagnation cfg d st) = independent_domains_checked st"
  "domain_attempts (note_move_stagnation cfg d st) = domain_attempts st"
  "tb (note_move_stagnation cfg d st) = tb st"
  "trace (note_move_stagnation cfg d st) = trace st"
  "evidence_file (note_move_stagnation cfg d st) = evidence_file st"
  "move_ledger (note_move_stagnation cfg d st) = move_ledger st"
  "query_ledger (note_move_stagnation cfg d st) = query_ledger st"
  "sandbox_log (note_move_stagnation cfg d st) = sandbox_log st"
  "raised (note_move_stagnation cfg d st) = raised st"
  by (simp_all add: note_move_stagnation_def)

lemma raise_domain_shift_frame:
  "step (raise_domain_shift cfg d st) = step st"
  "history (raise_domain_shift cfg d st) = history st"
  "last_resp (raise_domain_shift cfg d st) = last_resp st"
  "verifier_rounds (raise_domain_shift cfg d st) = verifier_rounds st"
  "pending_gradient (raise_domain_shift cfg d st) = pending_gradient st"
  "gradient_reminders (raise_domain_shift cfg d st) = gradient_reminders st"
  "tool_calls_made (raise_domain_shift cfg d st) = tool_calls_made st"
  "pre_tool_nudges (raise_domain_shift cfg d st) = pre_tool_nudges st"
  "length_nudges (raise_domain_shift cfg d st) = length_nudges st"
  "finalization_hits (raise_domain_shift cfg d st) = finalization_hits st"
  "stagnation_streak (raise_domain_shift cfg d st) = stagnation_streak st"
  "last_failure_type (raise_domain_shift cfg d st) = last_failure_type st"
  "last_failure_streak (raise_domain_shift cfg d st) = last_failure_streak st"
  "last_source_class (raise_domain_shift cfg d st) = last_source_class st"
  "source_class_failure_streak (raise_domain_shift cfg d st) = source_class_failure_streak st"
  "force_tool_next (raise_domain_shift cfg d st) = force_tool_next st"
  "force_query_mutation (raise_domain_shift cfg d st) = force_query_mutation st"
  "force_move_change (raise_domain_shift cfg d st) = force_move_change st"
  "force_source_shift (raise_domain_shift cfg d st) = force_source_shift st"
  "parse_error_hits (raise_domain_shift cfg d st) = parse_error_hits st"
  "notes_required (raise_domain_shift cfg d st) = notes_required st"
  "epistemic (raise_domain_shift cfg d st) = epistemic st"
  "evidence_counter (raise_domain_shift cfg d st) = evidence_counter st"
  "move_counter (raise_domain_shift cfg d st) = move_counter st"
  "query_counter (raise_domain_shift cfg d st) = query_counter st"
  "evidence_ids (raise_domain_shift cfg d st) = evidence_ids st"
  "last_evidence_count (raise_domain_shift cfg d st) = last_evidence_count st"
  "last_move_sig (raise_domain_shift cfg d st) = last_move_sig st"
  "last_move_type (raise_domain_shift cfg d st) = last_move_type st"
  "last_domain (raise_domain_shift cfg d st) = last_domain st"
  "last_domain_key (raise_domain_shift cfg d st) = last_domain_key st"
  "last_query_family (raise_domain_shift cfg d st) = last_query_family st"
  "move_repeat_streak (raise_domain_shift cfg d st) = move_repeat_streak st"
  "domain_same_streak (raise_domain_shift cfg d st) = domain_same_streak st"
  "recent_query_families (raise_domain_shift cfg d st) = recent_query_families st"
  "official_domain_hints (raise_domain_shift cfg d st) = official_domain_hints st"
  "official_domains_checked (raise_domain_shift cfg d st) = official_domains_checked st"
  "independent_domains_checked (raise_domain_shift cfg d st) = independent_domains_checked st"
  "domain_attempts (raise_domain_shift cfg d st) = domain_attempts st"
  "tb (raise_domain_shift cfg d st) = tb st"
  "trace (raise_domain_shift cfg d st) = trace st"
  "evidence_file (raise_domain_shift cfg d st) = evidence_file st"
  "move_ledger (raise_domain_shift cfg d st) = move_ledger st"
  "query_ledger (raise_domain_shift cfg d st) = query_ledger st"
  "sandbox_log (raise_domain_shift cfg d st) = sandbox_log st"
  "raised (raise_domain_shift cfg d st) = raised st"
  by (simp_all add: raise_domain_shift_def)

lemma dispatch_frame:
  "step (snd (snd (dispatch call rep st))) = step st"
  "last_resp (snd (snd (dispatch call rep st))) = last_resp st"
  "verifier_rounds (snd (snd (dispatch call rep st))) = verifier_rounds st"
  "pending_gradient (snd (snd (dispatch call rep st))) = pending_gradient st"
  "gradient_reminders (snd (snd (dispatch call rep st))) = gradient_reminders st"
  "pre_tool_nudges (snd (snd (dispatch call rep st))) = pre_tool_nudges st"
  "length_nudges (snd (snd (dispatch call rep st))) = length_nudges st"
  "finalization_hits (snd (snd (dispatch call rep st))) = finalization_hits st"
  "stagnation_streak (snd (snd (dispatch call rep st))) = stagnation_streak st"
  "last_source_class (snd (snd (dispatch call rep st))) = last_source_class st"
  "source_class_failure_streak (snd (snd (dispatch call rep st))) = source_class_failure_streak st"
  "force_tool_next (snd (snd (dispatch call rep st))) = force_tool_next st"
  "force_query_mutation (snd (snd (dispatch call rep st))) = force_query_mutation st"
  "force_move_change (snd (snd (dispatch call rep st))) = force_move_change st"
  "force_source_shift (snd (snd (dispatch call rep st))) = force_source_shift st"
  "force_domain_shift (snd (snd (dispatch call rep st))) = force_domain_shift st"
  "parse_error_hits (snd (snd (dispatch call rep st))) = parse_error_hits st"
  "notes_required (snd (snd (dispatch call rep st))) = notes_required st"
  "move_counter (snd (snd (dispatch call rep st))) = move_counter st"
  "query_counter (snd (snd (dispatch call rep st))) = query_counter st"
  "last_evidence_count (snd (snd (dispatch call rep st))) = last_evidence_count st"
  "last_move_sig (snd (snd (dispatch call rep st))) = last_move_sig st"
  "last_move_type (snd (snd (dispatch call rep st))) = last_move_type st"
  "last_domain (snd (snd (dispatch call rep st))) = last_domain st"
  "last_domain_key (snd (snd (dispatch call rep st))) = last_domain_key st"
  "last_query_family (snd (snd (dispatch call rep st))) = last_query_family st"
  "move_repeat_streak (snd (snd (dispatch call rep st))) = move_repeat_streak st"
  "domain_same_streak (snd (snd (dispatch call rep st))) = domain_same_streak st"
  "recent_query_families (snd (snd (dispatch call rep st))) = recent_query_families st"
  "official_domain_hints (snd (snd (dispatch call rep st))) = official_domain_hints st"
  "official_domains_checked (snd (snd (dispatch call rep st))) = official_domains_checked st"
  "independent_domains_checked (snd (snd (dispatch call rep st))) = independent_domains_checked st"
  "domain_attempts (snd (snd (dispatch call rep st))) = domain_attempts st"
  "move_ledger (snd (snd (dispatch call rep st))) = move_ledger st"
  "query_ledger (snd (snd (dispatch call rep st))) = query_ledger st"
  "raised (snd (snd (dispatch call rep st))) = raised st"
  by (simp_all add: dispatch_def Let_def record_evidence_frame trace_event_frame
      history_append_frame run_tool_frame)

lemma write_ledgers_frame:
  "step (write_ledgers call d ob eid st) = step st"
  "history (write_ledgers call d ob eid st) = history st"
  "last_resp (write_ledgers call d ob eid st) = last_resp st"
  "verifier_rounds (write_ledgers call d ob eid st) = verifier_rounds st"
  "pending_gradient (write_ledgers call d ob eid st) = pending_gradient st"
  "gradient_reminders (write_ledgers call d ob eid st) = gradient_reminders st"
  "tool_calls_made (write_ledgers call d ob eid st) = tool_calls_made st"
  "pre_tool_nudges (write_ledgers call d ob eid st) = pre_tool_nudges st"
  "length_nudges (write_ledgers call d ob eid st) = length_nudges st"
  "finalization_hits (write_ledgers call d ob eid st) = finalization_hits st"
  "stagnation_streak (write_ledgers call d ob eid st) = stagnation_streak st"
  "last_failure_type (write_ledgers call d ob eid st) = last_failure_type st"
  "last_failure_streak (write_ledgers call d ob eid st) = last_failure_streak st"
  "last_source_class (write_ledgers call d ob eid st) = last_source_class st"
  "source_class_failure_streak (write_ledgers call d ob eid st) = source_class_failure_streak st"
  "force_tool_next (write_ledgers call d ob eid st) = force_tool_next st"
  "force_query_mutation (write_ledgers call d ob eid st) = force_query_mutation st"
  "force_move_change (write_ledgers call d ob eid st) = force_move_change st"
  "force_source_shift (write_ledgers call d ob eid st) = force_source_shift st"
  "force_domain_shift (write_ledgers call d ob eid st) = force_domain_shift st"
  "parse_error_hits (write_ledgers call d ob eid st) = parse_error_hits st"
  "epistemic (write_ledgers call d ob eid st) = epistemic st"
  "evidence_counter (write_ledgers call d ob eid st) = evidence_counter st"
  "evidence_ids (write_ledgers call d ob eid st) = evidence_ids st"
  "last_evidence_count (write_ledgers call d ob eid st) = last_evidence_count st"
  "last_move_sig (write_ledgers call d ob eid st) = last_move_sig st"
  "last_move_type (write_ledgers call d ob eid st) = last_move_type st"
  "last_domain (write_ledgers call d ob eid st) = last_domain st"
  "last_domain_key (write_ledgers call d ob eid st) = last_domain_key st"
  "last_query_family (write_ledgers call d ob eid st) = last_query_family st"
  "move_repeat_streak (write_ledgers call d ob eid st) = move_repeat_streak st"
  "domain_same_streak (write_ledgers call d ob eid st) = domain_same_streak st"
  "recent_query_families (write_ledgers call d ob eid st) = recent_query_families st"
  "official_domain_hints (write_ledgers call d ob eid st) = official_domain_hints st"
  "official_domains_checked (write_ledgers call d ob eid st) = official_domains_checked st"
  "independent_domains_checked (write_ledgers call d ob eid st) = independent_domains_checked st"
  "domain_attempts (write_ledgers call d ob eid st) = domain_attempts st"
  "tb (write_ledgers call d ob eid st) = tb st"
  "evidence_file (write_ledgers call d ob eid st) = evidence_file st"
  by (simp_all add: write_ledgers_def Let_def notes_append_frame ledger_move_frame
      ledger_query_frame)

lemma update_streaks_frame:
  "step (update_streaks cfg d ft st) = step st"
  "history (update_streaks cfg d ft st) = history st"
  "last_resp (update_streaks cfg d ft st) = last_resp st"
  "verifier_rounds (update_streaks cfg d ft st) = verifier_rounds st"
  "pending_gradient (update_streaks cfg d ft st) = pending_gradient st"
  "gradient_reminders (update_streaks cfg d ft st) = gradient_reminders st"
  "tool_calls_made (update_streaks cfg d ft st) = tool_calls_made st"
  "pre_tool_nudges (update_streaks cfg d ft st) = pre_tool_nudges st"
  "length_nudges (update_streaks cfg d ft st) = length_nudges st"
  "finalization_hits (update_streaks cfg d ft st) = finalization_hits st"
  "last_failure_type (update_streaks cfg d ft st) = last_failure_type st"
  "last_failure_streak (update_streaks cfg d ft st) = last_failure_streak st"
  "parse_error_hits (update_streaks cfg d ft st) = parse_error_hits st"
  "notes_required (update_streaks cfg d ft st) = notes_required st"
  "evidence_counter (update_streaks cfg d ft st) = evidence_counter st"
  "move_counter (update_streaks cfg d ft st) = move_counter st"
  "query_counter (update_streaks cfg d ft st) = query_counter st"
  "evidence_ids (update_streaks cfg d ft st) = evidence_ids st"
  "tb (update_streaks cfg d ft st) = tb st"
  "trace (update_streaks cfg d ft st) = trace st"
  "evidence_file (update_streaks cfg d ft st) = evidence_file st"
  "move_ledger (update_streaks cfg d ft st) = move_ledger st"
  "query_ledger (update_streaks cfg d ft st) = query_ledger st"
  "sandbox_log (update_streaks cfg d ft st) = sandbox_log st"
  "raised (update_streaks cfg d ft st) = raised st"
  by (simp_all add: update_streaks_def Let_def note_domain_frame note_query_frame
      note_move_frame note_source_frame note_move_stagnation_frame)

lemma finalization_stop_frame:
  "step (snd (finalization_stop resp call st)) = step st"
  "history (snd (finalization_stop resp call st)) = history st"
  "last_resp (snd (finalization_stop resp call st)) = last_resp st"
  "verifier_rounds (snd (finalization_stop resp call st)) = verifier_rounds st"
  "pending_gradient (snd (finalization_stop resp call st)) = pending_gradient st"
  "gradient_reminders (snd (finalization_stop resp call st)) = gradient_reminders st"
  "tool_calls_made (snd (finalization_stop resp call st)) = tool_calls_made st"
  "pre_tool_nudges (snd (finalization_stop resp call st)) = pre_tool_nudges st"
  "length_nudges (snd (finalization_stop resp call st)) = length_nudges st"
  "stagnation_streak (snd (finalization_stop resp call st)) = stagnation_streak st"
  "last_failure_type (snd (finalization_stop resp call st)) = last_failure_type st"
  "last_failure_streak (snd (finalization_stop resp call st)) = last_failure_streak st"
  "last_source_class (snd (finalization_stop resp call st)) = last_source_class st"
  "source_class_failure_streak (snd (finalization_stop resp call st)) = source_class_failure_streak st"
  "force_tool_next (snd (finalization_stop resp call st)) = force_tool_next st"
  "force_query_mutation (snd (finalization_stop resp call st)) = force_query_mutation st"
  "force_move_change (snd (finalization_stop resp call st)) = force_move_change st"
  "force_source_shift (snd (finalization_stop resp call st)) = force_source_shift st"
  "force_domain_shift (snd (finalization_stop resp call st)) = force_domain_shift st"
  "parse_error_hits (snd (finalization_stop resp call st)) = parse_error_hits st"
  "notes_required (snd (finalization_stop resp call st)) = notes_required st"
  "epistemic (snd (finalization_stop resp call st)) = epistemic st"
  "evidence_counter (snd (finalization_stop resp call st)) = evidence_counter st"
  "move_counter (snd (finalization_stop resp call st)) = move_counter st"
  "query_counter (snd (finalization_stop resp call st)) = query_counter st"
  "evidence_ids (snd (finalization_stop resp call st)) = evidence_ids st"
  "last_evidence_count (snd (finalization_stop resp call st)) = last_evidence_count st"
  "last_move_sig (snd (finalization_stop resp call st)) = last_move_sig st"
  "last_move_type (snd (finalization_stop resp call st)) = last_move_type st"
  "last_domain (snd (finalization_stop resp call st)) = last_domain st"
  "last_domain_key (snd (finalization_stop resp call st)) = last_domain_key st"
  "last_query_family (snd (finalization_stop resp call st)) = last_query_family st"
  "move_repeat_streak (snd (finalization_stop resp call st)) = move_repeat_streak st"
  "domain_same_streak (snd (finalization_stop resp call st)) = domain_same_streak st"
  "recent_query_families (snd (finalization_stop resp call st)) = recent_query_families st"
  "official_domain_hints (snd (finalization_stop resp call st)) = official_domain_hints st"
  "official_domains_checked (snd (finalization_stop resp call st)) = official_domains_checked st"
  "independent_domains_checked (snd (finalization_stop resp call st)) = independent_domains_checked st"
  "domain_attempts (snd (finalization_stop resp call st)) = domain_attempts st"
  "tb (snd (finalization_stop resp call st)) = tb st"
  "evidence_file (snd (finalization_stop resp call st)) = evidence_file st"
  "move_ledger (snd (finalization_stop resp call st)) = move_ledger st"
  "query_ledger (snd (finalization_stop resp call st)) = query_ledger st"
  "sandbox_log (snd (finalization_stop resp call st)) = sandbox_log st"
  "raised (snd (finalization_stop resp call st)) = raised st"
  by (simp_all add: finalization_stop_def Let_def trace_event_def)

lemma block_notes_overwrite_frame:
  "step (block_notes_overwrite call st) = step st"
  "last_resp (block_notes_overwrite call st) = last_resp st"
  "verifier_rounds (block_notes_overwrite call st) = verifier_rounds st"
  "pending_gradient (block_notes_overwrite call st) = pending_gradient st"
  "gradient_reminders (block_notes_overwrite call st) = gradient_reminders st"
  "pre_tool_nudges (block_notes_overwrite call st) = pre_tool_nudges st"
  "length_nudges (block_notes_overwrite call st) = length_nudges st"
  "finalization_hits (block_notes_overwrite call st) = finalization_hits st"
  "last_source_class (block_notes_overwrite call st) = last_source_class st"
  "source_class_failure_streak (block_notes_overwrite call st) = source_class_failure_streak st"
  "force_query_mutation (block_notes_overwrite call st) = force_query_mutation st"
  "force_move_change (block_notes_overwrite call st) = force_move_change st"
  "force_source_shift (block_notes_overwrite call st) = force_source_shift st"
  "force_domain_shift (block_notes_overwrite call st) = force_domain_shift st"
  "parse_error_hits (block_notes_overwrite call st) = parse_error_hits st"
  "notes_required (block_notes_overwrite call st) = notes_required st"
  "move_counter (block_notes_overwrite call st) = move_counter st"
  "query_counter (block_notes_overwrite call st) = query_counter st"
  "last_move_sig (block_notes_overwrite call st) = last_move_sig st"
  "last_move_type (block_notes_overwrite call st) = last_move_type st"
  "last_domain (block_notes_overwrite call st) = last_domain st"
  "last_domain_key (block_notes_overwrite call st) = last_domain_key st"
  "last_query_family (block_notes_overwrite call st) = last_query_family st"
  "move_repeat_streak (block_notes_overwrite call st) = move_repeat_streak st"
  "domain_same_streak (block_notes_overwrite call st) = domain_same_streak st"
  "recent_query_families (block_notes_overwrite call st) = recent_query_families st"
  "official_domain_hints (block_notes_overwrite call st) = official_domain_hints st"
  "official_domains_checked (block_notes_overwrite call st) = official_domains_checked st"
  "independent_domains_checked (block_notes_overwrite call st) = independent_domains_checked st"
  "domain_attempts (block_notes_overwrite call st) = domain_attempts st"
  "tb (block_notes_overwrite call st) = tb st"
  "move_ledger (block_notes_overwrite call st) = move_ledger st"
  "query_ledger (block_notes_overwrite call st) = query_ledger st"
  by (simp_all add: block_notes_overwrite_def split_beta settle_frame observe_frame)

lemma block_notes_required_frame:
  "step (block_notes_required call st) = step st"
  "last_resp (block_notes_required call st) = last_resp st"
  "verifier_rounds (block_notes_required call st) = verifier_rounds st"
  "pending_gradient (block_notes_required call st) = pending_gradient st"
  "gradient_reminders (block_notes_required call st) = gradient_reminders st"
  "pre_tool_nudges (block_notes_required call st) = pre_tool_nudges st"
  "length_nudges (block_notes_required call st) = length_nudges st"
  "finalization_hits (block_notes_required call st) = finalization_hits st"
  "last_source_class (block_notes_required call st) = last_source_class st"
  "source_class_failure_streak (block_notes_required call st) = source_class_failure_streak st"
  "force_query_mutation (block_notes_required call st) = force_query_mutation st"
  "force_move_change (block_notes_required call st) = force_move_change st"
  "force_source_shift (block_notes_required call st) = force_source_shift st"
  "force_domain_shift (block_notes_required call st) = force_domain_shift st"
  "parse_error_hits (block_notes_required call st) = parse_error_hits st"
  "notes_required (block_notes_required call st) = notes_required st"
  "move_counter (block_notes_required call st) = move_counter st"
  "query_counter (block_notes_required call st) = query_counter st"
  "last_move_sig (block_notes_required call st) = last_move_sig st"
  "last_move_type (block_notes_required call st) = last_move_type st"
  "last_domain (block_notes_required call st) = last_domain st"
  "last_domain_key (block_notes_required call st) = last_domain_key st"
  "last_query_family (block_notes_required call st) = last_query_family st"
  "move_repeat_streak (block_notes_required call st) = move_repeat_streak st"
  "domain_same_streak (block_notes_required call st) = domain_same_streak st"
  "recent_query_families (block_notes_required call st) = recent_query_families st"
  "official_domain_hints (block_notes_required call st) = official_domain_hints st"
  "official_domains_checked (block_notes_required call st) = official_domains_checked st"
  "independent_domains_checked (block_notes_required call st) = independent_domains_checked st"
  "domain_attempts (block_notes_required call st) = domain_attempts st"
  "tb (block_notes_required call st) = tb st"
  "move_ledger (block_notes_required call st) = move_ledger st"
  "query_ledger (block_notes_required call st) = query_ledger st"
  by (simp_all add: block_notes_required_def split_beta settle_frame observe_frame)

lemma block_query_mutation_frame:
  "step (block_query_mutation cfg call d st) = step st"
  "last_resp (block_query_mutation cfg call d st) = last_resp st"
  "verifier_rounds (block_query_mutation cfg call d st) = verifier_rounds st"
  "pending_gradient (block_query_mutation cfg call d st) = pending_gradient st"
  "gradient_reminders (block_query_mutation cfg call d st) = gradient_reminders st"
  "pre_tool_nudges (block_query_mutation cfg call d st) = pre_tool_nudges st"
  "length_nudges (block_query_mutation cfg call d st) = length_nudges st"
  "finalization_hits (block_query_mutation cfg call d st) = finalization_hits st"
  "last_source_class (block_query_mutation cfg call d st) = last_source_class st"
  "source_class_failure_streak (block_query_mutation cfg call d st) = source_class_failure_streak st"
  "force_move_change (block_query_mutation cfg call d st) = force_move_change st"
  "force_source_shift (block_query_mutation cfg call d st) = force_source_shift st"
  "force_domain_shift (block_query_mutation cfg call d st) = force_domain_shift st"
  "parse_error_hits (block_query_mutation cfg call d st) = parse_error_hits st"
  "notes_required (block_query_mutation cfg call d st) = notes_required st"
  "last_move_sig (block_query_mutation cfg call d st) = last_move_sig st"
  "last_move_type (block_query_mutation cfg call d st) = last_move_type st"
  "last_domain (block_query_mutation cfg call d st) = last_domain st"
  "last_domain_key (block_query_mutation cfg call d st) = last_domain_key st"
  "last_query_family (block_query_mutation cfg call d st) = last_query_family st"
  "move_repeat_streak (block_query_mutation cfg call d st) = move_repeat_streak st"
  "domain_same_streak (block_query_mutation cfg call d st) = domain_same_streak st"
  "recent_query_families (block_query_mutation cfg call d st) = recent_query_families st"
  "official_domain_hints (block_query_mutation cfg call d st) = official_domain_hints st"
  "official_domains_checked (block_query_mutation cfg call d st) = official_domains_checked st"
  "independent_domains_checked (block_query_mutation cfg call d st) = independent_domains_checked st"
  "domain_attempts (block_query_mutation cfg call d st) = domain_attempts st"
  "tb (block_query_mutation cfg call d st) = tb st"
  by (simp_all add: block_query_mutation_def Let_def split_beta unless_raised_def
      reset_stagnation_frame note_step_frame ledger_move_frame ledger_query_frame observe_frame)

lemma block_domain_shift_frame:
  "step (block_domain_shift call d st) = step st"
  "last_resp (block_domain_shift call d st) = last_resp st"
  "verifier_rounds (block_domain_shift call d st) = verifier_rounds st"
  "pending_gradient (block_domain_shift call d st) = pending_gradient st"
  "gradient_reminders (block_domain_shift call d st) = gradient_reminders st"
  "pre_tool_nudges (block_domain_shift call d st) = pre_tool_nudges st"
  "length_nudges (block_domain_shift call d st) = length_nudges st"
  "finalization_hits (block_domain_shift call d st) = finalization_hits st"
  "last_source_class (block_domain_shift call d st) = last_source_class st"
  "source_class_failure_streak (block_domain_shift call d st) = source_class_failure_streak st"
  "force_query_mutation (block_domain_shift call d st) = force_query_mutation st"
  "force_move_change (block_domain_shift call d st) = force_move_change st"
  "force_source_shift (block_domain_shift call d st) = force_source_shift st"
  "force_domain_shift (block_domain_shift call d st) = force_domain_shift st"
  "parse_error_hits (block_domain_shift call d st) = parse_error_hits st"
  "notes_required (block_domain_shift call d st) = notes_required st"
  "last_move_sig (block_domain_shift call d st) = last_move_sig st"
  "last_move_type (block_domain_shift call d st) = last_move_type st"
  "last_domain (block_domain_shift call d st) = last_domain st"
  "last_domain_key (block_domain_shift call d st) = last_domain_key st"
  "last_query_family (block_domain_shift call d st) = last_query_family st"
  "move_repeat_streak (block_domain_shift call d st) = move_repeat_streak st"
  "domain_same_streak (block_domain_shift call d st) = domain_same_streak st"
  "recent_query_families (block_domain_shift call d st) = recent_query_families st"
  "official_domain_hints (block_domain_shift call d st) = official_domain_hints st"
  "official_domains_checked (block_domain_shift call d st) = official_domains_checked st"
  "independent_domains_checked (block_domain_shift call d st) = independent_domains_checked st"
  "domain_attempts (block_domain_shift call d st) = domain_attempts st"
  "tb (block_domain_shift call d st) = tb st"
  by (simp_all add: block_domain_shift_def Let_def split_beta settle_frame ledger_move_frame
      ledger_query_frame observe_frame)

lemma pre_turn_frame:
  "step (pre_turn cfg st) = step st"
  "last_resp (pre_turn cfg st) = last_resp st"
  "verifier_rounds (pre_turn cfg st) = verifier_rounds st"
  "pending_gradient (pre_turn cfg st) = pending_gradient st"
  "gradient_reminders (pre_turn cfg st) = gradient_reminders st"
  "tool_calls_made (pre_turn cfg st) = tool_calls_made st"
  "pre_tool_nudges (pre_turn cfg st) = pre_tool_nudges st"
  "length_nudges (pre_turn cfg st) = length_nudges st"
  "finalization_hits (pre_turn cfg st) = finalization_hits st"
  "stagnation_streak (pre_turn cfg st) = stagnation_streak st"
  "last_failure_type (pre_turn cfg st) = last_failure_type st"
  "last_failure_streak (pre_turn cfg st) = last_failure_streak st"
  "last_source_class (pre_turn cfg st) = last_source_class st"
  "source_class_failure_streak (pre_turn cfg st) = source_class_failure_streak st"
  "force_tool_next (pre_turn cfg st) = force_tool_next st"
  "force_query_mutation (pre_turn cfg st) = force_query_mutation st"
  "force_move_change (pre_turn cfg st) = force_move_change st"
  "force_source_shift (pre_turn cfg st) = force_source_shift st"
  "force_domain_shift (pre_turn cfg st) = force_domain_shift st"
  "parse_error_hits (pre_turn cfg st) = parse_error_hits st"
  "epistemic (pre_turn cfg st) = epistemic st"
  "evidence_counter (pre_turn cfg st) = evidence_counter st"
  "move_counter (pre_turn cfg st) = move_counter st"
  "query_counter (pre_turn cfg st) = query_counter st"
  "evidence_ids (pre_turn cfg st) = evidence_ids st"
  "last_evidence_count (pre_turn cfg st) = last_evidence_count st"
  "last_move_sig (pre_turn cfg st) = last_move_sig st"
  "last_move_type (pre_turn cfg st) = last_move_type st"
  "last_domain (pre_turn cfg st) = last_domain st"
  "last_domain_key (pre_turn cfg st) = last_domain_key st"
  "last_query_family (pre_turn cfg st) = last_query_family st"
  "move_repeat_streak (pre_turn cfg st) = move_repeat_streak st"
  "domain_same_streak (pre_turn cfg st) = domain_same_streak st"
  "recent_query_families (pre_turn cfg st) = recent_query_families st"
  "official_domain_hints (pre_turn cfg st) = official_domain_hints st"
  "official_domains_checked (pre_turn cfg st) = official_domains_checked st"
  "independent_domains_checked (pre_turn cfg st) = independent_domains_checked st"
  "domain_attempts (pre_turn cfg st) = domain_attempts st"
  "tb (pre_turn cfg st) = tb st"
  "trace (pre_turn cfg st) = trace st"
  "evidence_file (pre_turn cfg st) = evidence_file st"
  "move_ledger (pre_turn cfg st) = move_ledger st"
  "query_ledger (pre_turn cfg st) = query_ledger st"
  "sandbox_log (pre_turn cfg st) = sandbox_log st"
  "raised (pre_turn cfg st) = raised st"
  by (simp_all add: pre_turn_def on_flag_def history_append_def Let_def)

lemma receive_frame:
  "step (receive inp st) = step st"
  "history (receive inp st) = history st"
  "verifier_rounds (receive inp st) = verifier_rounds st"
  "pending_gradient (receive inp st) = pending_gradient st"
  "gradient_reminders (receive inp st) = gradient_reminders st"
  "tool_calls_made (receive inp st) = tool_calls_made st"
  "pre_tool_nudges (receive inp st) = pre_tool_nudges st"
  "length_nudges (receive inp st) = length_nudges st"
  "finalization_hits (receive inp st) = finalization_hits st"
  "stagnation_streak (receive inp st) = stagnation_streak st"
  "last_failure_type (receive inp st) = last_failure_type st"
  "last_failure_streak (receive inp st) = last_failure_streak st"
  "last_source_class (receive inp st) = last_source_class st"
  "source_class_failure_streak (receive inp st) = source_class_failure_streak st"
  "force_tool_next (receive inp st) = force_tool_next st"
  "force_query_mutation (receive inp st) = force_query_mutation st"
  "force_move_change (receive inp st) = force_move_change st"
  "force_source_shift (receive inp st) = force_source_shift st"
  "force_domain_shift (receive inp st) = force_domain_shift st"
  "parse_error_hits (receive inp st) = parse_error_hits st"
  "notes_required (receive inp st) = notes_required st"
  "epistemic (receive inp st) = epistemic st"
  "evidence_counter (receive inp st) = evidence_counter st"
  "move_counter (receive inp st) = move_counter st"
  "query_counter (receive inp st) = query_counter st"
  "evidence_ids (receive inp st) = evidence_ids st"
  "last_evidence_count (receive inp st) = last_evidence_count st"
  "last_move_sig (receive inp st) = last_move_sig st"
  "last_move_type (receive inp st) = last_move_type st"
  "last_domain (receive inp st) = last_domain st"
  "last_domain_key (receive inp st) = last_domain_key st"
  "last_query_family (receive inp st) = last_query_family st"
  "move_repeat_streak (receive inp st) = move_repeat_streak st"
  "domain_same_streak (receive inp st) = domain_same_streak st"
  "recent_query_families (receive inp st) = recent_query_families st"
  "official_domain_hints (receive inp st) = official_domain_hints st"
  "official_domains_checked (receive inp st) = official_domains_checked st"
  "independent_domains_checked (receive inp st) = independent_domains_checked st"
  "domain_attempts (receive inp st) = domain_attempts st"
  "tb (receive inp st) = tb st"
  "evidence_file (receive inp st) = evidence_file st"
  "move_ledger (receive inp st) = move_ledger st"
  "query_ledger (receive inp st) = query_ledger st"
  "sandbox_log (receive inp st) = sandbox_log st"
  "raised (receive inp st) = raised st"
  by (simp_all add: receive_def trace_event_def)

lemma gradient_reminder_frame:
  "step (gradient_reminder st) = step st"
  "history (gradient_reminder st) = history st"
  "last_resp (gradient_reminder st) = last_resp st"
  "verifier_rounds (gradient_reminder st) = verifier_rounds st"
  "pending_gradient (gradient_reminder st) = pending_gradient st"
  "tool_calls_made (gradient_reminder st) = tool_calls_made st"
  "pre_tool_nudges (gradient_reminder st) = pre_tool_nudges st"
  "length_nudges (gradient_reminder st) = length_nudges st"
  "finalization_hits (gradient_reminder st) = finalization_hits st"
  "stagnation_streak (gradient_reminder st) = stagnation_streak st"
  "last_failure_type (gradient_reminder st) = last_failure_type st"
  "last_failure_streak (gradient_reminder st) = last_failure_streak st"
  "last_source_class (gradient_reminder st) = last_source_class st"
  "source_class_failure_streak (gradient_reminder st) = source_class_failure_streak st"
  "force_tool_next (gradient_reminder st) = force_tool_next st"
  "force_query_mutation (gradient_reminder st) = force_query_mutation st"
  "force_move_change (gradient_reminder st) = force_move_change st"
  "force_source_shift (gradient_reminder st) = force_source_shift st"
  "force_domain_shift (gradient_reminder st) = force_domain_shift st"
  "parse_error_hits (gradient_reminder st) = parse_error_hits st"
  "notes_required (gradient_reminder st) = notes_required st"
  "epistemic (gradient_reminder st) = epistemic st"
  "evidence_counter (gradient_reminder st) = evidence_counter st"
  "move_counter (gradient_reminder st) = move_counter st"
  "query_counter (gradient_reminder st) = query_counter st"
  "evidence_ids (gradient_reminder st) = evidence_ids st"
  "last_evidence_count (gradient_reminder st) = last_evidence_count st"
  "last_move_sig (gradient_reminder st) = last_move_sig st"
  "last_move_type (gradient_reminder st) = last_move_type st"
  "last_domain (gradient_reminder st) = last_domain st"
  "last_domain_key (gradient_reminder st) = last_domain_key st"
  "last_query_family (gradient_reminder st) = last_query_family st"
  "move_repeat_streak (gradient_reminder st) = move_repeat_streak st"
  "domain_same_streak (gradient_reminder st) = domain_same_streak st"
  "recent_query_families (gradient_reminder st) = recent_query_families st"
  "official_domain_hints (gradient_reminder st) = official_domain_hints st"
  "official_domains_checked (gradient_reminder st) = official_domains_checked st"
  "independent_domains_checked (gradient_reminder st) = independent_domains_checked st"
  "domain_attempts (gradient_reminder st) = domain_attempts st"
  "tb (gradient_reminder st) = tb st"
  "evidence_file (gradient_reminder st) = evidence_file st"
  "move_ledger (gradient_reminder st) = move_ledger st"
  "query_ledger (gradient_reminder st) = query_ledger st"
  "sandbox_log (gradient_reminder st) = sandbox_log st"
  "raised (gradient_reminder st) = raised st"
  by (simp_all add: gradient_reminder_def trace_event_def)

lemma reminder_overflow_frame:
  "step (reminder_overflow st) = step st"
  "history (reminder_overflow st) = history st"
  "last_resp (reminder_overflow st) = last_resp st"
  "verifier_rounds (reminder_overflow st) = verifier_rounds st"
  "tool_calls_made (reminder_overflow st) = tool_calls_made st"
  "pre_tool_nudges (reminder_overflow st) = pre_tool_nudges st"
  "length_nudges (reminder_overflow st) = length_nudges st"
  "finalization_hits (reminder_overflow st) = finalization_hits st"
  "stagnation_streak (reminder_overflow st) = stagnation_streak st"
  "last_failure_type (reminder_overflow st) = last_failure_type st"
  "last_failure_streak (reminder_overflow st) = last_failure_streak st"
  "last_source_class (reminder_overflow st) = last_source_class st"
  "source_class_failure_streak (reminder_overflow st) = source_class_failure_streak st"
  "force_tool_next (reminder_overflow st) = force_tool_next st"
  "force_query_mutation (reminder_overflow st) = force_query_mutation st"
  "force_move_change (reminder_overflow st) = force_move_change st"
  "force_source_shift (reminder_overflow st) = force_source_shift st"
  "force_domain_shift (reminder_overflow st) = force_domain_shift st"
  "parse_error_hits (reminder_overflow st) = parse_error_hits st"
  "notes_required (reminder_overflow st) = notes_required st"
  "epistemic (reminder_overflow st) = epistemic st"
  "evidence_counter (reminder_overflow st) = evidence_counter st"
  "move_counter (reminder_overflow st) = move_counter st"
  "query_counter (reminder_overflow st) = query_counter st"
  "evidence_ids (reminder_overflow st) = evidence_ids st"
  "last_evidence_count (reminder_overflow st) = last_evidence_count st"
  "last_move_sig (reminder_overflow st) = last_move_sig st"
  "last_move_type (reminder_overflow st) = last_move_type st"
  "last_domain (reminder_overflow st) = last_domain st"
  "last_domain_key (reminder_overflow st) = last_domain_key st"
  "last_query_family (reminder_overflow st) = last_query_family st"
  "move_repeat_streak (reminder_overflow st) = move_repeat_streak st"
  "domain_same_streak (reminder_overflow st) = domain_same_streak st"
  "recent_query_families (reminder_overflow st) = recent_query_families st"
  "official_domain_hints (reminder_overflow st) = official_domain_hints st"
  "official_domains_checked (reminder_overflow st) = official_domains_checked st"
  "independent_domains_checked (reminder_overflow st) = independent_domains_checked st"
  "domain_attempts (reminder_overflow st) = domain_attempts st"
  "tb (reminder_overflow st) = tb st"
  "evidence_file (reminder_overflow st) = evidence_file st"
  "move_ledger (reminder_overflow st) = move_ledger st"
  "query_ledger (reminder_overflow st) = query_ledger st"
  "sandbox_log (reminder_overflow st) = sandbox_log st"
  "raised (reminder_overflow st) = raised st"
  by (simp_all add: reminder_overflow_def Let_def gradient_reminder_frame)

lemma citation_contract_frame:
  "step (citation_contract cfg r st) = step st"
  "history (citation_contract cfg r st) = history st"
  "last_resp (citation_contract cfg r st) = last_resp st"
  "verifier_rounds (citation_contract cfg r st) = verifier_rounds st"
  "pending_gradient (citation_contract cfg r st) = pending_gradient st"
  "gradient_reminders (citation_contract cfg r st) = gradient_reminders st"
  "tool_calls_made (citation_contract cfg r st) = tool_calls_made st"
  "pre_tool_nudges (citation_contract cfg r st) = pre_tool_nudges st"
  "length_nudges (citation_contract cfg r st) = length_nudges st"
  "finalization_hits (citation_contract cfg r st) = finalization_hits st"
  "stagnation_streak (citation_contract cfg r st) = stagnation_streak st"
  "last_failure_type (citation_contract cfg r st) = last_failure_type st"
  "last_failure_streak (citation_contract cfg r st) = last_failure_streak st"
  "last_source_class (citation_contract cfg r st) = last_source_class st"
  "source_class_failure_streak (citation_contract cfg r st) = source_class_failure_streak st"
  "force_tool_next (citation_contract cfg r st) = force_tool_next st"
  "force_query_mutation (citation_contract cfg r st) = force_query_mutation st"
  "force_move_change (citation_contract cfg r st) = force_move_change st"
  "force_source_shift (citation_contract cfg r st) = force_source_shift st"
  "force_domain_shift (citation_contract cfg r st) = force_domain_shift st"
  "parse_error_hits (citation_contract cfg r st) = parse_error_hits st"
  "notes_required (citation_contract cfg r st) = notes_required st"
  "evidence_counter (citation_contract cfg r st) = evidence_counter st"
  "move_counter (citation_contract cfg r st) = move_counter st"
  "query_counter (citation_contract cfg r st) = query_counter st"
  "evidence_ids (citation_contract cfg r st) = evidence_ids st"
  "last_evidence_count (citation_contract cfg r st) = last_evidence_count st"
  "last_move_sig (citation_contract cfg r st) = last_move_sig st"
  "last_move_type (citation_contract cfg r st) = last_move_type st"
  "last_domain (citation_contract cfg r st) = last_domain st"
  "last_domain_key (citation_contract cfg r st) = last_domain_key st"
  "last_query_family (citation_contract cfg r st) = last_query_family st"
  "move_repeat_streak (citation_contract cfg r st) = move_repeat_streak st"
  "domain_same_streak (citation_contract cfg r st) = domain_same_streak st"
  "recent_query_families (citation_contract cfg r st) = recent_query_families st"
  "official_domain_hints (citation_contract cfg r st) = official_domain_hints st"
  "official_domains_checked (citation_contract cfg r st) = official_domains_checked st"
  "independent_domains_checked (citation_contract cfg r st) = independent_domains_checked st"
  "domain_attempts (citation_contract cfg r st) = domain_attempts st"
  "tb (citation_contract cfg r st) = tb st"
  "trace (citation_contract cfg r st) = trace st"
  "evidence_file (citation_contract cfg r st) = evidence_file st"
  "move_ledger (citation_contract cfg r st) = move_ledger st"
  "query_ledger (citation_contract cfg r st) = query_ledger st"
  "sandbox_log (citation_contract cfg r st) = sandbox_log st"
  "raised (citation_contract cfg r st) = raised st"
  by (simp_all add: citation_contract_def Let_def)

lemma negative_claim_exhausted_frame:
  "step (negative_claim_exhausted cfg st) = step st"
  "history (negative_claim_exhausted cfg st) = history st"
  "last_resp (negative_claim_exhausted cfg st) = last_resp st"
  "verifier_rounds (negative_claim_exhausted cfg st) = verifier_rounds st"
  "pending_gradient (negative_claim_exhausted cfg st) = pending_gradient st"
  "gradient_reminders (negative_claim_exhausted cfg st) = gradient_reminders st"
  "tool_calls_made (negative_claim_exhausted cfg st) = tool_calls_made st"
  "pre_tool_nudges (negative_claim_exhausted cfg st) = pre_tool_nudges st"
  "length_nudges (negative_claim_exhausted cfg st) = length_nudges st"
  "finalization_hits (negative_claim_exhausted cfg st) = finalization_hits st"
  "stagnation_streak (negative_claim_exhausted cfg st) = stagnation_streak st"
  "last_failure_type (negative_claim_exhausted cfg st) = last_failure_type st"
  "last_failure_streak (negative_claim_exhausted cfg st) = last_failure_streak st"
  "last_source_class (negative_claim_exhausted cfg st) = last_source_class st"
  "source_class_failure_streak (negative_claim_exhausted cfg st) = source_class_failure_streak st"
  "force_tool_next (negative_claim_exhausted cfg st) = force_tool_next st"
  "force_query_mutation (negative_claim_exhausted cfg st) = force_query_mutation st"
  "force_move_change (negative_claim_exhausted cfg st) = force_move_change st"
  "force_source_shift (negative_claim_exhausted cfg st) = force_source_shift st"
  "force_domain_shift (negative_claim_exhausted cfg st) = force_domain_shift st"
  "parse_error_hits (negative_claim_exhausted cfg st) = parse_error_hits st"
  "notes_required (negative_claim_exhausted cfg st) = notes_required st"
  "evidence_counter (negative_claim_exhausted cfg st) = evidence_counter st"
  "move_counter (negative_claim_exhausted cfg st) = move_counter st"
  "query_counter (negative_claim_exhausted cfg st) = query_counter st"
  "evidence_ids (negative_claim_exhausted cfg st) = evidence_ids st"
  "last_evidence_count (negative_claim_exhausted cfg st) = last_evidence_count st"
  "last_move_sig (negative_claim_exhausted cfg st) = last_move_sig st"
  "last_move_type (negative_claim_exhausted cfg st) = last_move_type st"
  "last_domain (negative_claim_exhausted cfg st) = last_domain st"
  "last_domain_key (negative_claim_exhausted cfg st) = last_domain_key st"
  "last_query_family (negative_claim_exhausted cfg st) = last_query_family st"
  "move_repeat_streak (negative_claim_exhausted cfg st) = move_repeat_streak st"
  "domain_same_streak (negative_claim_exhausted cfg st) = domain_same_streak st"
  "recent_query_families (negative_claim_exhausted cfg st) = recent_query_families st"
  "official_domain_hints (negative_claim_exhausted cfg st) = official_domain_hints st"
  "official_domains_checked (negative_claim_exhausted cfg st) = official_domains_checked st"
  "independent_domains_checked (negative_claim_exhausted cfg st) = independent_domains_checked st"
  "domain_attempts (negative_claim_exhausted cfg st) = domain_attempts st"
  "tb (negative_claim_exhausted cfg st) = tb st"
  "trace (negative_claim_exhausted cfg st) = trace st"
  "evidence_file (negative_claim_exhausted cfg st) = evidence_file st"
  "move_ledger (negative_claim_exhausted cfg st) = move_ledger st"
  "query_ledger (negative_claim_exhausted cfg st) = query_ledger st"
  "sandbox_log (negative_claim_exhausted cfg st) = sandbox_log st"
  "raised (negative_claim_exhausted cfg st) = raised st"
  by (simp_all add: negative_claim_exhausted_def)

lemma stagnation_check_frame:
  "step (stagnation_check cfg st) = step st"
  "history (stagnation_check cfg st) = history st"
  "last_resp (stagnation_check cfg st) = last_resp st"
  "verifier_rounds (stagnation_check cfg st) = verifier_rounds st"
  "pending_gradient (stagnation_check cfg st) = pending_gradient st"
  "gradient_reminders (stagnation_check cfg st) = gradient_reminders st"
  "tool_calls_made (stagnation_check cfg st) = tool_calls_made st"
  "pre_tool_nudges (stagnation_check cfg st) = pre_tool_nudges st"
  "length_nudges (stagnation_check cfg st) = length_nudges st"
  "finalization_hits (stagnation_check cfg st) = finalization_hits st"
  "last_failure_type (stagnation_check cfg st) = last_failure_type st"
  "last_failure_streak (stagnation_check cfg st) = last_failure_streak st"
  "last_source_class (stagnation_check cfg st) = last_source_class st"
  "source_class_failure_streak (stagnation_check cfg st) = source_class_failure_streak st"
  "force_query_mutation (stagnation_check cfg st) = force_query_mutation st"
  "force_move_change (stagnation_check cfg st) = force_move_change st"
  "force_source_shift (stagnation_check cfg st) = force_source_shift st"
  "force_domain_shift (stagnation_check cfg st) = force_domain_shift st"
  "parse_error_hits (stagnation_check cfg st) = parse_error_hits st"
  "notes_required (stagnation_check cfg st) = notes_required st"
  "evidence_counter (stagnation_check cfg st) = evidence_counter st"
  "move_counter (stagnation_check cfg st) = move_counter st"
  "query_counter (stagnation_check cfg st) = query_counter st"
  "evidence_ids (stagnation_check cfg st) = evidence_ids st"
  "last_evidence_count (stagnation_check cfg st) = last_evidence_count st"
  "last_move_sig (stagnation_check cfg st) = last_move_sig st"
  "last_move_type (stagnation_check cfg st) = last_move_type st"
  "last_domain (stagnation_check cfg st) = last_domain st"
  "last_domain_key (stagnation_check cfg st) = last_domain_key st"
  "last_query_family (stagnation_check cfg st) = last_query_family st"
  "move_repeat_streak (stagnation_check cfg st) = move_repeat_streak st"
  "domain_same_streak (stagnation_check cfg st) = domain_same_streak st"
  "recent_query_families (stagnation_check cfg st) = recent_query_families st"
  "official_domain_hints (stagnation_check cfg st) = official_domain_hints st"
  "official_domains_checked (stagnation_check cfg st) = official_domains_checked st"
  "independent_domains_checked (stagnation_check cfg st) = independent_domains_checked st"
  "domain_attempts (stagnation_check cfg st) = domain_attempts st"
  "tb (stagnation_check cfg st) = tb st"
  "evidence_file (stagnation_check cfg st) = evidence_file st"
  "move_ledger (stagnation_check cfg st) = move_ledger st"
  "query_ledger (stagnation_check cfg st) = query_ledger st"
  "sandbox_log (stagnation_check cfg st) = sandbox_log st"
  "raised (stagnation_check cfg st) = raised st"
  by (simp_all add: stagnation_check_def trace_event_def Let_def)

lemma no_tool_checks_frame:
  "step (no_tool_checks cfg r st) = step st"
  "history (no_tool_checks cfg r st) = history st"
  "last_resp (no_tool_checks cfg r st) = last_resp st"
  "verifier_rounds (no_tool_checks cfg r st) = verifier_rounds st"
  "pending_gradient (no_tool_checks cfg r st) = pending_gradient st"
  "gradient_reminders (no_tool_checks cfg r st) = gradient_reminders st"
  "tool_calls_made (no_tool_checks cfg r st) = tool_calls_made st"
  "pre_tool_nudges (no_tool_checks cfg r st) = pre_tool_nudges st"
  "length_nudges (no_tool_checks cfg r st) = length_nudges st"
  "finalization_hits (no_tool_checks cfg r st) = finalization_hits st"
  "last_failure_type (no_tool_checks cfg r st) = last_failure_type st"
  "last_failure_streak (no_tool_checks cfg r st) = last_failure_streak st"
  "last_source_class (no_tool_checks cfg r st) = last_source_class st"
  "source_class_failure_streak (no_tool_checks cfg r st) = source_class_failure_streak st"
  "force_query_mutation (no_tool_checks cfg r st) = force_query_mutation st"
  "force_move_change (no_tool_checks cfg r st) = force_move_change st"
  "force_source_shift (no_tool_checks cfg r st) = force_source_shift st"
  "force_domain_shift (no_tool_checks cfg r st) = force_domain_shift st"
  "parse_error_hits (no_tool_checks cfg r st) = parse_error_hits st"
  "notes_required (no_tool_checks cfg r st) = notes_required st"
  "evidence_counter (no_tool_checks cfg r st) = evidence_counter st"
  "move_counter (no_tool_checks cfg r st) = move_counter st"
  "query_counter (no_tool_checks cfg r st) = query_counter st"
  "evidence_ids (no_tool_checks cfg r st) = evidence_ids st"
  "last_evidence_count (no_tool_checks cfg r st) = last_evidence_count st"
  "last_move_sig (no_tool_checks cfg r st) = last_move_sig st"
  "last_move_type (no_tool_checks cfg r st) = last_move_type st"
  "last_domain (no_tool_checks cfg r st) = last_domain st"
  "last_domain_key (no_tool_checks cfg r st) = last_domain_key st"
  "last_query_family (no_tool_checks cfg r st) = last_query_family st"
  "move_repeat_streak (no_tool_checks cfg r st) = move_repeat_streak st"
  "domain_same_streak (no_tool_checks cfg r st) = domain_same_streak st"
  "recent_query_families (no_tool_checks cfg r st) = recent_query_families st"
  "official_domain_hints (no_tool_checks cfg r st) = official_domain_hints st"
  "official_domains_checked (no_tool_checks cfg r st) = official_domains_checked st"
  "independent_domains_checked (no_tool_checks cfg r st) = independent_domains_checked st"
  "domain_attempts (no_tool_checks cfg r st) = domain_attempts st"
  "tb (no_tool_checks cfg r st) = tb st"
  "evidence_file (no_tool_checks cfg r st) = evidence_file st"
  "move_ledger (no_tool_checks cfg r st) = move_ledger st"
  "query_ledger (no_tool_checks cfg r st) = query_ledger st"
  by (simp_all add: no_tool_checks_def unless_raised_def Let_def stagnation_check_frame
      negative_claim_exhausted_frame citation_contract_frame log_model_output_frame)

lemma length_nudge_frame:
  "step (length_nudge inp st) = step st"
  "history (length_nudge inp st) = history st"
  "last_resp (length_nudge inp st) = last_resp st"
  "verifier_rounds (length_nudge inp st) = verifier_rounds st"
  "pending_gradient (length_nudge inp st) = pending_gradient st"
  "gradient_reminders (length_nudge inp st) = gradient_reminders st"
  "tool_calls_made (length_nudge inp st) = tool_calls_made st"
  "pre_tool_nudges (length_nudge inp st) = pre_tool_nudges st"
  "finalization_hits (length_nudge inp st) = finalization_hits st"
  "stagnation_streak (length_nudge inp st) = stagnation_streak st"
  "last_failure_type (length_nudge inp st) = last_failure_type st"
  "last_failure_streak (length_nudge inp st) = last_failure_streak st"
  "last_source_class (length_nudge inp st) = last_source_class st"
  "source_class_failure_streak (length_nudge inp st) = source_class_failure_streak st"
  "force_tool_next (length_nudge inp st) = force_tool_next st"
  "force_query_mutation (length_nudge inp st) = force_query_mutation st"
  "force_move_change (length_nudge inp st) = force_move_change st"
  "force_source_shift (length_nudge inp st) = force_source_shift st"
  "force_domain_shift (length_nudge inp st) = force_domain_shift st"
  "parse_error_hits (length_nudge inp st) = parse_error_hits st"
  "notes_required (length_nudge inp st) = notes_required st"
  "epistemic (length_nudge inp st) = epistemic st"
  "evidence_counter (length_nudge inp st) = evidence_counter st"
  "move_counter (length_nudge inp st) = move_counter st"
  "query_counter (length_nudge inp st) = query_counter st"
  "evidence_ids (length_nudge inp st) = evidence_ids st"
  "last_evidence_count (length_nudge inp st) = last_evidence_count st"
  "last_move_sig (length_nudge inp st) = last_move_sig st"
  "last_move_type (length_nudge inp st) = last_move_type st"
  "last_domain (length_nudge inp st) = last_domain st"
  "last_domain_key (length_nudge inp st) = last_domain_key st"
  "last_query_family (length_nudge inp st) = last_query_family st"
  "move_repeat_streak (length_nudge inp st) = move_repeat_streak st"
  "domain_same_streak (length_nudge inp st) = domain_same_streak st"
  "recent_query_families (length_nudge inp st) = recent_query_families st"
  "official_domain_hints (length_nudge inp st) = official_domain_hints st"
  "official_domains_checked (length_nudge inp st) = official_domains_checked st"
  "independent_domains_checked (length_nudge inp st) = independent_domains_checked st"
  "domain_attempts (length_nudge inp st) = domain_attempts st"
  "tb (length_nudge inp st) = tb st"
  "evidence_file (length_nudge inp st) = evidence_file st"
  "move_ledger (length_nudge inp st) = move_ledger st"
  "query_ledger (length_nudge inp st) = query_ledger st"
  "sandbox_log (length_nudge inp st) = sandbox_log st"
  "raised (length_nudge inp st) = raised st"
  by (simp_all add: length_nudge_def trace_event_def)

lemma invoke_verifier_frame:
  "step (invoke_verifier vr st) = step st"
  "history (invoke_verifier vr st) = history st"
  "last_resp (invoke_verifier vr st) = last_resp st"
  "pending_gradient (invoke_verifier vr st) = pending_gradient st"
  "gradient_reminders (invoke_verifier vr st) = gradient_reminders st"
  "tool_calls_made (invoke_verifier vr st) = tool_calls_made st"
  "pre_tool_nudges (invoke_verifier vr st) = pre_tool_nudges st"
  "length_nudges (invoke_verifier vr st) = length_nudges st"
  "finalization_hits (invoke_verifier vr st) = finalization_hits st"
  "stagnation_streak (invoke_verifier vr st) = stagnation_streak st"
  "last_failure_type (invoke_verifier vr st) = last_failure_type st"
  "last_failure_streak (invoke_verifier vr st) = last_failure_streak st"
  "last_source_class (invoke_verifier vr st) = last_source_class st"
  "source_class_failure_streak (invoke_verifier vr st) = source_class_failure_streak st"
  "force_tool_next (invoke_verifier vr st) = force_tool_next st"
  "force_query_mutation (invoke_verifier vr st) = force_query_mutation st"
  "force_move_change (invoke_verifier vr st) = force_move_change st"
  "force_source_shift (invoke_verifier vr st) = force_source_shift st"
  "force_domain_shift (invoke_verifier vr st) = force_domain_shift st"
  "parse_error_hits (invoke_verifier vr st) = parse_error_hits st"
  "notes_required (invoke_verifier vr st) = notes_required st"
  "epistemic (invoke_verifier vr st) = epistemic st"
  "evidence_counter (invoke_verifier vr st) = evidence_counter st"
  "move_counter (invoke_verifier vr st) = move_counter st"
  "query_counter (invoke_verifier vr st) = query_counter st"
  "evidence_ids (invoke_verifier vr st) = evidence_ids st"
  "last_evidence_count (invoke_verifier vr st) = last_evidence_count st"
  "last_move_sig (invoke_verifier vr st) = last_move_sig st"
  "last_move_type (invoke_verifier vr st) = last_move_type st"
  "last_domain (invoke_verifier vr st) = last_domain st"
  "last_domain_key (invoke_verifier vr st) = last_domain_key st"
  "last_query_family (invoke_verifier vr st) = last_query_family st"
  "move_repeat_streak (invoke_verifier vr st) = move_repeat_streak st"
  "domain_same_streak (invoke_verifier vr st) = domain_same_streak st"
  "recent_query_families (invoke_verifier vr st) = recent_query_families st"
  "official_domain_hints (invoke_verifier vr st) = official_domain_hints st"
  "official_domains_checked (invoke_verifier vr st) = official_domains_checked st"
  "independent_domains_checked (invoke_verifier vr st) = independent_domains_checked st"
  "domain_attempts (invoke_verifier vr st) = domain_attempts st"
  "evidence_file (invoke_verifier vr st) = evidence_file st"
  "move_ledger (invoke_verifier vr st) = move_ledger st"
  "query_ledger (invoke_verifier vr st) = query_ledger st"
  "raised (invoke_verifier vr st) = raised st"
  by (simp_all add: invoke_verifier_def trace_event_def)


section \<open>Scripts that pass the deny check\<close>

lemma lit_states_startswith:
  assumes "lit_states id (a # w) (p, s) \<noteq> []"
  shows "startswith s (a # w)"
  using assms by (auto simp add: lit_states_def startswith_def split: if_splits)

lemma rmatch_seq_lit_startswith:
  assumes "rmatch_seq (Lit (a # w) # rs) (p, s) \<noteq> []"
  shows "startswith s (a # w)"
proof -
  have "lit_states id (a # w) (p, s) \<noteq> []" using assms by auto
  then show ?thesis by (rule lit_states_startswith)
qed

lemma rmatch_seq_word_startswith:
  assumes "rmatch_seq (WordB # Lit (a # w) # rs) (p, s) \<noteq> []"
  shows "startswith s (a # w)"
proof -
  have "rmatch WordB (p, s) = [(p, s)]" using assms by (auto split: if_splits)
  then have "rmatch_seq (Lit (a # w) # rs) (p, s) \<noteq> []" using assms by simp
  then show ?thesis by (rule rmatch_seq_lit_startswith)
qed

lemma search_from_contains:
  assumes "\<And>p t. rmatch r (p, t) \<noteq> [] \<Longrightarrow> startswith t (a # w)"
    and "search_from r p s"
  shows "contains s (a # w)"
  using assms(2)
proof (induction s arbitrary: p)
  case Nil
  then have "startswith [] (a # w)" using assms(1) by simp
  then show ?case by (simp add: startswith_def)
next
  case (Cons c cs)
  then show ?case using assms(1) by auto
qed

lemma re_search_word_contains:
  assumes "re_search (Seq (WordB # Lit (a # w) # rs)) s"
  shows "contains s (a # w)"
  using assms unfolding re_search_def
  by (rule search_from_contains[rotated]) (simp add: rmatch_seq_word_startswith)

lemma re_search_lit_contains:
  assumes "re_search (Seq (Lit (a # w) # rs)) s"
  shows "contains s (a # w)"
  using assms unfolding re_search_def
  by (rule search_from_contains[rotated]) (simp add: rmatch_seq_lit_startswith)

lemma deny_free:
  assumes "\<not> list_ex (contains s) deny_words"
  shows "deny_check s = None"
proof -
  have "\<not> re_search (snd pr) s" if "pr \<in> set DENY_PATTERNS" for pr
    using that assms re_search_word_contains[of _ _ _ s] re_search_lit_contains[of _ _ _ s]
    unfolding DENY_PATTERNS_def deny_words_def by auto
  then have "filter (\<lambda>pr. re_search (snd pr) s) DENY_PATTERNS = []"
    by (simp add: filter_empty_conv)
  then show ?thesis by (simp add: deny_check_def)
qed



section \<open>Properties of the blocked calls\<close>


lemma record_evidence_effect:
  "fst (record_evidence tool a ob st) = Some (evidence_id (Suc (evidence_counter st)))"
  "evidence_counter (snd (record_evidence tool a ob st)) = Suc (evidence_counter st)"
  "evidence_calls (evidence_file (snd (record_evidence tool a ob st)))
     = evidence_calls (evidence_file st) @ [(step st, tool, a)]"
  "map ev_id (evidence_file (snd (record_evidence tool a ob st)))
     = map ev_id (evidence_file st) @ [evidence_id (Suc (evidence_counter st))]"
  "length (evidence_file (snd (record_evidence tool a ob st))) = Suc (length (evidence_file st))"
  by (simp_all add: record_evidence_def Let_def evidence_calls_def)


lemma observe_effect:
  "fst (observe pk call ob st) = Some (evidence_id (Suc (evidence_counter st)))"
  "evidence_counter (snd (observe pk call ob st)) = Suc (evidence_counter st)"
  "evidence_calls (evidence_file (snd (observe pk call ob st)))
     = evidence_calls (evidence_file st) @ [(step st, tc_tool call, tc_args call)]"
  "map ev_id (evidence_file (snd (observe pk call ob st)))
     = map ev_id (evidence_file st) @ [evidence_id (Suc (evidence_counter st))]"
  "trace (snd (observe pk call ob st))
     = trace st @ [EvPolicy pk (step st),
                   EvTool ScAgent (Some (step st)) (tc_tool call) (tc_args call) (Some ob)]"
  "history (snd (observe pk call ob st)) = history st @ [UserObservation (tc_tool call) ob]"
  by (simp_all add: observe_def record_evidence_effect record_evidence_frame trace_event_frame
      history_append_frame, simp_all add: trace_event_def history_append_def)


lemma note_step_effect:
  "tool_calls_made (note_step call ob eid st) = Suc (tool_calls_made st)"
  "raised st = None \<Longrightarrow> raised (note_step call ob eid st)
     = note_denied (StepBlock (step st) (tc_tool call) (tc_args call) ob eid)"
  "trace (note_step call ob eid st)
     = trace st @ (case note_denied (StepBlock (step st) (tc_tool call) (tc_args call) ob eid) of
                     None \<Rightarrow> [EvTool ScRuntime (Some 0) ''shell'' [] None] | Some e \<Rightarrow> [])"
  "sandbox_log (note_step call ob eid st)
     = sandbox_log st
       @ (case note_denied (StepBlock (step st) (tc_tool call) (tc_args call) ob eid) of
            None \<Rightarrow> [RuntimeNotesAppend (StepBlock (step st) (tc_tool call) (tc_args call) ob eid)]
          | Some e \<Rightarrow> [])"
  by (simp_all add: note_step_def notes_append_cases split: option.splits)

lemma settle_effect:
  "tool_calls_made (settle call ob eid st) = Suc (tool_calls_made st)"
  "raised st = None \<Longrightarrow> raised (settle call ob eid st)
     = note_denied (StepBlock (step st) (tc_tool call) (tc_args call) ob eid)"
  "trace (settle call ob eid st)
     = trace st @ (case note_denied (StepBlock (step st) (tc_tool call) (tc_args call) ob eid) of
                     None \<Rightarrow> [EvTool ScRuntime (Some 0) ''shell'' [] None] | Some e \<Rightarrow> [])"
  "sandbox_log (settle call ob eid st)
     = sandbox_log st
       @ (case note_denied (StepBlock (step st) (tc_tool call) (tc_args call) ob eid) of
            None \<Rightarrow> [RuntimeNotesAppend (StepBlock (step st) (tc_tool call) (tc_args call) ob eid)]
          | Some e \<Rightarrow> [])"
  by (simp_all add: settle_def unless_raised_def note_step_effect note_step_frame
      reset_stagnation_frame)









section \<open>Notes that the deny check accepts\<close>

lemma startswith_across:
  assumes "c \<notin> set w"
  shows "startswith (x @ c # y) w = startswith x w"
  using assms
proof (induction x arbitrary: w)
  case Nil
  then show ?case by (cases w) (auto simp add: startswith_def)
next
  case (Cons a x)
  show ?case
  proof (cases w)
    case Nil
    then show ?thesis by (simp add: startswith_def)
  next
    case (Cons b w')
    then have "c \<notin> set w'" using Cons.prems by simp
    then have "startswith (x @ c # y) w' = startswith x w'" by (rule Cons.IH)
    then show ?thesis using Cons by (simp add: startswith_def)
  qed
qed

lemma contains_across:
  assumes "c \<notin> set w"
  shows "contains (x @ c # y) w = (contains x w \<or> contains y w)"
proof (induction x)
  case Nil
  have "startswith (c # y) w = (w = [])"
    using assms by (cases w) (auto simp add: startswith_def)
  then show ?case by auto
next
  case (Cons a x)
  have "startswith ((a # x) @ c # y) w = startswith (a # x) w"
    by (rule startswith_across[OF assms])
  then show ?case using Cons by auto
qed

lemma strip_id:
  assumes "\<not> is_space c" and "\<not> is_space d"
  shows "strip (c # s @ [d]) = c # s @ [d]"
  using assms by (simp add: strip_def)

lemma notes_append_script_parts:
  "notes_append_script text
     = append_script_before @ SQ # b64encode text @ SQ # append_script_after"
  by (simp add: notes_append_script_def append_script_before_def append_script_after_def
      decode_line_def)

lemma append_script_before_free: "\<not> list_ex (contains append_script_before) deny_words"
  by code_simp

lemma append_script_after_free: "\<not> list_ex (contains append_script_after) deny_words"
  by code_simp

lemma deny_words_no_quote: "w \<in> set deny_words \<Longrightarrow> SQ \<notin> set w"
  by (auto simp add: deny_words_def SQ_def)

lemma notes_append_script_strip: "strip (notes_append_script text) = notes_append_script text"
proof -
  have "notes_append_script text
          = CHR ''p'' # (tl (butlast (notes_append_script text))) @ [CHR ''Y'']"
    by (simp add: notes_append_script_def script_head_def print_ok_def butlast_append)
  then show ?thesis
    using strip_id[of "CHR ''p''" "CHR ''Y''" "tl (butlast (notes_append_script text))"]
    by (simp add: is_space_def code_def)
qed

lemma note_accepted:
  assumes "\<not> list_ex (contains (b64encode (render_note t))) deny_words"
  shows "note_denied t = None"
proof -
  have "\<not> contains (notes_append_script (render_note t)) w" if w: "w \<in> set deny_words" for w
  proof -
    have q: "SQ \<notin> set w" using w by (rule deny_words_no_quote)
    have "\<not> contains append_script_before w" "\<not> contains append_script_after w"
      "\<not> contains (b64encode (render_note t)) w"
      using w append_script_before_free append_script_after_free assms
      by (auto simp add: list_ex_iff)
    then show ?thesis
      by (simp add: notes_append_script_parts contains_across[OF q])
  qed
  then have "\<not> list_ex (contains (notes_append_script (render_note t))) deny_words"
    by (auto simp add: list_ex_iff)
  then show ?thesis
    unfolding note_denied_def notes_append_script_strip by (rule deny_free)
qed

lemma answer_note_accepted:
  "note_denied (ModelOutput 4 ''no_tool'' ''Final answer: 42'') = None"
  by (rule note_accepted) code_simp



text \<open>
  The second case is met: for the command \<open>echo xx\<dots> > notes.md\<close> below, whose five
  bytes after \<open>xx\<close> are the UTF-8 of U+03DD and of U+20AC around a \<open>w\<close>, the base64 text of
  the step block contains \<open>+dd+\<close>, the deny check of the belt finds \<open>\bdd\b\<close> in the
  runtime's script, and the call, blocked and recorded, ends the loop with the
  \<open>ValueError\<close>.
\<close>

lemma denied_note_example:
  "re_search (snd (DENY_PATTERNS ! 1))
     (notes_append_script (render_note
        (StepBlock 1 ''shell''
           [(''cmd'', ''echo xx'' @ [CHR 0xCF, CHR 0x9D] @ ''w'' @ [CHR 0xE2, CHR 0x82, CHR 0xAC]
                      @ '' > notes.md'')]
           obs_notes_overwrite (Some (evidence_id 1)))))"
  by code_simp

lemma overwrite_example_utf8:
  "notes_write_mode (''echo xx'' @ [CHR 0xCF, CHR 0x9D] @ ''w'' @ [CHR 0xE2, CHR 0x82, CHR 0xAC]
                     @ '' > notes.md'') = Some Overwrite"
  by code_simp

lemma block_notes_overwrite_raised:
  assumes "raised st = None"
  shows "raised (block_notes_overwrite call st)
           = note_denied (StepBlock (step st) (tc_tool call) (tc_args call) obs_notes_overwrite
                            (Some (evidence_id (Suc (evidence_counter st)))))"
  using assms
  by (simp add: block_notes_overwrite_def split_beta settle_effect observe_frame observe_effect)

lemma blocked_overwrite_raises:
  assumes "tc_tool call = ''shell''"
    and "notes_write_mode (args_cmd (tc_args call)) = Some Overwrite"
    and "raised st = None"
    and "note_denied (StepBlock (step st) ''shell'' (tc_args call) obs_notes_overwrite
                        (Some (evidence_id (Suc (evidence_counter st))))) = Some e"
  shows "fst (tool_call_step cfg resp (call, rep) st) = Raise e"
proof -
  let ?st = "policy_choice st"
  have gate: "overwrite_gate call (classify_call cfg ?st call)"
    using assms by (simp add: overwrite_gate_def classify_call_def Let_def)
  have s: "tool_call_step cfg resp (call, rep) st = blocked_by (block_notes_overwrite call ?st)"
    using gate by (simp add: tool_call_step_def Let_def)
  have r: "raised ?st = None" using assms(3) by (simp add: policy_choice_frame)
  have "raised (block_notes_overwrite call ?st) = Some e"
    using block_notes_overwrite_raised[OF r, of call] assms(1,4)
    by (simp add: policy_choice_frame)
  then show ?thesis by (simp add: s blocked_by_def outcome_of_def)
qed

lemma overwrite_block_can_raise:
  "\<exists>e. fst (tool_call_step cfg resp
             (\<lparr>tc_tool = ''shell'',
               tc_args = [(''cmd'', ''echo xx'' @ [CHR 0xCF, CHR 0x9D] @ ''w''
                                   @ [CHR 0xE2, CHR 0x82, CHR 0xAC] @ '' > notes.md'')]\<rparr>, rep)
             ((initial_locals cfg)\<lparr>step := 1\<rparr>)) = Raise e"
proof -
  define cmd where "cmd = ''echo xx'' @ [CHR 0xCF, CHR 0x9D] @ ''w'' @ [CHR 0xE2, CHR 0x82, CHR 0xAC]
              @ '' > notes.md''"
  define call where "call = \<lparr>tc_tool = ''shell'', tc_args = [(''cmd'', cmd)]\<rparr>"
  define st where "st = (initial_locals cfg)\<lparr>step := 1\<rparr>"
  define blk where
    "blk = StepBlock 1 ''shell'' [(''cmd'', cmd)] obs_notes_overwrite (Some (evidence_id 1))"
  have "DENY_PATTERNS ! 1 \<in> set DENY_PATTERNS" by (simp add: DENY_PATTERNS_def)
  moreover have "re_search (snd (DENY_PATTERNS ! 1)) (notes_append_script (render_note blk))"
    unfolding blk_def cmd_def by (rule denied_note_example)
  ultimately have "\<exists>q \<in> set DENY_PATTERNS.
        re_search (snd q) (notes_append_script (render_note blk))
        \<and> deny_check (notes_append_script (render_note blk))
            = Some (ValueError (''Denied command pattern matched: '' @ fst q))"
    by (rule deny_check_hit)
  then obtain e where d: "note_denied blk = Some e"
    by (auto simp add: note_denied_def notes_append_script_strip)
  have a: "tc_tool call = ''shell''" by (simp add: call_def)
  have b: "notes_write_mode (args_cmd (tc_args call)) = Some Overwrite"
    using overwrite_example_utf8 by (simp add: call_def args_cmd_def cmd_def)
  have c: "raised st = None" by (simp add: st_def initial_locals_def)
  have n: "StepBlock (step st) ''shell'' (tc_args call) obs_notes_overwrite
             (Some (evidence_id (Suc (evidence_counter st)))) = blk"
    by (simp add: st_def call_def blk_def initial_locals_def)
  have "fst (tool_call_step cfg resp (call, rep) st) = Raise e"
    by (rule blocked_overwrite_raises[OF a b c]) (simp only: n d)
  then show ?thesis unfolding call_def st_def cmd_def by blast
qed



section \<open>What a tool call adds to the trace and to the evidence file\<close>

lemma agent_tool_calls_append:
  "agent_tool_calls (xs @ ys) = agent_tool_calls xs @ agent_tool_calls ys"
  by (induction xs rule: agent_tool_calls.induct) simp_all

lemma notes_append_quiet:
  "agent_tool_calls (trace (notes_append t st)) = agent_tool_calls (trace st)"
  by (simp add: notes_append_cases agent_tool_calls_append split: option.splits)

lemma note_step_quiet:
  "agent_tool_calls (trace (note_step call ob eid st)) = agent_tool_calls (trace st)"
  by (simp add: note_step_def notes_append_quiet notes_append_frame)

lemma settle_quiet:
  "agent_tool_calls (trace (settle call ob eid st)) = agent_tool_calls (trace st)"
  by (simp add: settle_def unless_raised_def note_step_quiet reset_stagnation_frame)

lemma block_notes_overwrite_effect:
  "step (block_notes_overwrite call st) = step st"
  "tool_calls_made (block_notes_overwrite call st) = Suc (tool_calls_made st)"
  "evidence_counter (block_notes_overwrite call st) = Suc (evidence_counter st)"
  "evidence_calls (evidence_file (block_notes_overwrite call st))
     = evidence_calls (evidence_file st) @ [(step st, tc_tool call, tc_args call)]"
  "map ev_id (evidence_file (block_notes_overwrite call st))
     = map ev_id (evidence_file st) @ [evidence_id (Suc (evidence_counter st))]"
  "agent_tool_calls (trace (block_notes_overwrite call st))
     = agent_tool_calls (trace st) @ [(step st, tc_tool call, tc_args call)]"
  "verifier_rounds (block_notes_overwrite call st) = verifier_rounds st"
  "pending_gradient (block_notes_overwrite call st) = pending_gradient st"
  "gradient_reminders (block_notes_overwrite call st) = gradient_reminders st"
  "length_nudges (block_notes_overwrite call st) = length_nudges st"
  "last_resp (block_notes_overwrite call st) = last_resp st"
  by (simp_all add: block_notes_overwrite_def split_beta settle_effect(1) settle_frame settle_quiet observe_effect
      observe_frame ledger_move_frame ledger_query_frame agent_tool_calls_append)

lemma block_notes_required_effect:
  "step (block_notes_required call st) = step st"
  "tool_calls_made (block_notes_required call st) = Suc (tool_calls_made st)"
  "evidence_counter (block_notes_required call st) = Suc (evidence_counter st)"
  "evidence_calls (evidence_file (block_notes_required call st))
     = evidence_calls (evidence_file st) @ [(step st, tc_tool call, tc_args call)]"
  "map ev_id (evidence_file (block_notes_required call st))
     = map ev_id (evidence_file st) @ [evidence_id (Suc (evidence_counter st))]"
  "agent_tool_calls (trace (block_notes_required call st))
     = agent_tool_calls (trace st) @ [(step st, tc_tool call, tc_args call)]"
  "verifier_rounds (block_notes_required call st) = verifier_rounds st"
  "pending_gradient (block_notes_required call st) = pending_gradient st"
  "gradient_reminders (block_notes_required call st) = gradient_reminders st"
  "length_nudges (block_notes_required call st) = length_nudges st"
  "last_resp (block_notes_required call st) = last_resp st"
  by (simp_all add: block_notes_required_def split_beta settle_effect(1) settle_frame settle_quiet observe_effect
      observe_frame ledger_move_frame ledger_query_frame agent_tool_calls_append)

lemma block_query_mutation_effect:
  "step (block_query_mutation cfg call d st) = step st"
  "tool_calls_made (block_query_mutation cfg call d st) = Suc (tool_calls_made st)"
  "evidence_counter (block_query_mutation cfg call d st) = Suc (evidence_counter st)"
  "evidence_calls (evidence_file (block_query_mutation cfg call d st))
     = evidence_calls (evidence_file st) @ [(step st, tc_tool call, tc_args call)]"
  "map ev_id (evidence_file (block_query_mutation cfg call d st))
     = map ev_id (evidence_file st) @ [evidence_id (Suc (evidence_counter st))]"
  "agent_tool_calls (trace (block_query_mutation cfg call d st))
     = agent_tool_calls (trace st) @ [(step st, tc_tool call, tc_args call)]"
  "verifier_rounds (block_query_mutation cfg call d st) = verifier_rounds st"
  "pending_gradient (block_query_mutation cfg call d st) = pending_gradient st"
  "gradient_reminders (block_query_mutation cfg call d st) = gradient_reminders st"
  "length_nudges (block_query_mutation cfg call d st) = length_nudges st"
  "last_resp (block_query_mutation cfg call d st) = last_resp st"
  by (simp_all add: block_query_mutation_def Let_def unless_raised_def reset_stagnation_frame note_step_frame note_step_effect(1) note_step_quiet split_beta settle_effect(1) settle_frame settle_quiet observe_effect
      observe_frame ledger_move_frame ledger_query_frame agent_tool_calls_append)

lemma block_domain_shift_effect:
  "step (block_domain_shift call d st) = step st"
  "tool_calls_made (block_domain_shift call d st) = Suc (tool_calls_made st)"
  "evidence_counter (block_domain_shift call d st) = Suc (evidence_counter st)"
  "evidence_calls (evidence_file (block_domain_shift call d st))
     = evidence_calls (evidence_file st) @ [(step st, tc_tool call, tc_args call)]"
  "map ev_id (evidence_file (block_domain_shift call d st))
     = map ev_id (evidence_file st) @ [evidence_id (Suc (evidence_counter st))]"
  "agent_tool_calls (trace (block_domain_shift call d st))
     = agent_tool_calls (trace st) @ [(step st, tc_tool call, tc_args call)]"
  "verifier_rounds (block_domain_shift call d st) = verifier_rounds st"
  "pending_gradient (block_domain_shift call d st) = pending_gradient st"
  "gradient_reminders (block_domain_shift call d st) = gradient_reminders st"
  "length_nudges (block_domain_shift call d st) = length_nudges st"
  "last_resp (block_domain_shift call d st) = last_resp st"
  by (simp_all add: block_domain_shift_def Let_def split_beta settle_effect(1) settle_frame settle_quiet observe_effect
      observe_frame ledger_move_frame ledger_query_frame agent_tool_calls_append)

lemma dispatch_effect:
  "tool_calls_made (snd (snd (dispatch call rep st))) = Suc (tool_calls_made st)"
  "evidence_counter (snd (snd (dispatch call rep st))) = Suc (evidence_counter st)"
  "evidence_calls (evidence_file (snd (snd (dispatch call rep st))))
     = evidence_calls (evidence_file st) @ [(step st, tc_tool call, tc_args call)]"
  "map ev_id (evidence_file (snd (snd (dispatch call rep st))))
     = map ev_id (evidence_file st) @ [evidence_id (Suc (evidence_counter st))]"
  "trace (snd (snd (dispatch call rep st)))
     = trace st @ [EvTool ScAgent (Some (step st)) (tc_tool call) (tc_args call)
                     (Some (fst (dispatch call rep st)))]"
  "fst (snd (dispatch call rep st)) = Some (evidence_id (Suc (evidence_counter st)))"
  by (simp_all add: dispatch_def Let_def record_evidence_frame record_evidence_effect
      trace_event_frame history_append_frame run_tool_frame,
      simp_all add: trace_event_def history_append_def run_tool_frame)

lemma write_ledgers_quiet:
  "agent_tool_calls (trace (write_ledgers call d ob eid st)) = agent_tool_calls (trace st)"
  by (simp add: write_ledgers_def Let_def notes_append_quiet ledger_move_frame
      ledger_query_frame)

lemma finalization_stop_quiet:
  "agent_tool_calls (trace (snd (finalization_stop resp call st))) = agent_tool_calls (trace st)"
  by (simp add: finalization_stop_def Let_def trace_event_def agent_tool_calls_append)

lemma execute_call_unfold:
  "snd (execute_call cfg resp call rep d st)
     = (let st3 = snd (snd (dispatch call rep st));
            st7 = write_ledgers call d (fst (dispatch call rep st))
                    (fst (snd (dispatch call rep st))) st3
        in if raised st7 \<noteq> None then st7
           else snd (finalization_stop resp call
                       (update_streaks cfg d (last_failure_type st3) st7)))"
  by (simp add: execute_call_def split_beta Let_def split: option.splits)

lemma execute_call_effect:
  "step (snd (execute_call cfg resp call rep d st)) = step st"
  "tool_calls_made (snd (execute_call cfg resp call rep d st)) = Suc (tool_calls_made st)"
  "evidence_counter (snd (execute_call cfg resp call rep d st)) = Suc (evidence_counter st)"
  "evidence_calls (evidence_file (snd (execute_call cfg resp call rep d st)))
     = evidence_calls (evidence_file st) @ [(step st, tc_tool call, tc_args call)]"
  "map ev_id (evidence_file (snd (execute_call cfg resp call rep d st)))
     = map ev_id (evidence_file st) @ [evidence_id (Suc (evidence_counter st))]"
  "agent_tool_calls (trace (snd (execute_call cfg resp call rep d st)))
     = agent_tool_calls (trace st) @ [(step st, tc_tool call, tc_args call)]"
  "verifier_rounds (snd (execute_call cfg resp call rep d st)) = verifier_rounds st"
  "pending_gradient (snd (execute_call cfg resp call rep d st)) = pending_gradient st"
  "gradient_reminders (snd (execute_call cfg resp call rep d st)) = gradient_reminders st"
  "length_nudges (snd (execute_call cfg resp call rep d st)) = length_nudges st"
  "last_resp (snd (execute_call cfg resp call rep d st)) = last_resp st"
  by (simp_all add: execute_call_unfold Let_def finalization_stop_frame finalization_stop_quiet
      update_streaks_frame write_ledgers_frame write_ledgers_quiet dispatch_frame
      dispatch_effect agent_tool_calls_append)

lemma policy_choice_quiet:
  "agent_tool_calls (trace (policy_choice st)) = agent_tool_calls (trace st)"
  by (simp add: policy_choice_def trace_event_def agent_tool_calls_append split: option.splits)

lemma tool_call_step_effect:
  "step (snd (tool_call_step cfg resp (call, rep) st)) = step st"
  "tool_calls_made (snd (tool_call_step cfg resp (call, rep) st)) = Suc (tool_calls_made st)"
  "evidence_counter (snd (tool_call_step cfg resp (call, rep) st)) = Suc (evidence_counter st)"
  "evidence_calls (evidence_file (snd (tool_call_step cfg resp (call, rep) st)))
     = evidence_calls (evidence_file st) @ [(step st, tc_tool call, tc_args call)]"
  "map ev_id (evidence_file (snd (tool_call_step cfg resp (call, rep) st)))
     = map ev_id (evidence_file st) @ [evidence_id (Suc (evidence_counter st))]"
  "agent_tool_calls (trace (snd (tool_call_step cfg resp (call, rep) st)))
     = agent_tool_calls (trace st) @ [(step st, tc_tool call, tc_args call)]"
  "verifier_rounds (snd (tool_call_step cfg resp (call, rep) st)) = verifier_rounds st"
  "pending_gradient (snd (tool_call_step cfg resp (call, rep) st)) = None"
  "length_nudges (snd (tool_call_step cfg resp (call, rep) st)) = length_nudges st"
  "last_resp (snd (tool_call_step cfg resp (call, rep) st)) = last_resp st"
  by (simp_all add: tool_call_step_def Let_def blocked_by_def block_notes_overwrite_effect
      block_notes_required_effect block_query_mutation_effect block_domain_shift_effect
      execute_call_effect raise_domain_shift_frame policy_choice_frame policy_choice_quiet,
      simp_all add: policy_choice_def trace_event_def split: option.splits)



section \<open>The evidence file follows the trace\<close>

lemma quiet_stages:
  "agent_tool_calls (trace (trace_event (EvPolicy k n) st)) = agent_tool_calls (trace st)"
  "agent_tool_calls (trace (history_append m st)) = agent_tool_calls (trace st)"
  "agent_tool_calls (trace (pre_turn cfg st)) = agent_tool_calls (trace st)"
  "agent_tool_calls (trace (receive inp st)) = agent_tool_calls (trace st)"
  "agent_tool_calls (trace (log_model_output r t st)) = agent_tool_calls (trace st)"
  "agent_tool_calls (trace (gradient_reminder st)) = agent_tool_calls (trace st)"
  "agent_tool_calls (trace (reminder_overflow st)) = agent_tool_calls (trace st)"
  "agent_tool_calls (trace (stagnation_check cfg st)) = agent_tool_calls (trace st)"
  "agent_tool_calls (trace (length_nudge inp st)) = agent_tool_calls (trace st)"
  by (simp_all add: trace_event_def history_append_def pre_turn_frame receive_def
      log_model_output_def notes_append_quiet gradient_reminder_def
      reminder_overflow_def stagnation_check_def length_nudge_def Let_def
      agent_tool_calls_append)

lemma agent_tool_calls_verifier_events:
  "agent_tool_calls (map EvVerifierInner es) = []"
  by (induction es) simp_all

lemma no_tool_checks_quiet:
  "agent_tool_calls (trace (no_tool_checks cfg r st)) = agent_tool_calls (trace st)"
  by (simp add: no_tool_checks_def unless_raised_def Let_def quiet_stages
      negative_claim_exhausted_frame citation_contract_frame)

lemma verify_stage_quiet:
  "agent_tool_calls (trace (snd (verify_stage r vr st))) = agent_tool_calls (trace st)"
  "evidence_file (snd (verify_stage r vr st)) = evidence_file st"
  "evidence_counter (snd (verify_stage r vr st)) = evidence_counter st"
  "step (snd (verify_stage r vr st)) = step st"
  "raised (snd (verify_stage r vr st)) = raised st"
  by (simp_all add: verify_stage_def Let_def invoke_verifier_def trace_event_def
      history_append_def agent_tool_calls_append agent_tool_calls_verifier_events
      split: option.splits)

lemma parse_error_turn_quiet:
  "agent_tool_calls (trace (snd (parse_error_turn inp err st))) = agent_tool_calls (trace st)"
  "evidence_file (snd (parse_error_turn inp err st)) = evidence_file st"
  "evidence_counter (snd (parse_error_turn inp err st)) = evidence_counter st"
  "step (snd (parse_error_turn inp err st)) = step st"
  by (simp_all add: parse_error_turn_def Let_def quiet_stages log_model_output_frame
      history_append_frame trace_event_frame)

lemma no_tool_turn_quiet:
  "agent_tool_calls (trace (snd (no_tool_turn cfg inp st))) = agent_tool_calls (trace st)"
  "evidence_file (snd (no_tool_turn cfg inp st)) = evidence_file st"
  "evidence_counter (snd (no_tool_turn cfg inp st)) = evidence_counter st"
  "step (snd (no_tool_turn cfg inp st)) = step st"
  by (simp_all add: no_tool_turn_def Let_def quiet_stages verify_stage_quiet
      no_tool_checks_quiet no_tool_checks_frame length_nudge_frame history_append_frame
      trace_event_frame)

lemma follows_step:
  assumes "follows st"
  shows "follows (snd (tool_call_step cfg resp cr st))"
proof -
  obtain call rep where cr: "cr = (call, rep)" by (cases cr)
  let ?st' = "snd (tool_call_step cfg resp (call, rep) st)"
  have l: "length (evidence_file ?st') = Suc (length (evidence_file st))"
    using arg_cong[OF tool_call_step_effect(5)[of cfg resp call rep st], of length] by simp
  show ?thesis
    using assms l unfolding follows_def cr
    by (simp add: tool_call_step_effect)
qed

lemma follows_loop:
  assumes "follows st"
  shows "follows (snd (tool_calls_loop cfg resp crs st))
         \<and> step (snd (tool_calls_loop cfg resp crs st)) = step st"
  using assms
proof (induction crs arbitrary: st)
  case Nil
  then show ?case by simp
next
  case (Cons cr crs)
  obtain call rep where cr: "cr = (call, rep)" by (cases cr)
  obtain oc st' where s: "tool_call_step cfg resp cr st = (oc, st')"
    by (cases "tool_call_step cfg resp cr st")
  have f: "follows st'" using follows_step[OF Cons.prems, of cfg resp cr] s by simp
  have p: "step st' = step st" using tool_call_step_effect(1)[of cfg resp call rep st] s cr by simp
  show ?case using Cons.IH[OF f] s p f by (cases oc) simp_all
qed

lemma follows_quiet:
  assumes "follows st"
    and "agent_tool_calls (trace st') = agent_tool_calls (trace st)"
    and "evidence_file st' = evidence_file st"
    and "evidence_counter st' = evidence_counter st"
  shows "follows st'"
  using assms by (simp add: follows_def)

lemma follows_turn:
  assumes "follows st"
  shows "follows (snd (turn cfg inp st))"
proof -
  let ?st = "receive inp (pre_turn cfg st)"
  have f0: "follows ?st"
    by (rule follows_quiet[OF assms]) (simp_all add: quiet_stages receive_frame pre_turn_frame)
  let ?calls = "if ti_tool_calls inp = [] \<and> truthy (p_tool_name (ti_parsed inp))
                then [(\<lparr>tc_tool = or_empty (p_tool_name (ti_parsed inp)),
                        tc_args = p_tool_args (ti_parsed inp)\<rparr>, ti_parsed_reply inp)]
                else ti_tool_calls inp"
  consider (perr) "ti_tool_calls inp = [] \<and> truthy (p_error (ti_parsed inp))"
    | (remind) "\<not> (ti_tool_calls inp = [] \<and> truthy (p_error (ti_parsed inp)))"
        "?calls = [] \<and> pending_gradient ?st \<noteq> None \<and> Suc (gradient_reminders ?st) \<le> 4"
    | (notool) "\<not> (ti_tool_calls inp = [] \<and> truthy (p_error (ti_parsed inp)))"
        "\<not> (?calls = [] \<and> pending_gradient ?st \<noteq> None \<and> Suc (gradient_reminders ?st) \<le> 4)"
        "?calls = []"
    | (tools) "\<not> (ti_tool_calls inp = [] \<and> truthy (p_error (ti_parsed inp)))"
        "\<not> (?calls = [] \<and> pending_gradient ?st \<noteq> None \<and> Suc (gradient_reminders ?st) \<le> 4)"
        "?calls \<noteq> []"
    by blast
  then show ?thesis
  proof cases
    case perr
    then have "turn cfg inp st = parse_error_turn inp (or_empty (p_error (ti_parsed inp))) ?st"
      by (auto simp add: turn_def Let_def)
    then show ?thesis
      using follows_quiet[OF f0, of "snd (parse_error_turn inp (or_empty (p_error (ti_parsed inp))) ?st)"]
      by (simp add: parse_error_turn_quiet)
  next
    case remind
    then have "turn cfg inp st
        = (Continue, history_append (User msg_gradient_reminder)
                       (history_append (Assistant (ti_resp inp)) (gradient_reminder ?st)))"
      by (auto simp add: turn_def Let_def)
    then show ?thesis
      using follows_quiet[OF f0, of "history_append (User msg_gradient_reminder)
                       (history_append (Assistant (ti_resp inp)) (gradient_reminder ?st))"]
      by (simp add: quiet_stages history_append_frame gradient_reminder_frame)
  next
    case notool
    define st1 where "st1 = (if ?calls = [] \<and> pending_gradient ?st \<noteq> None
                             then reminder_overflow ?st else ?st)"
    have f1: "follows st1"
      unfolding st1_def using f0 follows_quiet[OF f0, of "reminder_overflow ?st"]
      by (simp add: quiet_stages reminder_overflow_frame)
    have "turn cfg inp st = no_tool_turn cfg inp st1"
      using notool unfolding st1_def by (auto simp add: turn_def Let_def)
    then show ?thesis
      using follows_quiet[OF f1, of "snd (no_tool_turn cfg inp st1)"]
      by (simp add: no_tool_turn_quiet)
  next
    case tools
    define st1 where "st1 = history_append (Assistant (ti_resp inp)) (?st\<lparr>parse_error_hits := 0\<rparr>)"
    have f1: "follows st1"
      unfolding st1_def using follows_quiet[OF f0, of "history_append (Assistant (ti_resp inp)) (?st\<lparr>parse_error_hits := 0\<rparr>)"]
      by (simp add: history_append_def)
    have "turn cfg inp st = tool_calls_loop cfg (ti_resp inp) ?calls st1"
      using tools unfolding st1_def by (auto simp add: turn_def Let_def)
    then show ?thesis using follows_loop[OF f1, of cfg "ti_resp inp" ?calls] by simp
  qed
qed

lemma follows_run_loop:
  assumes "follows st"
  shows "follows (snd (run_loop cfg inps st))"
  using assms
proof (induction inps arbitrary: st)
  case Nil
  then show ?case by simp
next
  case (Cons inp inps)
  let ?s1 = "st\<lparr>step := Suc (step st)\<rparr>"
  have f1: "follows ?s1" using Cons.prems by (simp add: follows_def)
  show ?case
  proof (cases "max_steps cfg > 0 \<and> int (step ?s1) > max_steps cfg")
    case True
    then show ?thesis using f1 by (auto simp add: Let_def)
  next
    case False
    obtain oc st2 where t: "turn cfg inp ?s1 = (oc, st2)" by (cases "turn cfg inp ?s1")
    have f2: "follows st2" using follows_turn[OF f1, of cfg inp] t by simp
    show ?thesis using False t Cons.IH[OF f2] f2 by (cases oc) (auto simp add: Let_def)
  qed
qed

lemma follows_init: "follows (init_state cfg)"
proof -
  have a: "follows (initial_locals cfg)"
    by (simp add: follows_def initial_locals_def evidence_calls_def)
  have r: "follows (runtime_shell s c st)" if "follows st" for s c st
    using that
    by (auto simp add: follows_def runtime_shell_def trace_event_def agent_tool_calls_append
        split: prod.splits sum.splits)
  have b: "follows (notes_reset t (initial_locals cfg))" for t
    unfolding notes_reset_def by (rule r[OF a])
  show ?thesis
    using b r
    by (auto simp add: init_state_def unless_raised_def follows_def trace_event_def
        agent_tool_calls_append)
qed

lemma follows_run_agent: "follows (snd (run_agent cfg inps))"
  using follows_run_loop[OF follows_init, of cfg inps] follows_init[of cfg]
  by (simp add: run_agent_def Let_def split: option.splits)



section \<open>The form of the evidence ids\<close>

lemma ndigits_le: "n < 10 ^ k \<Longrightarrow> 0 < k \<Longrightarrow> ndigits f n \<le> k"
proof (induction f arbitrary: n k)
  case 0
  then show ?case by simp
next
  case (Suc f)
  show ?case
  proof (cases "n < 10")
    case True
    then show ?thesis using Suc.prems by simp
  next
    case False
    then obtain j where k: "k = Suc j" using Suc.prems by (cases k) auto
    have "0 < j" using False Suc.prems k by (cases j) auto
    moreover have "n div 10 < 10 ^ j"
      using Suc.prems k by (simp add: less_mult_imp_div_less mult.commute)
    ultimately have "ndigits f (n div 10) \<le> j" by (rule Suc.IH[rotated])
    then show ?thesis using False k by simp
  qed
qed

lemma digits_length: "length (digits k n) = k"
  by (induction k arbitrary: n) simp_all

lemma digits_4:
  "digits 4 n = [char_of (48 + n div 1000 mod 10), char_of (48 + n div 100 mod 10),
                 char_of (48 + n div 10 mod 10), char_of (48 + n mod 10)]"
proof -
  have a: "n div 1000 = n div 10 div 10 div 10" "n div 100 = n div 10 div 10"
    by (simp_all add: div_mult2_eq[symmetric])
  have "digits (Suc (Suc (Suc (Suc 0)))) n
          = [char_of (48 + n div 10 div 10 div 10 mod 10), char_of (48 + n div 10 div 10 mod 10),
             char_of (48 + n div 10 mod 10), char_of (48 + n mod 10)]"
    by simp
  moreover have "(4 :: nat) = Suc (Suc (Suc (Suc 0)))" by simp
  ultimately show ?thesis by (simp only: a)
qed

lemma fmt_04d_small:
  assumes "n < 10000"
  shows "fmt_04d n = digits 4 n"
proof -
  have "ndigits n n \<le> 4" using ndigits_le[of n 4 n] assms by simp
  then have "max 4 (ndigits n n) = 4" by simp
  then show ?thesis by (simp add: fmt_04d_def)
qed

lemma digit_char_less:
  assumes "a < 10" "b < 10"
  shows "(char_of (48 + a) :: char) < char_of (48 + b) \<longleftrightarrow> (a::nat) < b"
  using assms by (simp add: less_char_def)

lemma digits_mono:
  assumes "n < m" and "m < 10 ^ k"
  shows "digits k n < digits k m"
  using assms
proof (induction k arbitrary: n m)
  case 0
  then show ?case by simp
next
  case (Suc k)
  have le: "n div 10 \<le> m div 10" using Suc.prems(1) by (simp add: div_le_mono)
  show ?case
  proof (cases "n div 10 < m div 10")
    case True
    have "m div 10 < 10 ^ k"
      using Suc.prems(2) by (simp add: less_mult_imp_div_less mult.commute)
    then have "digits k (n div 10) < digits k (m div 10)" by (rule Suc.IH[OF True])
    then have "(digits k (n div 10), digits k (m div 10)) \<in> lexord {(u, v). u < v}"
      by (simp add: list_less_def)
    then have "(digits k (n div 10) @ [char_of (48 + n mod 10)],
                digits k (m div 10) @ [char_of (48 + m mod 10)]) \<in> lexord {(u, v). u < v}"
      by (rule lexord_sufI) (simp add: digits_length)
    then show ?thesis by (simp add: list_less_def)
  next
    case False
    then have eq: "n div 10 = m div 10" using le by simp
    have "n mod 10 < m mod 10"
    proof -
      have "n = 10 * (n div 10) + n mod 10" "m = 10 * (m div 10) + m mod 10" by simp_all
      then show ?thesis using Suc.prems(1) eq by linarith
    qed
    then have "(char_of (48 + n mod 10) :: char) < char_of (48 + m mod 10)"
      by (simp add: digit_char_less)
    then have "([char_of (48 + n mod 10) :: char], [char_of (48 + m mod 10)])
                 \<in> lexord {(u, v). u < v}"
      by simp
    then have "(digits k (m div 10) @ [char_of (48 + n mod 10)],
                digits k (m div 10) @ [char_of (48 + m mod 10)]) \<in> lexord {(u, v). u < v}"
      by (rule lexord_append_leftI)
    then show ?thesis by (simp add: list_less_def eq)
  qed
qed

lemma evidence_id_small:
  assumes "n < 10000"
  shows "evidence_id n = ''ev_'' @ [char_of (48 + n div 1000 mod 10), char_of (48 + n div 100 mod 10),
                                   char_of (48 + n div 10 mod 10), char_of (48 + n mod 10)]"
  using assms by (simp add: evidence_id_def fmt_04d_small digits_4)

lemma evidence_id_mono:
  assumes "n < m" and "m < 10000"
  shows "evidence_id n < evidence_id m"
proof -
  have "digits 4 n < digits 4 m" using assms by (intro digits_mono) simp_all
  moreover have "n < 10000" using assms by simp
  ultimately show ?thesis using assms(2) by (simp add: evidence_id_def fmt_04d_small)
qed


end
